theory Spec2Isabelle
  imports Complex_Main
begin

section \<open>Errors and tensors\<close>

text \<open>
  The exceptions that the modelled code can raise.  \<open>NoCudaDevice\<close> is what \<^verbatim>\<open>.cuda()\<close> raises
  where no CUDA device can be used: an \<^verbatim>\<open>AssertionError\<close> of a library built without CUDA
  support, a \<^verbatim>\<open>RuntimeError\<close> of one built with it.  Tensor entries are exact reals:
  rounding, infinities and NaN of the floating-point substrate are not part of the tensors
  of this model.  (The Laplacian below is the one place with values for them.)
\<close>

datatype error =
  RuntimeError | AttributeError string | IndexError | ValueError | TypeError | NoCudaDevice

text \<open>
  A dense contiguous tensor of numbers of the default floating-point type, which is the
  type of every parameter: its shape and its entries in row-major order.
\<close>

datatype tensor = Tensor (shape: "nat list") (data: "real list")

definition numel :: "tensor \<Rightarrow> nat" where
  "numel t = prod_list (shape t)"

definition wf_tensor :: "tensor \<Rightarrow> bool" where
  "wf_tensor t = (length (data t) = prod_list (shape t))"

text \<open>
  The argument list of \<^verbatim>\<open>view\<close>: a size, or \<^verbatim>\<open>-1\<close> for the dimension to infer.
\<close>

datatype dimspec = D nat | Infer

fun known_dims :: "dimspec list \<Rightarrow> nat list" where
  "known_dims [] = []"
| "known_dims (D n # ds) = n # known_dims ds"
| "known_dims (Infer # ds) = known_dims ds"

fun count_infer :: "dimspec list \<Rightarrow> nat" where
  "count_infer [] = 0"
| "count_infer (D n # ds) = count_infer ds"
| "count_infer (Infer # ds) = Suc (count_infer ds)"

fun fill_dims :: "nat \<Rightarrow> dimspec list \<Rightarrow> nat list" where
  "fill_dims m [] = []"
| "fill_dims m (D n # ds) = n # fill_dims m ds"
| "fill_dims m (Infer # ds) = m # fill_dims m ds"

text \<open>
  \<^verbatim>\<open>Tensor.view\<close>: the entries stay, the shape changes.  An inferred dimension needs the
  product of the others to be positive and to divide the number of elements; without an
  inferred dimension the sizes must multiply to the number of elements.
\<close>

definition view :: "tensor \<Rightarrow> dimspec list \<Rightarrow> error + tensor" where
  "view t spec =
     (let newsize = prod_list (known_dims spec) in
      if count_infer spec = 0 then
        (if newsize = numel t then Inr (Tensor (known_dims spec) (data t)) else Inl RuntimeError)
      else if count_infer spec = 1 then
        (if 0 < newsize \<and> numel t mod newsize = 0
         then Inr (Tensor (fill_dims (numel t div newsize) spec) (data t))
         else Inl RuntimeError)
      else Inl RuntimeError)"

definition map_tensor :: "(real \<Rightarrow> real) \<Rightarrow> tensor \<Rightarrow> tensor" where
  "map_tensor f t = Tensor (shape t) (map f (data t))"

definition sigmoid :: "real \<Rightarrow> real" where
  "sigmoid v = 1 / (1 + exp (- v))"

definition relu :: "real \<Rightarrow> real" where
  "relu v = max 0 v"


text \<open>Sequencing of fallible steps: the first raise ends the computation.\<close>

definition ebind :: "error + 'a \<Rightarrow> ('a \<Rightarrow> error + 'b) \<Rightarrow> error + 'b" where
  "ebind m f = (case m of Inl e \<Rightarrow> Inl e | Inr v \<Rightarrow> f v)"

subsection \<open>Index arithmetic of row-major storage\<close>

fun unravel_rev :: "nat list \<Rightarrow> nat \<Rightarrow> nat list" where
  "unravel_rev [] k = []"
| "unravel_rev (d # ds) k = (k mod d) # unravel_rev ds (k div d)"

text \<open>The multi-index of the entry stored at offset \<open>k\<close> of a tensor of shape \<open>s\<close>.\<close>

definition unravel :: "nat list \<Rightarrow> nat \<Rightarrow> nat list" where
  "unravel s k = rev (unravel_rev (rev s) k)"

fun ravel_from :: "nat \<Rightarrow> nat list \<Rightarrow> nat list \<Rightarrow> nat" where
  "ravel_from acc (d # ds) (i # is) = ravel_from (acc * d + i) ds is"
| "ravel_from acc _ _ = acc"

text \<open>The offset of the entry entry a multi-index.\<close>

definition ravel :: "nat list \<Rightarrow> nat list \<Rightarrow> nat" where
  "ravel s idx = ravel_from 0 s idx"

text \<open>The entry of a tensor at a multi-index.\<close>

definition tensor_at :: "tensor \<Rightarrow> nat list \<Rightarrow> real" where
  "tensor_at t idx = data t ! ravel (shape t) idx"

subsection \<open>Broadcasting\<close>

fun broadcast_rev :: "nat list \<Rightarrow> nat list \<Rightarrow> nat list option" where
  "broadcast_rev [] bs = Some bs"
| "broadcast_rev (a # as) [] = Some (a # as)"
| "broadcast_rev (a # as) (b # bs) =
     (if a = b \<or> b = 1 then map_option ((#) a) (broadcast_rev as bs)
      else if a = 1 then map_option ((#) b) (broadcast_rev as bs)
      else None)"

text \<open>
  The shape two operands broadcast to: trailing dimensions are aligned, and two sizes are
  compatible when they are equal or one of them is 1.
\<close>

definition broadcast_shapes :: "nat list \<Rightarrow> nat list \<Rightarrow> nat list option" where
  "broadcast_shapes s1 s2 = map_option rev (broadcast_rev (rev s1) (rev s2))"

text \<open>
  The entries of \<open>t\<close> read through a broadcast to shape \<open>target\<close>: a dimension of size 1
  is read at index 0, leading dimensions that \<open>t\<close> lacks are ignored.
\<close>

definition expand_data :: "tensor \<Rightarrow> nat list \<Rightarrow> real list" where
  "expand_data t target =
     map (\<lambda>k. data t !
            ravel (shape t)
              (map2 (\<lambda>d i. if d = 1 then 0 else i) (shape t)
                 (drop (length target - length (shape t)) (unravel target k))))
       [0..<prod_list target]"

definition binop :: "(real \<Rightarrow> real \<Rightarrow> real) \<Rightarrow> tensor \<Rightarrow> tensor \<Rightarrow> error + tensor" where
  "binop f a b =
     (case broadcast_shapes (shape a) (shape b) of
        None \<Rightarrow> Inl RuntimeError
      | Some s \<Rightarrow> Inr (Tensor s (map2 f (expand_data a s) (expand_data b s))))"

definition tmul :: "tensor \<Rightarrow> tensor \<Rightarrow> error + tensor" where
  "tmul a b = binop (\<lambda>u v. u * v) a b"

definition tdiv :: "tensor \<Rightarrow> tensor \<Rightarrow> error + tensor" where
  "tdiv a b = binop (\<lambda>u v. u / v) a b"

subsection \<open>Reductions and reshaping\<close>

text \<open>\<^verbatim>\<open>t.sum(dim=d)\<close>: the dimension \<open>d\<close> is summed out.\<close>

definition sum_dim :: "tensor \<Rightarrow> nat \<Rightarrow> error + tensor" where
  "sum_dim t d =
     (if d < length (shape t) then
        (let s' = take d (shape t) @ drop (Suc d) (shape t) in
         Inr (Tensor s'
           (map (\<lambda>k. sum_list
                   (map (\<lambda>j. data t !
                           ravel (shape t)
                             (take d (unravel s' k) @ [j] @ drop d (unravel s' k)))
                      [0..<shape t ! d]))
              [0..<prod_list s'])))
      else Inl IndexError)"

text \<open>\<^verbatim>\<open>t.unsqueeze(d)\<close>: a dimension of size 1 is inserted; a negative \<open>d\<close> counts from the end.\<close>

definition unsqueeze :: "tensor \<Rightarrow> int \<Rightarrow> error + tensor" where
  "unsqueeze t d =
     (let r = int (length (shape t)); d' = (if d < 0 then d + r + 1 else d) in
      if 0 \<le> d' \<and> d' \<le> r
      then Inr (Tensor (take (nat d') (shape t) @ [1] @ drop (nat d') (shape t)) (data t))
      else Inl IndexError)"

definition ones :: "nat list \<Rightarrow> tensor" where
  "ones s = Tensor s (replicate (prod_list s) 1)"

text \<open>\<^verbatim>\<open>t.size(d)\<close>\<close>

definition size_at :: "tensor \<Rightarrow> nat \<Rightarrow> error + nat" where
  "size_at t d = (if d < length (shape t) then Inr (shape t ! d) else Inl IndexError)"

section \<open>Tensors as autograd and the devices see them\<close>

text \<open>
  What a call of \<^verbatim>\<open>forward\<close> finds outside its arguments: whether gradients are being
  recorded (they are not inside \<^verbatim>\<open>torch.no_grad()\<close>), and whether a CUDA device can be used.
\<close>

record runtime =
  grad_enabled :: bool
  cuda_available :: bool

datatype device = CPU | CUDA

text \<open>
  A tensor with the two attributes that decide whether an operation on it raises:
  \<^verbatim>\<open>requires_grad\<close> and the device that holds it.
\<close>

datatype variable = Variable (tensor_of: tensor) (requires_grad: bool) (device_of: device)

text \<open>
  \<^verbatim>\<open>x.register_hook(hook)\<close> raises a \<^verbatim>\<open>RuntimeError\<close> on a tensor that does not require
  grad.  The hook itself runs in the backward pass, which is no part of \<^verbatim>\<open>forward\<close>.
\<close>

definition register_hook :: "variable \<Rightarrow> error + unit" where
  "register_hook x = (if requires_grad x then Inr () else Inl RuntimeError)"

text \<open>
  The result of an entrywise function: it requires grad when its argument does and
  gradients are recorded, and it is on the device of its argument.
\<close>

definition pointwise :: "runtime \<Rightarrow> (real \<Rightarrow> real) \<Rightarrow> variable \<Rightarrow> variable" where
  "pointwise rt f x =
     Variable (map_tensor f (tensor_of x)) (grad_enabled rt \<and> requires_grad x) (device_of x)"

text \<open>
  \<^verbatim>\<open>a * b\<close>: a \<^verbatim>\<open>RuntimeError\<close> when the shapes cannot be broadcast or when the operands are on
  different devices; the product requires grad when an operand does and gradients are
  recorded.
\<close>

definition product :: "runtime \<Rightarrow> variable \<Rightarrow> variable \<Rightarrow> error + variable" where
  "product rt a b =
     ebind (tmul (tensor_of a) (tensor_of b)) (\<lambda>t.
     if device_of a = device_of b
     then Inr (Variable t (grad_enabled rt \<and> (requires_grad a \<or> requires_grad b)) (device_of a))
     else Inl RuntimeError)"

section \<open>Forward hooks\<close>

text \<open>
  A module together with what \<^verbatim>\<open>register_forward_hook(save_computations)\<close> adds to it:
  whether the hook is registered, and the attributes \<^verbatim>\<open>input\<close> and \<^verbatim>\<open>output\<close> that the hook
  sets at every call (absent until the first call).
\<close>

datatype ('m, 'o) hooked =
  Hooked (module: 'm) (forward_hook: bool) (saved_input: "tensor option") (saved_output: "'o option")

definition new_module :: "'m \<Rightarrow> ('m, 'o) hooked" where
  "new_module m = Hooked m False None None"

definition register_forward_hook :: "('m, 'o) hooked \<Rightarrow> ('m, 'o) hooked" where
  "register_forward_hook h = Hooked (module h) True (saved_input h) (saved_output h)"

text \<open>\<^verbatim>\<open>save_computations\<close>\<close>

definition save_computations :: "('m, 'o) hooked \<Rightarrow> tensor \<Rightarrow> 'o \<Rightarrow> ('m, 'o) hooked" where
  "save_computations self inp outp = Hooked (module self) (forward_hook self) (Some inp) (Some outp)"

text \<open>Calling a module runs its forward and then its hook, when one is registered.\<close>

definition call_module ::
  "('m \<Rightarrow> tensor \<Rightarrow> error + 'o) \<Rightarrow> ('m, 'o) hooked \<Rightarrow> tensor \<Rightarrow> error + (('m, 'o) hooked \<times> 'o)" where
  "call_module fwd h x =
     ebind (fwd (module h) x)
       (\<lambda>y. Inr (if forward_hook h then save_computations h x y else h, y))"

section \<open>Linear\<close>

record Linear =
  in_features :: nat
  out_features :: nat
  weight :: tensor
  bias :: tensor

text \<open>
  \<^verbatim>\<open>nn.Linear(in_features, out_features)\<close>; the initial entries are drawn at random and
  are parameters of the model here.
\<close>

definition Linear_init :: "nat \<Rightarrow> nat \<Rightarrow> (nat \<Rightarrow> real) \<Rightarrow> (nat \<Rightarrow> real) \<Rightarrow> Linear" where
  "Linear_init n_in n_out w b =
     \<lparr> in_features = n_in, out_features = n_out,
       weight = Tensor [n_out, n_in] (map w [0..<n_out * n_in]),
       bias = Tensor [n_out] (map b [0..<n_out]) \<rparr>"

text \<open>
  The affine map on the last dimension, which must have size \<^verbatim>\<open>in_features\<close>.
\<close>

definition Linear_forward :: "Linear \<Rightarrow> tensor \<Rightarrow> error + tensor" where
  "Linear_forward self x =
     (case shape x of
        [] \<Rightarrow> Inl RuntimeError
      | s \<Rightarrow>
          if last s \<noteq> in_features self then Inl RuntimeError
          else
            Inr (Tensor (butlast s @ [out_features self])
              (map (\<lambda>k. sum_list
                      (map (\<lambda>c. data x ! ((k div out_features self) * in_features self + c)
                                 * data (weight self) ! ((k mod out_features self) * in_features self + c))
                         [0..<in_features self])
                    + data (bias self) ! (k mod out_features self))
                 [0..<prod_list (butlast s) * out_features self])))"

section \<open>EmbeddingLayer\<close>

record EmbeddingLayer =
  emb_size :: nat
  emb_table :: tensor

definition EmbeddingLayer_init :: "nat \<Rightarrow> nat \<Rightarrow> (nat \<Rightarrow> real) \<Rightarrow> EmbeddingLayer" where
  "EmbeddingLayer_init nb_emb size_emb r =
     \<lparr> emb_size = size_emb,
       emb_table = Tensor [nb_emb, size_emb] (map r [0..<nb_emb * size_emb]) \<rparr>"

definition EmbeddingLayer_forward :: "EmbeddingLayer \<Rightarrow> tensor \<Rightarrow> error + tensor" where
  "EmbeddingLayer_forward self x = tmul x (emb_table self)"

section \<open>AttentionLayer\<close>

record AttentionLayer =
  att_in_dim :: nat
  nb_attention_head :: nat
  att_attn :: Linear
  temperature :: real

definition AttentionLayer_init ::
  "nat \<Rightarrow> nat \<Rightarrow> (nat \<Rightarrow> real) \<Rightarrow> (nat \<Rightarrow> real) \<Rightarrow> AttentionLayer" where
  "AttentionLayer_init dim_in heads w b =
     \<lparr> att_in_dim = dim_in, nb_attention_head = heads,
       att_attn = Linear_init dim_in heads w b, temperature = 1 \<rparr>"

text \<open>
  Lines 45 to 58.  The entries are exact reals: the exponential is never an infinity
  here, as it is in floating point for a large score.  No operation of these lines
  raises on an infinity or a NaN, so the shapes and the exceptions are those of the code
  on every input.
\<close>

definition AttentionLayer_forward :: "AttentionLayer \<Rightarrow> tensor \<Rightarrow> error + (tensor \<times> tensor)" where
  "AttentionLayer_forward self x =
     (case shape x of
        [nb_examples, nb_nodes, nb_channels] \<Rightarrow>
          ebind (view x [Infer, D nb_channels]) (\<lambda>x1.
          ebind (Linear_forward (att_attn self) x1) (\<lambda>scores.
          ebind (view (map_tensor exp (map_tensor (\<lambda>v. v * temperature self) scores))
                   [D nb_examples, D nb_nodes, D (nb_attention_head self)]) (\<lambda>attn_weights.
          ebind (sum_dim attn_weights 1) (\<lambda>total.
          ebind (unsqueeze total 1) (\<lambda>total1.
          ebind (tdiv attn_weights total1) (\<lambda>attn_weights.
          ebind (view x1 [D nb_examples, D nb_nodes, D nb_channels]) (\<lambda>x2.
          ebind (unsqueeze x2 (- 1)) (\<lambda>xu.
          ebind (unsqueeze attn_weights (- 2)) (\<lambda>wu.
          ebind (tmul xu wu) (\<lambda>attn_applied.
          ebind (sum_dim attn_applied 1) (\<lambda>attn_applied.
          ebind (view attn_applied [D nb_examples, Infer]) (\<lambda>attn_applied.
          Inr (attn_applied, attn_weights)))))))))))))
      | _ \<Rightarrow> Inl ValueError)"

section \<open>ElementwiseGateLayer\<close>

record ElementwiseGateLayer =
  gate_in_dim :: nat
  gate_attn :: Linear

definition ElementwiseGateLayer_init ::
  "nat \<Rightarrow> (nat \<Rightarrow> real) \<Rightarrow> (nat \<Rightarrow> real) \<Rightarrow> ElementwiseGateLayer" where
  "ElementwiseGateLayer_init id_dim w b =
     \<lparr> gate_in_dim = id_dim, gate_attn = Linear_init id_dim 1 w b \<rparr>"

definition ElementwiseGateLayer_forward :: "ElementwiseGateLayer \<Rightarrow> tensor \<Rightarrow> error + tensor" where
  "ElementwiseGateLayer_forward self x =
     (case shape x of
        [nb_examples, nb_nodes, nb_channels] \<Rightarrow>
          ebind (view x [Infer, D nb_channels]) (\<lambda>x1.
          ebind (Linear_forward (gate_attn self) x1) (\<lambda>scores.
          view (map_tensor sigmoid scores) [D nb_examples, D nb_nodes, D 1]))
      | _ \<Rightarrow> Inl ValueError)"

section \<open>Two-dimensional arrays\<close>

text \<open>
  A two-dimensional array of the numeric library: its numbers of rows and columns and its
  entries in row-major order.  A one-dimensional array is a list.  The adjacency of the
  caller is an array of reals.
\<close>

datatype 'a array2 = Matrix (nrows: nat) (ncols: nat) (entries: "'a list")

type_synonym matrix = "real array2"

definition entry :: "'a array2 \<Rightarrow> nat \<Rightarrow> nat \<Rightarrow> 'a" where
  "entry m i j = entries m ! (i * ncols m + j)"

definition mk_matrix :: "nat \<Rightarrow> nat \<Rightarrow> (nat \<Rightarrow> nat \<Rightarrow> 'a) \<Rightarrow> 'a array2" where
  "mk_matrix r c f = Matrix r c (map (\<lambda>k. f (k div c) (k mod c)) [0..<r * c])"

text \<open>\<^verbatim>\<open>np.fill_diagonal(a, v)\<close>: the entries (i, i) become \<open>v\<close>, the others stay.\<close>

definition fill_diagonal :: "matrix \<Rightarrow> real \<Rightarrow> matrix" where
  "fill_diagonal a v = mk_matrix (nrows a) (ncols a) (\<lambda>i j. if i = j then v else entry a i j)"

text \<open>\<^verbatim>\<open>a.sum(0)\<close>: the sums of the columns.\<close>

definition sum0 :: "matrix \<Rightarrow> real list" where
  "sum0 a = map (\<lambda>j. sum_list (map (\<lambda>i. entry a i j) [0..<nrows a])) [0..<ncols a]"

text \<open>
  The numbers of the Laplacian.  The numeric library raises nothing on a division by zero
  or on the root of a negative number: it goes on with an infinity or a NaN, and so does
  every sum, difference and product that has one of them as an operand.  \<open>Some v\<close> is the
  finite number \<open>v\<close>; \<open>None\<close> is a value that came out of an infinity or a NaN, and about
  which this model says nothing more.
\<close>

type_synonym number = "real option"

definition nmul :: "number \<Rightarrow> number \<Rightarrow> number" where
  "nmul x y = (case x of None \<Rightarrow> None | Some u \<Rightarrow> (case y of None \<Rightarrow> None | Some v \<Rightarrow> Some (u * v)))"

definition nadd :: "number \<Rightarrow> number \<Rightarrow> number" where
  "nadd x y = (case x of None \<Rightarrow> None | Some u \<Rightarrow> (case y of None \<Rightarrow> None | Some v \<Rightarrow> Some (u + v)))"

definition nsub :: "number \<Rightarrow> number \<Rightarrow> number" where
  "nsub x y = (case x of None \<Rightarrow> None | Some u \<Rightarrow> (case y of None \<Rightarrow> None | Some v \<Rightarrow> Some (u - v)))"

definition nsum :: "number list \<Rightarrow> number" where
  "nsum xs = foldr nadd xs (Some 0)"

text \<open>
  \<^verbatim>\<open>D**-0.5\<close> on one entry: an infinity for zero and a NaN for a negative entry, with a
  warning and no exception.
\<close>

definition inv_sqrt :: "real \<Rightarrow> number" where
  "inv_sqrt d = (if 0 < d then Some (1 / sqrt d) else None)"

text \<open>The array of reals as an array of numbers.\<close>

definition numbers :: "matrix \<Rightarrow> number array2" where
  "numbers a = Matrix (nrows a) (ncols a) (map Some (entries a))"

text \<open>\<^verbatim>\<open>np.diag(v)\<close> of a one-dimensional array, and \<^verbatim>\<open>np.eye(n)\<close>.\<close>

definition diag :: "number list \<Rightarrow> number array2" where
  "diag v = mk_matrix (length v) (length v) (\<lambda>i j. if i = j then v ! i else Some 0)"

definition eye :: "nat \<Rightarrow> number array2" where
  "eye n = mk_matrix n n (\<lambda>i j. if i = j then Some 1 else Some 0)"

text \<open>\<^verbatim>\<open>a.dot(b)\<close>: the matrix product, a \<^verbatim>\<open>ValueError\<close> when the inner sizes differ.\<close>

definition dot :: "number array2 \<Rightarrow> number array2 \<Rightarrow> error + number array2" where
  "dot a b =
     (if ncols a = nrows b
      then Inr (mk_matrix (nrows a) (ncols b)
                 (\<lambda>i j. nsum (map (\<lambda>k. nmul (entry a i k) (entry b k j)) [0..<ncols a])))
      else Inl ValueError)"

text \<open>
  The difference of two arrays of the same shape.  (The constructor below only subtracts
  arrays of equal shapes: the products before it raise otherwise.)
\<close>

definition minus_matrix :: "number array2 \<Rightarrow> number array2 \<Rightarrow> error + number array2" where
  "minus_matrix a b =
     (if nrows a = nrows b \<and> ncols a = ncols b
      then Inr (mk_matrix (nrows a) (ncols a) (\<lambda>i j. nsub (entry a i j) (entry b i j)))
      else Inl ValueError)"

section \<open>SparseLogisticRegression\<close>

text \<open>
  The caller's arrays live in a store, addressed by references: the constructor receives
  the reference of the adjacency and writes through it.
\<close>

type_synonym heap = "nat \<Rightarrow> matrix"

record SparseLogisticRegression =
  slr_nb_nodes :: nat
  slr_input_dim :: nat
  laplacian :: "number array2"
  slr_out_dim :: nat
  slr_cuda :: bool
  slr_my_logistic_layers :: "(Linear, tensor) hooked list"

text \<open>
  The Laplacian of lines 119 and 120, from the adjacency whose diagonal is already zero.
  The only exception is the \<^verbatim>\<open>ValueError\<close> of a product of arrays that do not fit, which
  is what an adjacency that is not square gets.
\<close>

definition compute_laplacian :: "matrix \<Rightarrow> error + number array2" where
  "compute_laplacian adj =
     (let D = map (\<lambda>d. d + 1 / 100000) (sum0 adj);
          Dm = map inv_sqrt D
      in ebind (dot (diag Dm) (numbers adj)) (\<lambda>m1.
         ebind (dot m1 (diag Dm)) (\<lambda>m2.
         minus_matrix (eye (length D)) m2)))"

text \<open>
  The constructor: the new store (the adjacency is overwritten in place before anything
  can raise) and the object or the exception.
\<close>

definition SparseLogisticRegression_init ::
  "heap \<Rightarrow> nat \<Rightarrow> nat \<Rightarrow> nat \<Rightarrow> nat option \<Rightarrow> bool \<Rightarrow> (nat \<Rightarrow> real) \<Rightarrow> (nat \<Rightarrow> real)
     \<Rightarrow> heap \<times> (error + SparseLogisticRegression)" where
  "SparseLogisticRegression_init h nb_nodes input_dim adj out_dim cuda w b =
     (let out_dim = (case out_dim of Some d \<Rightarrow> d | None \<Rightarrow> 2);
          h' = h(adj := fill_diagonal (h adj) 0)
      in (h',
          ebind (compute_laplacian (h' adj)) (\<lambda>lap.
          let logistic_in_dim = nb_nodes * input_dim;
              logistic_layer = register_forward_hook (new_module (Linear_init logistic_in_dim out_dim w b))
          in Inr \<lparr> slr_nb_nodes = nb_nodes, slr_input_dim = input_dim, laplacian = lap,
                   slr_out_dim = out_dim, slr_cuda = cuda,
                   slr_my_logistic_layers = [logistic_layer] \<rparr>)))"

section \<open>StaticElementwiseGateLayer\<close>

record StaticElementwiseGateLayer =
  static_in_dim :: nat
  static_attn :: tensor

text \<open>
  \<^verbatim>\<open>self.attn = nn.Parameter(torch.zeros(50), requires_grad=True) + 1.\<close>
\<close>

definition StaticElementwiseGateLayer_init :: "nat \<Rightarrow> StaticElementwiseGateLayer" where
  "StaticElementwiseGateLayer_init id_dim =
     \<lparr> static_in_dim = id_dim,
       static_attn = map_tensor (\<lambda>v. v + 1) (Tensor [50] (replicate 50 0)) \<rparr>"

definition StaticElementwiseGateLayer_forward ::
  "StaticElementwiseGateLayer \<Rightarrow> tensor \<Rightarrow> error + tensor" where
  "StaticElementwiseGateLayer_forward self x =
     (case shape x of
        [nb_examples, nb_nodes, nb_channels] \<Rightarrow>
          (let gate_weights = map_tensor sigmoid (static_attn self)
           in view gate_weights [D nb_nodes, D 1])
      | _ \<Rightarrow> Inl ValueError)"


section \<open>Dropout\<close>

record Dropout =
  drop_p :: real

definition Dropout_init :: "real \<Rightarrow> error + Dropout" where
  "Dropout_init prob = (if prob < 0 \<or> 1 < prob then Inl ValueError else Inr \<lparr> drop_p = prob \<rparr>)"

text \<open>
  In training mode every entry is either zeroed or scaled by \<open>1 / (1 - p)\<close>; which
  entries survive is the random draw \<open>keep\<close>.  In evaluation mode the input passes.
\<close>

definition Dropout_forward :: "Dropout \<Rightarrow> bool \<Rightarrow> (nat \<Rightarrow> bool) \<Rightarrow> tensor \<Rightarrow> tensor" where
  "Dropout_forward self train keep x =
     (if train then
        Tensor (shape x)
          (map (\<lambda>k. if drop_p self < 1 \<and> (keep k \<or> drop_p self = 0)
                     then data x ! k / (1 - drop_p self) else 0)
             [0..<length (data x)])
      else x)"

section \<open>The injected graph layer\<close>

type_synonym adj_hook = string

text \<open>The arguments that \<^verbatim>\<open>GraphNetwork\<close> passes to the injected layer type.\<close>

record layer_args =
  la_adj :: matrix
  la_c_in :: nat
  la_c_out :: nat
  la_cuda :: bool
  la_id_layer :: nat
  la_transform_adj :: "adj_hook list option"
  la_aggregate_adj :: "adj_hook option"

text \<open>
  A layer made by the injected type: the arguments it was made from and its forward
  function, which is not part of this repository's file.  The function decides also
  whether its result requires grad and where it is.
\<close>

record GraphLayer =
  made_from :: layer_args
  layer_forward :: "runtime \<Rightarrow> variable \<Rightarrow> error + variable"

definition GraphLayer_forward :: "GraphLayer \<Rightarrow> runtime \<Rightarrow> variable \<Rightarrow> error + variable" where
  "GraphLayer_forward self rt x = layer_forward self rt x"

text \<open>
  The call of a graph layer: its forward and then its hook, when one is registered, which
  saves the input and the output.
\<close>

definition call_graph_layer ::
  "runtime \<Rightarrow> (GraphLayer, tensor) hooked \<Rightarrow> variable
     \<Rightarrow> error + ((GraphLayer, tensor) hooked \<times> variable)" where
  "call_graph_layer rt h x =
     ebind (GraphLayer_forward (module h) rt x)
       (\<lambda>y. Inr (if forward_hook h then save_computations h (tensor_of x) (tensor_of y) else h, y))"

section \<open>GraphNetwork\<close>

text \<open>The arguments of the constructor.\<close>

record config =
  cfg_input_dim :: nat
  cfg_channels :: "nat list"
  cfg_adj :: matrix
  cfg_out_dim :: "nat option"
  cfg_cuda :: bool
  cfg_embedding :: "nat option"
  cfg_transform_adj :: "adj_hook list option"
  cfg_aggregate_adj :: "adj_hook option"
  cfg_prepool_extralayers :: int
  cfg_graph_layer_type :: "layer_args \<Rightarrow> runtime \<Rightarrow> variable \<Rightarrow> error + variable"
  cfg_gating :: real
  cfg_dropout :: bool
  cfg_attention_head :: nat
  cfg_master_nodes :: nat

text \<open>
  The object.  \<open>training\<close> is the mode flag of every module.  \<open>other_attributes\<close> holds the
  truth values of attributes that are set on the object from outside and are none of
  the fields above it; the constructor sets none.  \<open>param_device\<close> and \<open>param_requires_grad\<close>
  say where the parameters of the embedding, the gates, the attention layer and the
  classifier are and whether they require grad.  The attributes \<^verbatim>\<open>my_layers\<close> and \<^verbatim>\<open>grads\<close>,
  which \<^verbatim>\<open>forward\<close> never reads, are left out, and so is \<^verbatim>\<open>save_grad\<close>, which only makes the
  functions that \<^verbatim>\<open>forward\<close> registers as gradient hooks.
\<close>

record GraphNetwork =
  out_dim :: nat
  cuda :: bool
  adj :: matrix
  nb_nodes :: nat
  channels :: "nat list"
  embedding :: "nat option"
  graph_layer_type :: "layer_args \<Rightarrow> runtime \<Rightarrow> variable \<Rightarrow> error + variable"
  aggregate_adj :: "adj_hook option"
  transform_adj :: "adj_hook list"
  dropout :: bool
  attention_head :: nat
  master_nodes :: nat
  prepool_extralayers :: int
  input_dim :: nat
  gating :: real
  emb :: "(EmbeddingLayer, tensor) hooked option"
  dims :: "nat list"
  conv_layers :: "(GraphLayer, tensor) hooked list"
  my_logistic_layers :: "(Linear, tensor) hooked list"
  gating_layers :: "(ElementwiseGateLayer, tensor) hooked option list"
  dropout_layers :: "Dropout option list"
  attention_layer :: "(AttentionLayer, tensor \<times> tensor) hooked option"
  training :: bool
  other_attributes :: "string \<rightharpoonup> bool"
  param_device :: device
  param_requires_grad :: bool

text \<open>The truth value of \<^verbatim>\<open>self.embedding\<close>: \<^verbatim>\<open>None\<close> and 0 are false.\<close>

definition truthy_embedding :: "nat option \<Rightarrow> bool" where
  "truthy_embedding e = (case e of None \<Rightarrow> False | Some n \<Rightarrow> n \<noteq> 0)"

text \<open>\<^verbatim>\<open>'{}'.format(i)\<close>\<close>

fun str_nat :: "nat \<Rightarrow> string" where
  "str_nat n = (if n < 10 then [''0123456789'' ! n]
                else str_nat (n div 10) @ [''0123456789'' ! (n mod 10)])"

declare str_nat.simps [simp del]

text \<open>
  \<^verbatim>\<open>add_embedding_layer\<close>: the table has \<^verbatim>\<open>self.embedding\<close> columns, which must be a number.
\<close>

definition add_embedding_layer ::
  "(string \<Rightarrow> nat \<Rightarrow> real) \<Rightarrow> GraphNetwork \<Rightarrow> error + GraphNetwork" where
  "add_embedding_layer rnd self =
     (case embedding self of
        None \<Rightarrow> Inl TypeError
      | Some n \<Rightarrow>
          Inr (self\<lparr> emb := Some (register_forward_hook (new_module
                 (EmbeddingLayer_init (nb_nodes self) n (rnd ''emb.emb'')))) \<rparr>))"

text \<open>\<^verbatim>\<open>int(self.dropout) * min((id_layer + 1) / 10., 0.4)\<close>\<close>

definition dropout_probability :: "bool \<Rightarrow> nat \<Rightarrow> real" where
  "dropout_probability flag id_layer =
     (if flag then 1 else 0) * min ((real id_layer + 1) / 10) (4 / 10)"

fun dropout_comprehension :: "bool \<Rightarrow> nat list \<Rightarrow> error + Dropout option list" where
  "dropout_comprehension flag [] = Inr []"
| "dropout_comprehension flag (id_layer # rest) =
     ebind (Dropout_init (dropout_probability flag id_layer)) (\<lambda>l.
     ebind (dropout_comprehension flag rest) (\<lambda>ls. Inr (Some l # ls)))"

definition add_dropout_layers :: "GraphNetwork \<Rightarrow> error + GraphNetwork" where
  "add_dropout_layers self =
     (let self1 = self\<lparr> dropout_layers := replicate (length (dims self) - 1) None \<rparr> in
      if dropout self1 then
        ebind (dropout_comprehension (dropout self1) [0..<length (dims self1) - 1])
          (\<lambda>ls. Inr (self1\<lparr> dropout_layers := ls \<rparr>))
      else Inr self1)"

definition make_layer ::
  "GraphNetwork \<Rightarrow> nat \<Rightarrow> nat \<Rightarrow> nat \<Rightarrow> adj_hook list option \<Rightarrow> adj_hook option
     \<Rightarrow> (GraphLayer, tensor) hooked" where
  "make_layer self c_in c_out i t_adj a_adj =
     (let args = \<lparr> la_adj = adj self, la_c_in = c_in, la_c_out = c_out, la_cuda = cuda self,
                    la_id_layer = i, la_transform_adj = t_adj, la_aggregate_adj = a_adj \<rparr>
      in new_module \<lparr> made_from = args, layer_forward = graph_layer_type self args \<rparr>)"

text \<open>The inner loop of \<^verbatim>\<open>add_graph_convolutional_layers\<close>, over \<^verbatim>\<open>range(self.prepool_extralayers)\<close>.\<close>

fun extra_layers_loop ::
  "GraphNetwork \<Rightarrow> nat \<Rightarrow> nat \<Rightarrow> nat \<Rightarrow> (GraphLayer, tensor) hooked list
     \<Rightarrow> (GraphLayer, tensor) hooked list" where
  "extra_layers_loop self i c_in 0 convs = convs"
| "extra_layers_loop self i c_in (Suc n) convs =
     extra_layers_loop self i c_in n (convs @ [make_layer self c_in c_in i None None])"

text \<open>The outer loop, over the enumerated pairs of consecutive widths.\<close>

fun conv_layers_loop ::
  "GraphNetwork \<Rightarrow> (nat \<times> nat \<times> nat) list \<Rightarrow> (GraphLayer, tensor) hooked list
     \<Rightarrow> (GraphLayer, tensor) hooked list" where
  "conv_layers_loop self [] convs = convs"
| "conv_layers_loop self ((i, c_in, c_out) # rest) convs =
     (let convs1 = (if aggregate_adj self \<noteq> None
                    then extra_layers_loop self i c_in (nat (prepool_extralayers self)) convs
                    else convs);
          layer = register_forward_hook
                    (make_layer self c_in c_out i (Some (transform_adj self)) (aggregate_adj self))
      in conv_layers_loop self rest (convs1 @ [layer]))"

definition add_graph_convolutional_layers :: "GraphNetwork \<Rightarrow> GraphNetwork" where
  "add_graph_convolutional_layers self =
     self\<lparr> conv_layers :=
             conv_layers_loop self (enumerate 0 (zip (butlast (dims self)) (tl (dims self)))) [] \<rparr>"

fun gating_layers_loop ::
  "(string \<Rightarrow> nat \<Rightarrow> real) \<Rightarrow> nat list
     \<Rightarrow> (ElementwiseGateLayer, tensor) hooked option list
     \<Rightarrow> (ElementwiseGateLayer, tensor) hooked option list" where
  "gating_layers_loop rnd [] gs = gs"
| "gating_layers_loop rnd (c_in # rest) gs =
     (let gate = register_forward_hook (new_module
                   (ElementwiseGateLayer_init c_in
                      (rnd (''gating_layers.'' @ str_nat (length gs) @ ''.attn.weight''))
                      (rnd (''gating_layers.'' @ str_nat (length gs) @ ''.attn.bias''))))
      in gating_layers_loop rnd rest (gs @ [Some gate]))"

definition add_gating_layers :: "(string \<Rightarrow> nat \<Rightarrow> real) \<Rightarrow> GraphNetwork \<Rightarrow> GraphNetwork" where
  "add_gating_layers rnd self =
     (if 0 < gating self
      then self\<lparr> gating_layers := gating_layers_loop rnd (channels self) [] \<rparr>
      else self\<lparr> gating_layers := replicate (length (dims self) - 1) None \<rparr>)"

fun logistic_layer_loop ::
  "(string \<Rightarrow> nat \<Rightarrow> real) \<Rightarrow> GraphNetwork \<Rightarrow> nat list \<Rightarrow> (Linear, tensor) hooked list
     \<Rightarrow> GraphNetwork" where
  "logistic_layer_loop rnd self [] logistic_layer = self"
| "logistic_layer_loop rnd self (d # rest) logistic_layer =
     (let layer = register_forward_hook (new_module
                    (Linear_init d (out_dim self)
                       (rnd (''my_logistic_layers.'' @ str_nat (length logistic_layer) @ ''.weight''))
                       (rnd (''my_logistic_layers.'' @ str_nat (length logistic_layer) @ ''.bias''))));
          logistic_layer1 = logistic_layer @ [layer]
      in logistic_layer_loop rnd (self\<lparr> my_logistic_layers := logistic_layer1 \<rparr>) rest logistic_layer1)"

definition add_logistic_layer :: "(string \<Rightarrow> nat \<Rightarrow> real) \<Rightarrow> GraphNetwork \<Rightarrow> error + GraphNetwork" where
  "add_logistic_layer rnd self =
     (case dims self of
        [] \<Rightarrow> Inl IndexError
      | ds \<Rightarrow>
          (let logistic_in_dim = (if 0 < attention_head self then [attention_head self * last ds]
                                  else [nb_nodes self * last ds])
           in Inr (logistic_layer_loop rnd self logistic_in_dim [])))"

text \<open>
  The constructor.  \<open>rnd\<close> gives the random initial entries of each parameter, by the
  parameter's name.  First the attributes of lines 186 to 203; the lists that the
  \<^verbatim>\<open>add_\<close> methods assign later start empty.  The parameters that the constructor creates
  are on the CPU and require grad.
\<close>

definition init_attributes :: "config \<Rightarrow> GraphNetwork" where
  "init_attributes cfg =
     \<lparr> out_dim = (case cfg_out_dim cfg of Some d \<Rightarrow> d | None \<Rightarrow> 2),
       cuda = cfg_cuda cfg,
       adj = cfg_adj cfg,
       nb_nodes = nrows (cfg_adj cfg),
       channels = cfg_channels cfg,
       embedding = cfg_embedding cfg,
       graph_layer_type = cfg_graph_layer_type cfg,
       aggregate_adj = cfg_aggregate_adj cfg,
       transform_adj = (case cfg_transform_adj cfg of None \<Rightarrow> [] | Some t \<Rightarrow> t),
       dropout = cfg_dropout cfg,
       attention_head = cfg_attention_head cfg,
       master_nodes = cfg_master_nodes cfg,
       prepool_extralayers = cfg_prepool_extralayers cfg,
       input_dim = cfg_input_dim cfg,
       gating = cfg_gating cfg,
       emb = None, dims = [], conv_layers = [], my_logistic_layers = [],
       gating_layers = [], dropout_layers = [], attention_layer = None,
       training = True, other_attributes = Map.empty,
       param_device = CPU, param_requires_grad = True \<rparr>"

text \<open>Lines 205 to 207.\<close>

definition init_embedding ::
  "(string \<Rightarrow> nat \<Rightarrow> real) \<Rightarrow> GraphNetwork \<Rightarrow> error + GraphNetwork" where
  "init_embedding rnd self =
     (if truthy_embedding (embedding self)
      then ebind (add_embedding_layer rnd self) (\<lambda>s.
             case emb s of
               Some e \<Rightarrow> Inr (s\<lparr> input_dim := emb_size (module e) \<rparr>)
             | None \<Rightarrow> Inl (AttributeError ''emb''))
      else Inr self)"

text \<open>Lines 215 to 217: \<^verbatim>\<open>self.channels[-1]\<close> raises on an empty list.\<close>

definition init_attention :: "(string \<Rightarrow> nat \<Rightarrow> real) \<Rightarrow> GraphNetwork \<Rightarrow> error + GraphNetwork" where
  "init_attention rnd self =
     (if attention_head self \<noteq> 0 then
        (case channels self of
           [] \<Rightarrow> Inl IndexError
         | cs \<Rightarrow> Inr (self\<lparr> attention_layer := Some (register_forward_hook (new_module
                       (AttentionLayer_init (last cs) (attention_head self)
                          (rnd ''attention_layer.attn.weight'')
                          (rnd ''attention_layer.attn.bias'')))) \<rparr>))
      else Inr self)"

definition GraphNetwork_init :: "config \<Rightarrow> (string \<Rightarrow> nat \<Rightarrow> real) \<Rightarrow> error + GraphNetwork" where
  "GraphNetwork_init cfg rnd =
     ebind (init_embedding rnd (init_attributes cfg)) (\<lambda>self1.
     (let self2 = self1\<lparr> dims := input_dim self1 # channels self1 \<rparr>;
          self3 = add_graph_convolutional_layers self2
      in ebind (add_logistic_layer rnd self3) (\<lambda>self4.
         ebind (add_dropout_layers (add_gating_layers rnd self4)) (\<lambda>self6.
         init_attention rnd self6))))"

text \<open>
  Lines 294 to 299 of \<^verbatim>\<open>forward\<close>, the entries: an absent stage leaves the tensor as it is,
  a dropout stage multiplies it by a mask of shape (E, N, 1).
\<close>

definition dropout_step ::
  "GraphNetwork \<Rightarrow> (nat \<Rightarrow> bool) \<Rightarrow> Dropout option \<Rightarrow> tensor \<Rightarrow> error + tensor" where
  "dropout_step self keep stage_dropout x =
     (case stage_dropout of
        None \<Rightarrow> Inr x
      | Some dl \<Rightarrow>
          ebind (size_at x 0) (\<lambda>n0.
          ebind (size_at x 1) (\<lambda>n1.
          ebind (unsqueeze (Dropout_forward dl (training self) keep (ones [n0, n1])) 2)
            (\<lambda>id_to_keep. tmul x id_to_keep))))"

text \<open>
  The same lines with the devices and in the order of the code.  First the mask, line 295;
  it is made on the CPU and requires no grad.
\<close>

definition dropout_mask :: "GraphNetwork \<Rightarrow> (nat \<Rightarrow> bool) \<Rightarrow> Dropout \<Rightarrow> tensor \<Rightarrow> error + tensor" where
  "dropout_mask self keep dl x =
     ebind (size_at x 0) (\<lambda>n0.
     ebind (size_at x 1) (\<lambda>n1.
     unsqueeze (Dropout_forward dl (training self) keep (ones [n0, n1])) 2))"

text \<open>
  Then \<^verbatim>\<open>if self.cuda: id_to_keep = id_to_keep.cuda()\<close>, which raises when no CUDA device
  can be used: the device of the mask.
\<close>

definition mask_device :: "GraphNetwork \<Rightarrow> runtime \<Rightarrow> error + device" where
  "mask_device self rt =
     (if cuda self then (if cuda_available rt then Inr CUDA else Inl NoCudaDevice) else Inr CPU)"

text \<open>
  Then the product, line 299, which raises when the tensor is not where the mask is.
  Its entries are those of \<open>dropout_step\<close>.
\<close>

definition dropout_stage ::
  "GraphNetwork \<Rightarrow> runtime \<Rightarrow> (nat \<Rightarrow> bool) \<Rightarrow> Dropout option \<Rightarrow> variable \<Rightarrow> error + variable" where
  "dropout_stage self rt keep stage_dropout x =
     (case stage_dropout of
        None \<Rightarrow> Inr x
      | Some dl \<Rightarrow>
          ebind (dropout_mask self keep dl (tensor_of x)) (\<lambda>id_to_keep.
          ebind (mask_device self rt) (\<lambda>d.
          product rt x (Variable id_to_keep False d))))"

text \<open>
  The result of an operation of a tensor with parameters of the object, such as the
  product with the embedding table or a linear layer: a \<^verbatim>\<open>RuntimeError\<close> when the tensor is
  not where the parameters are; the result requires grad when gradients are recorded
  and the tensor or the parameters require grad.
\<close>

definition with_parameters :: "GraphNetwork \<Rightarrow> runtime \<Rightarrow> variable \<Rightarrow> tensor \<Rightarrow> error + variable" where
  "with_parameters self rt x t =
     (if device_of x = param_device self
      then Inr (Variable t (grad_enabled rt \<and> (requires_grad x \<or> param_requires_grad self))
                  (device_of x))
      else Inl RuntimeError)"

text \<open>
  The body of the loop of \<^verbatim>\<open>forward\<close>, lines 283 to 299, for one conv layer, its gate and
  its dropout stage: the layer and the gate as their hooks leave them, and the tensor.
  \<open>keep\<close> is the random draw of this stage's dropout.
\<close>

definition forward_stage ::
  "GraphNetwork \<Rightarrow> runtime \<Rightarrow> (nat \<Rightarrow> bool)
     \<Rightarrow> (GraphLayer, tensor) hooked \<times> (ElementwiseGateLayer, tensor) hooked option \<times> Dropout option
     \<Rightarrow> variable
     \<Rightarrow> error + ((GraphLayer, tensor) hooked \<times> (ElementwiseGateLayer, tensor) hooked option \<times> variable)" where
  "forward_stage self rt keep stage x =
     (case stage of (layer, gate, stage_dropout) \<Rightarrow>
     ebind (if 0 < gating self then
              ebind (call_graph_layer rt layer x) (\<lambda>(layer1, x1).
              (case gate of
                 None \<Rightarrow> Inl TypeError
               | Some gt \<Rightarrow>
                   ebind (call_module ElementwiseGateLayer_forward gt (tensor_of x1)) (\<lambda>(gate1, gv).
                   ebind (with_parameters self rt x1 gv) (\<lambda>g.
                   ebind (product rt g x1) (\<lambda>x2. Inr (layer1, Some gate1, x2))))))
            else
              ebind (call_graph_layer rt layer x) (\<lambda>(layer1, x1).
              Inr (layer1, gate, x1)))
       (\<lambda>(layer1, gate1, x2).
     (let x3 = pointwise rt relu x2 in
      ebind (register_hook x3) (\<lambda>_.
      ebind (dropout_stage self rt keep stage_dropout x3)
        (\<lambda>x4. Inr (layer1, gate1, x4))))))"

text \<open>
  The loop over the zipped conv layers, gates and dropout stages.  It returns the layers
  and gates it has called and the tensor.
\<close>

fun stage_loop ::
  "GraphNetwork \<Rightarrow> runtime \<Rightarrow> (nat \<Rightarrow> nat \<Rightarrow> bool) \<Rightarrow> nat
     \<Rightarrow> ((GraphLayer, tensor) hooked \<times> (ElementwiseGateLayer, tensor) hooked option \<times> Dropout option) list
     \<Rightarrow> variable
     \<Rightarrow> error + (((GraphLayer, tensor) hooked \<times> (ElementwiseGateLayer, tensor) hooked option) list \<times> variable)" where
  "stage_loop self rt keep i [] x = Inr ([], x)"
| "stage_loop self rt keep i (stage # rest) x =
     ebind (forward_stage self rt (keep i) stage x) (\<lambda>(layer1, gate1, x4).
     ebind (stage_loop self rt keep (Suc i) rest x4) (\<lambda>(called, y).
     Inr ((layer1, gate1) # called, y)))"

text \<open>
  \<^verbatim>\<open>GraphNetwork.forward\<close>, lines 274 to 307: the object as the forward hooks of its layers
  leave it, and the result.  \<open>keep\<close> is the random draw of the dropout stages.
\<close>

definition GraphNetwork_forward ::
  "GraphNetwork \<Rightarrow> runtime \<Rightarrow> (nat \<Rightarrow> nat \<Rightarrow> bool) \<Rightarrow> variable
     \<Rightarrow> error + (GraphNetwork \<times> variable)" where
  "GraphNetwork_forward self rt keep x =
     (case shape (tensor_of x) of
        [nb_examples, nb_nodes_x, nb_channels] \<Rightarrow>
          ebind (if truthy_embedding (embedding self) then
                   (case emb self of
                      None \<Rightarrow> Inl (AttributeError ''emb'')
                    | Some e \<Rightarrow>
                        ebind (call_module EmbeddingLayer_forward e (tensor_of x)) (\<lambda>(e1, t).
                        ebind (with_parameters self rt x t) (\<lambda>x1.
                        ebind (register_hook x1) (\<lambda>_.
                        Inr (self\<lparr> emb := Some e1 \<rparr>, x1)))))
                 else Inr (self, x))
            (\<lambda>(self1, x1).
          ebind (stage_loop self1 rt keep 0
                   (zip (conv_layers self1) (zip (gating_layers self1) (dropout_layers self1))) x1)
            (\<lambda>(called, x2).
          (let self2 = self1\<lparr>
                 conv_layers := map fst called @ drop (length called) (conv_layers self1),
                 gating_layers := map snd called @ drop (length called) (gating_layers self1) \<rparr>
           in
          ebind (if attention_head self2 \<noteq> 0 then
                   (case attention_layer self2 of
                      None \<Rightarrow> Inl (AttributeError ''attention_layer'')
                    | Some a \<Rightarrow>
                        ebind (call_module AttentionLayer_forward a (tensor_of x2)) (\<lambda>(a1, res).
                        ebind (with_parameters self2 rt x2 (fst res)) (\<lambda>x3.
                        Inr (self2\<lparr> attention_layer := Some a1 \<rparr>, x3))))
                 else Inr (self2, x2))
            (\<lambda>(self3, x3).
          (case my_logistic_layers self3 of
             [] \<Rightarrow> Inl IndexError
           | ls \<Rightarrow>
               ebind (view (tensor_of x3) [D nb_examples, Infer]) (\<lambda>flat.
               ebind (call_module Linear_forward (last ls) flat) (\<lambda>(l1, t).
               ebind (with_parameters self3 rt x3 t) (\<lambda>y.
               ebind (register_hook y) (\<lambda>_.
               Inr (self3\<lparr> my_logistic_layers := butlast ls @ [l1] \<rparr>, y))))))))))
      | _ \<Rightarrow> Inl ValueError)"

text \<open>
  The call \<^verbatim>\<open>net.forward(x)\<close> in the initial state of the library, on a machine without a
  CUDA device: gradients are recorded, and \<open>x\<close> is a tensor of data, on the CPU and not
  requiring grad.
\<close>

definition default_runtime :: runtime where
  "default_runtime = \<lparr> grad_enabled = True, cuda_available = False \<rparr>"

definition forward ::
  "GraphNetwork \<Rightarrow> (nat \<Rightarrow> nat \<Rightarrow> bool) \<Rightarrow> tensor \<Rightarrow> error + (GraphNetwork \<times> tensor)" where
  "forward self keep x =
     ebind (GraphNetwork_forward self default_runtime keep (Variable x False CPU))
       (\<lambda>(self1, y). Inr (self1, tensor_of y))"

subsection \<open>get_representation\<close>

type_synonym representation = "string \<rightharpoonup> (tensor \<times> tensor list)"

text \<open>
  \<^verbatim>\<open>add_rep\<close>: the attributes \<^verbatim>\<open>input\<close> and \<^verbatim>\<open>output\<close> exist on a layer once its hook has run.
\<close>

definition add_rep :: "('m, tensor) hooked \<Rightarrow> string \<Rightarrow> representation \<Rightarrow> error + representation" where
  "add_rep layer name rep =
     (case saved_input layer of
        None \<Rightarrow> Inl (AttributeError ''input'')
      | Some i \<Rightarrow>
          (case saved_output layer of
             None \<Rightarrow> Inl (AttributeError ''output'')
           | Some out \<Rightarrow> Inr (rep(name \<mapsto> (i, [out])))))"

fun representation_loop ::
  "GraphNetwork \<Rightarrow> nat
     \<Rightarrow> ((GraphLayer, tensor) hooked \<times> (ElementwiseGateLayer, tensor) hooked option) list
     \<Rightarrow> representation \<Rightarrow> error + representation" where
  "representation_loop self i [] rep = Inr rep"
| "representation_loop self i ((layer, gate) # rest) rep =
     ebind (if 0 < gating self then
              ebind (add_rep layer (''layer_'' @ str_nat i) rep) (\<lambda>rep1.
              (case gate of
                 None \<Rightarrow> Inl (AttributeError ''input'')
               | Some gt \<Rightarrow> add_rep gt (''gate_'' @ str_nat i) rep1))
            else add_rep layer (''layer_'' @ str_nat i) rep)
       (\<lambda>rep2. representation_loop self (Suc i) rest rep2)"

text \<open>
  \<^verbatim>\<open>self.add_emb\<close> is no field of the object, no method of the class and no registered
  module: the lookup finds it only if it was set on the object from outside.
\<close>

definition get_representation :: "GraphNetwork \<Rightarrow> error + representation" where
  "get_representation self =
     ebind (case other_attributes self ''add_emb'' of
              None \<Rightarrow> Inl (AttributeError ''add_emb'')
            | Some v \<Rightarrow> Inr v)
       (\<lambda>add_emb.
     ebind (if add_emb then
              (case emb self of
                 None \<Rightarrow> Inl (AttributeError ''emb'')
               | Some e \<Rightarrow> add_rep e ''emb'' Map.empty)
            else Inr Map.empty)
       (\<lambda>rep0.
     ebind (representation_loop self 0 (zip (conv_layers self) (gating_layers self)) rep0)
       (\<lambda>rep1.
     ebind (case my_logistic_layers self of
              [] \<Rightarrow> Inl IndexError
            | ls \<Rightarrow> add_rep (last ls) ''logistic'' rep1)
       (\<lambda>rep2.
     if attention_head self \<noteq> 0 then
       (case attention_layer self of
          None \<Rightarrow> Inl (AttributeError ''attention_layer'')
        | Some a \<Rightarrow>
            (case saved_input a of
               None \<Rightarrow> Inl (AttributeError ''input'')
             | Some i \<Rightarrow>
                 (case saved_output a of
                    None \<Rightarrow> Inl (AttributeError ''output'')
                  | Some out \<Rightarrow> Inr (rep2(''attention'' \<mapsto> (i, [fst out, snd out]))))))
     else Inr rep2))))"

subsection \<open>load_state_dict\<close>

text \<open>
  A value of the source mapping.  The code takes any mapping, so a value is a parameter
  object, a plain tensor, or any other Python object (\<open>NonTensor\<close>: a list, a number, a
  numpy array, \<^verbatim>\<open>None\<close>).
\<close>

datatype state_value = Parameter tensor | Plain tensor | NonTensor

text \<open>\<^verbatim>\<open>if isinstance(param, nn.Parameter): param = param.data\<close>\<close>

definition param_data :: "state_value \<Rightarrow> state_value" where
  "param_data param = (case param of Parameter d \<Rightarrow> Plain d | _ \<Rightarrow> param)"

text \<open>
  \<^verbatim>\<open>dst.copy_(src)\<close>.  A source that is no tensor is refused with a \<^verbatim>\<open>TypeError\<close>; a tensor
  is broadcast to the shape of the destination, a \<^verbatim>\<open>RuntimeError\<close> when it cannot be.
\<close>

definition copy_into :: "tensor \<Rightarrow> state_value \<Rightarrow> error + tensor" where
  "copy_into dst src =
     (case src of
        NonTensor \<Rightarrow> Inl TypeError
      | Parameter t \<Rightarrow>
          (if broadcast_shapes (shape dst) (shape t) = Some (shape dst)
           then Inr (Tensor (shape dst) (expand_data t (shape dst)))
           else Inl RuntimeError)
      | Plain t \<Rightarrow>
          (if broadcast_shapes (shape dst) (shape t) = Some (shape dst)
           then Inr (Tensor (shape dst) (expand_data t (shape dst)))
           else Inl RuntimeError))"

text \<open>\<^verbatim>\<open>except (AttributeError, RuntimeError): pass\<close>: the exceptions that the loop absorbs.\<close>

definition caught :: "error \<Rightarrow> bool" where
  "caught e = (case e of AttributeError _ \<Rightarrow> True | RuntimeError \<Rightarrow> True | _ \<Rightarrow> False)"

text \<open>The source mappings all of whose values under a name of the parameter set are tensors.\<close>

definition tensor_valued :: "(string \<rightharpoonup> tensor) \<Rightarrow> (string \<times> state_value) list \<Rightarrow> bool" where
  "tensor_valued own_state sd =
     (\<forall>(name, param) \<in> set sd. name \<in> dom own_state \<longrightarrow> param \<noteq> NonTensor)"

text \<open>
  The loop over \<^verbatim>\<open>state_dict.items()\<close>.  \<open>own_state\<close> is what \<^verbatim>\<open>self.state_dict()\<close> returns:
  the parameters of the object by name, shared with the object, so that the copy
  changes the object's parameter.
\<close>

fun load_state_dict ::
  "(string \<rightharpoonup> tensor) \<Rightarrow> (string \<times> state_value) list \<Rightarrow> error + (string \<rightharpoonup> tensor)" where
  "load_state_dict own_state [] = Inr own_state"
| "load_state_dict own_state ((name, param) # rest) =
     (case own_state name of
        None \<Rightarrow> load_state_dict own_state rest
      | Some dst \<Rightarrow>
          (let param1 = param_data param in
           case copy_into dst param1 of
             Inr dst1 \<Rightarrow> load_state_dict (own_state(name \<mapsto> dst1)) rest
           | Inl e \<Rightarrow> if caught e then load_state_dict own_state rest else Inl e))"

text \<open>
  What one round of the loop leaves in the parameter store when it raises nothing: the
  store itself for a name it lacks or a copy that failed, the store with the copied
  value otherwise.
\<close>

definition after_entry :: "(string \<rightharpoonup> tensor) \<Rightarrow> string \<Rightarrow> state_value \<Rightarrow> (string \<rightharpoonup> tensor)" where
  "after_entry own name param =
     (case own name of
        None \<Rightarrow> own
      | Some dst \<Rightarrow> (case copy_into dst (param_data param) of
                       Inl e \<Rightarrow> own | Inr t \<Rightarrow> own(name \<mapsto> t)))"

section \<open>The assumption on the injected layers\<close>

text \<open>
  A layer of the network keeps the number of nodes and produces its configured output
  width: on every well-formed input of shape (E, N, c_in) on the device \<open>d\<close> it returns a
  well-formed tensor of shape (E, N, c_out) on \<open>d\<close>.  With \<open>in_grad\<close>, only inputs that
  require grad are meant.  With \<open>needs_grad\<close>, what the layer returns requires grad
  whenever gradients are recorded, as the result of a layer with learnable parameters
  does on every input, and the result of a differentiable layer without parameters on an
  input that requires grad.
\<close>

definition layer_contract ::
  "runtime \<Rightarrow> device \<Rightarrow> nat \<Rightarrow> nat \<Rightarrow> bool \<Rightarrow> bool \<Rightarrow> GraphLayer \<Rightarrow> bool" where
  "layer_contract rt d E N needs_grad in_grad layer =
     (\<forall>x. shape (tensor_of x) = [E, N, la_c_in (made_from layer)] \<and> wf_tensor (tensor_of x)
            \<and> device_of x = d \<and> (in_grad \<longrightarrow> requires_grad x) \<longrightarrow>
        (\<exists>y. layer_forward layer rt x = Inr y
            \<and> shape (tensor_of y) = [E, N, la_c_out (made_from layer)] \<and> wf_tensor (tensor_of y)
            \<and> device_of y = d
            \<and> (needs_grad \<and> grad_enabled rt \<longrightarrow> requires_grad y)))"

section \<open>Stand-ins for the injected layer type\<close>

text \<open>
  Used in the examples only.  The first is a layer with a learnable bias: it accepts
  inputs of shape (E, N, c_in) and returns ones of shape (E, N, c_out), on the device of
  its input and requiring grad when gradients are recorded.  The second has no
  parameter: what it returns requires grad only if its input does.
\<close>

definition stub_layer :: "layer_args \<Rightarrow> runtime \<Rightarrow> variable \<Rightarrow> error + variable" where
  "stub_layer args rt x =
     (case shape (tensor_of x) of
        [e, n, c] \<Rightarrow>
          if c = la_c_in args
          then Inr (Variable (Tensor [e, n, la_c_out args] (replicate (e * n * la_c_out args) 1))
                      (grad_enabled rt) (device_of x))
          else Inl RuntimeError
      | _ \<Rightarrow> Inl RuntimeError)"

definition parameterless_layer :: "layer_args \<Rightarrow> runtime \<Rightarrow> variable \<Rightarrow> error + variable" where
  "parameterless_layer args rt x =
     (case shape (tensor_of x) of
        [e, n, c] \<Rightarrow>
          if c = la_c_in args
          then Inr (Variable (Tensor [e, n, la_c_out args] (replicate (e * n * la_c_out args) 1))
                      (grad_enabled rt \<and> requires_grad x) (device_of x))
          else Inl RuntimeError
      | _ \<Rightarrow> Inl RuntimeError)"

definition example_config :: config where
  "example_config =
     \<lparr> cfg_input_dim = 3, cfg_channels = [8],
       cfg_adj = Matrix 4 4 [0, 1, 0, 1,  1, 0, 1, 0,  0, 1, 0, 1,  1, 0, 1, 0],
       cfg_out_dim = None, cfg_cuda = False, cfg_embedding = None,
       cfg_transform_adj = None, cfg_aggregate_adj = None, cfg_prepool_extralayers = 0,
       cfg_graph_layer_type = stub_layer, cfg_gating = 0, cfg_dropout = False,
       cfg_attention_head = 0, cfg_master_nodes = 0 \<rparr>"

section \<open>Properties\<close>

subsection \<open>The static gate\<close>

lemma sigmoid_range: "0 \<le> sigmoid v \<and> sigmoid v \<le> 1"
proof -
  define d where "d = 1 + exp (- v)"
  have d1: "1 \<le> d" unfolding d_def by simp
  then have "0 \<le> 1 / d" and "1 / d \<le> 1" by (auto simp: divide_le_eq)
  then show ?thesis unfolding sigmoid_def d_def by simp
qed

text \<open>
  C7.  On an input of shape (E, N, C) the static gate returns the sigmoid of its
  length-50 vector of ones reshaped to (N, 1) when N = 50, whatever the entries of the
  input and whatever E and C are, and raises the reshape error when N differs from 50.
\<close>

theorem static_gate_forward:
  "StaticElementwiseGateLayer_forward (StaticElementwiseGateLayer_init id_dim) (Tensor [E, N, C] xs)
     = (if N = 50 then Inr (Tensor [N, 1] (replicate 50 (sigmoid 1))) else Inl RuntimeError)"
  by (simp add: StaticElementwiseGateLayer_forward_def StaticElementwiseGateLayer_init_def
      map_tensor_def view_def numel_def)

theorem static_gate_forward_witness:
  "StaticElementwiseGateLayer_forward (StaticElementwiseGateLayer_init 8) (Tensor [2, 50, 8] (replicate 800 3))
     = Inr (Tensor [50, 1] (replicate 50 (sigmoid 1)))
   \<and> StaticElementwiseGateLayer_forward (StaticElementwiseGateLayer_init 8) (Tensor [2, 4, 8] (replicate 64 3))
     = Inl RuntimeError"
  using static_gate_forward [of 8 2 50 8 "replicate 800 3"]
        static_gate_forward [of 8 2 4 8 "replicate 64 3"]
  by simp


subsection \<open>The constructor of GraphNetwork\<close>

lemma ebind_Inr [simp]: "ebind (Inr v) f = f v"
  by (simp add: ebind_def)

lemma ebind_Inl [simp]: "ebind (Inl e) f = Inl e"
  by (simp add: ebind_def)

lemma ebind_eq_Inr: "ebind m f = Inr y \<longleftrightarrow> (\<exists>v. m = Inr v \<and> f v = Inr y)"
  by (cases m) simp_all

lemma dropout_probability_bounds: "0 \<le> dropout_probability flag i \<and> dropout_probability flag i \<le> 4 / 10"
  by (auto simp: dropout_probability_def min_def)

lemma dropout_probability_mono: "i \<le> j \<Longrightarrow> dropout_probability flag i \<le> dropout_probability flag j"
  by (auto simp: dropout_probability_def min_def)

lemma dropout_comprehension_eq:
  "dropout_comprehension flag ids = Inr (map (\<lambda>i. Some \<lparr> drop_p = dropout_probability flag i \<rparr>) ids)"
proof (induction ids)
  case Nil
  show ?case by simp
next
  case (Cons i ids)
  have "0 \<le> dropout_probability flag i" "dropout_probability flag i \<le> 1"
    using dropout_probability_bounds [of flag i] by auto
  then have "Dropout_init (dropout_probability flag i) = Inr \<lparr> drop_p = dropout_probability flag i \<rparr>"
    by (simp add: Dropout_init_def)
  with Cons show ?case by simp
qed

lemma add_dropout_layers_eq:
  "add_dropout_layers self =
     Inr (self\<lparr> dropout_layers :=
            (if dropout self
             then map (\<lambda>i. Some \<lparr> drop_p = dropout_probability True i \<rparr>) [0..<length (dims self) - 1]
             else replicate (length (dims self) - 1) None) \<rparr>)"
  by (simp add: add_dropout_layers_def dropout_comprehension_eq Let_def)

lemma extra_layers_loop_eq:
  "extra_layers_loop self i c n convs = convs @ replicate n (make_layer self c c i None None)"
  by (induction n arbitrary: convs) (simp_all add: replicate_app_Cons_same)

lemma conv_layers_loop_eq:
  "conv_layers_loop self ps convs =
     convs @ concat (map (\<lambda>(i, c_in, c_out).
        (if aggregate_adj self \<noteq> None
         then replicate (nat (prepool_extralayers self)) (make_layer self c_in c_in i None None)
         else [])
        @ [register_forward_hook
             (make_layer self c_in c_out i (Some (transform_adj self)) (aggregate_adj self))]) ps)"
  by (induction ps arbitrary: convs) (auto simp: extra_layers_loop_eq Let_def)

lemma width_pairs_eq:
  "enumerate 0 (zip (butlast ds) (tl ds)) = map (\<lambda>i. (i, ds ! i, ds ! Suc i)) [0..<length ds - 1]"
  by (auto simp: list_eq_iff_nth_eq nth_enumerate_eq nth_butlast nth_tl)

lemma add_graph_convolutional_layers_eq:
  "conv_layers (add_graph_convolutional_layers self) =
     concat (map (\<lambda>i.
        (if aggregate_adj self \<noteq> None
         then replicate (nat (prepool_extralayers self))
                (make_layer self (dims self ! i) (dims self ! i) i None None)
         else [])
        @ [register_forward_hook
             (make_layer self (dims self ! i) (dims self ! Suc i) i
                (Some (transform_adj self)) (aggregate_adj self))]) [0..<length (dims self) - 1])"
  by (simp add: add_graph_convolutional_layers_def conv_layers_loop_eq width_pairs_eq comp_def)

lemma make_layer_cong:
  "adj a = adj b \<Longrightarrow> cuda a = cuda b \<Longrightarrow> graph_layer_type a = graph_layer_type b \<Longrightarrow>
   make_layer a = make_layer b"
  by (intro ext) (simp add: make_layer_def)

text \<open>Each step of the constructor as one record update.\<close>

lemma init_embedding_eq:
  "init_embedding rnd self =
     Inr (self\<lparr> input_dim := (if truthy_embedding (embedding self)
                           then the (embedding self)
                           else input_dim self),
           emb := (if truthy_embedding (embedding self)
                   then Some (register_forward_hook (new_module
                          (EmbeddingLayer_init (nb_nodes self)
                             (the (embedding self)) (rnd ''emb.emb''))))
                   else emb self) \<rparr>)"
  by (cases "embedding self")
     (simp_all add: init_embedding_def add_embedding_layer_def truthy_embedding_def
        register_forward_hook_def new_module_def EmbeddingLayer_init_def)

lemma add_gating_layers_eq:
  "add_gating_layers rnd self =
     self\<lparr> gating_layers := (if 0 < gating self then gating_layers_loop rnd (channels self) []
                               else replicate (length (dims self) - 1) None) \<rparr>"
  by (simp add: add_gating_layers_def)

lemma add_logistic_layer_eq:
  "dims self \<noteq> [] \<Longrightarrow>
   add_logistic_layer rnd self =
     Inr (self\<lparr> my_logistic_layers :=
       [register_forward_hook (new_module (Linear_init
          ((if 0 < attention_head self then attention_head self else nb_nodes self) * last (dims self))
          (out_dim self)
          (rnd ''my_logistic_layers.0.weight'') (rnd ''my_logistic_layers.0.bias'')))] \<rparr>)"
  by (cases "dims self") (simp_all add: add_logistic_layer_def Let_def str_nat.simps)


lemma init_before_attention:
  "\<exists>s. GraphNetwork_init cfg rnd = init_attention rnd s
     \<and> out_dim s = (case cfg_out_dim cfg of Some d \<Rightarrow> d | None \<Rightarrow> 2)
     \<and> cuda s = cfg_cuda cfg \<and> adj s = cfg_adj cfg \<and> nb_nodes s = nrows (cfg_adj cfg)
     \<and> channels s = cfg_channels cfg \<and> embedding s = cfg_embedding cfg
     \<and> graph_layer_type s = cfg_graph_layer_type cfg
     \<and> aggregate_adj s = cfg_aggregate_adj cfg
     \<and> transform_adj s = (case cfg_transform_adj cfg of None \<Rightarrow> [] | Some t \<Rightarrow> t)
     \<and> dropout s = cfg_dropout cfg \<and> attention_head s = cfg_attention_head cfg
     \<and> prepool_extralayers s = cfg_prepool_extralayers cfg
     \<and> gating s = cfg_gating cfg \<and> training s \<and> other_attributes s = Map.empty
     \<and> attention_layer s = None
     \<and> dims s = (if truthy_embedding (cfg_embedding cfg)
                  then (the (cfg_embedding cfg))
                  else cfg_input_dim cfg) # cfg_channels cfg
     \<and> emb s = (if truthy_embedding (cfg_embedding cfg)
                 then Some (register_forward_hook (new_module
                        (EmbeddingLayer_init (nrows (cfg_adj cfg))
                           (the (cfg_embedding cfg)) (rnd ''emb.emb''))))
                 else None)
     \<and> (\<exists>s2. conv_layers s = conv_layers (add_graph_convolutional_layers s2)
            \<and> adj s2 = adj s \<and> cuda s2 = cuda s \<and> graph_layer_type s2 = graph_layer_type s
            \<and> aggregate_adj s2 = aggregate_adj s \<and> transform_adj s2 = transform_adj s
            \<and> prepool_extralayers s2 = prepool_extralayers s \<and> dims s2 = dims s)
     \<and> my_logistic_layers s =
           [register_forward_hook (new_module (Linear_init
              ((if 0 < cfg_attention_head cfg then cfg_attention_head cfg else nrows (cfg_adj cfg))
                 * last (dims s))
              (out_dim s)
              (rnd ''my_logistic_layers.0.weight'') (rnd ''my_logistic_layers.0.bias'')))]
     \<and> gating_layers s = (if 0 < cfg_gating cfg then gating_layers_loop rnd (cfg_channels cfg) []
                           else replicate (length (cfg_channels cfg)) None)
     \<and> dropout_layers s =
           (if cfg_dropout cfg
            then map (\<lambda>i. Some \<lparr> drop_p = dropout_probability True i \<rparr>) [0..<length (cfg_channels cfg)]
            else replicate (length (cfg_channels cfg)) None)
     \<and> param_device s = CPU \<and> param_requires_grad s"
proof -
  define s1 where "s1 = (init_attributes cfg)
         \<lparr> input_dim := (if truthy_embedding (embedding (init_attributes cfg))
                           then the (embedding (init_attributes cfg))
                           else input_dim (init_attributes cfg)),
           emb := (if truthy_embedding (embedding (init_attributes cfg))
                   then Some (register_forward_hook (new_module
                          (EmbeddingLayer_init (nb_nodes (init_attributes cfg))
                             (the (embedding (init_attributes cfg))) (rnd ''emb.emb''))))
                   else emb (init_attributes cfg)) \<rparr>"
  have ie: "init_embedding rnd (init_attributes cfg) = Inr s1"
    unfolding s1_def by (rule init_embedding_eq)
  define s2 where "s2 = s1\<lparr> dims := input_dim s1 # channels s1 \<rparr>"
  define s3 where "s3 = add_graph_convolutional_layers s2"
  define s4 where "s4 = s3\<lparr> my_logistic_layers :=
       [register_forward_hook (new_module (Linear_init
          ((if 0 < attention_head s3 then attention_head s3 else nb_nodes s3) * last (dims s3))
          (out_dim s3)
          (rnd ''my_logistic_layers.0.weight'') (rnd ''my_logistic_layers.0.bias'')))] \<rparr>"
  define s5 where "s5 = add_gating_layers rnd s4"
  define s6 where "s6 = s5\<lparr> dropout_layers :=
            (if dropout s5
             then map (\<lambda>i. Some \<lparr> drop_p = dropout_probability True i \<rparr>) [0..<length (dims s5) - 1]
             else replicate (length (dims s5) - 1) None) \<rparr>"
  have d3: "dims s3 \<noteq> []"
    by (simp add: s3_def s2_def add_graph_convolutional_layers_def)
  have l: "add_logistic_layer rnd s3 = Inr s4"
    unfolding s4_def by (rule add_logistic_layer_eq [OF d3])
  have d: "add_dropout_layers s5 = Inr s6"
    unfolding s6_def by (rule add_dropout_layers_eq)
  have e: "GraphNetwork_init cfg rnd = init_attention rnd s6"
    unfolding GraphNetwork_init_def Let_def ie
    using l d by (simp add: s2_def [symmetric] s3_def [symmetric] s5_def [symmetric])
  note defs = s6_def s5_def s4_def s3_def s2_def s1_def add_gating_layers_eq
    add_graph_convolutional_layers_def init_attributes_def
  have c: "conv_layers s6 = conv_layers (add_graph_convolutional_layers s2)"
    by (simp add: s6_def s5_def s4_def s3_def add_gating_layers_eq)
  have c2: "adj s2 = adj s6" "cuda s2 = cuda s6" "graph_layer_type s2 = graph_layer_type s6"
    "aggregate_adj s2 = aggregate_adj s6" "transform_adj s2 = transform_adj s6"
    "prepool_extralayers s2 = prepool_extralayers s6" "dims s2 = dims s6"
    by (simp_all add: s6_def s5_def s4_def s3_def add_gating_layers_eq add_graph_convolutional_layers_def)
  have f1: "out_dim s6 = (case cfg_out_dim cfg of Some d \<Rightarrow> d | None \<Rightarrow> 2)"
    "cuda s6 = cfg_cuda cfg" "adj s6 = cfg_adj cfg" "nb_nodes s6 = nrows (cfg_adj cfg)"
    "channels s6 = cfg_channels cfg" "embedding s6 = cfg_embedding cfg"
    "graph_layer_type s6 = cfg_graph_layer_type cfg"
    "aggregate_adj s6 = cfg_aggregate_adj cfg"
    "transform_adj s6 = (case cfg_transform_adj cfg of None \<Rightarrow> [] | Some t \<Rightarrow> t)"
    "dropout s6 = cfg_dropout cfg" "attention_head s6 = cfg_attention_head cfg"
    "prepool_extralayers s6 = cfg_prepool_extralayers cfg"
    "gating s6 = cfg_gating cfg" "training s6" "other_attributes s6 = Map.empty"
    "attention_layer s6 = None"
    by (simp_all add: defs)
  have f2: "dims s6 = (if truthy_embedding (cfg_embedding cfg)
                  then (the (cfg_embedding cfg))
                  else cfg_input_dim cfg) # cfg_channels cfg"
    by (simp add: defs)
  have f3: "emb s6 = (if truthy_embedding (cfg_embedding cfg)
                 then Some (register_forward_hook (new_module
                        (EmbeddingLayer_init (nrows (cfg_adj cfg))
                           (the (cfg_embedding cfg)) (rnd ''emb.emb''))))
                 else None)"
    by (simp add: defs)
  have f4: "my_logistic_layers s6 =
           [register_forward_hook (new_module (Linear_init
              ((if 0 < cfg_attention_head cfg then cfg_attention_head cfg else nrows (cfg_adj cfg))
                 * last (dims s6))
              (out_dim s6)
              (rnd ''my_logistic_layers.0.weight'') (rnd ''my_logistic_layers.0.bias'')))]"
    by (simp add: defs)
  have f5: "gating_layers s6 = (if 0 < cfg_gating cfg then gating_layers_loop rnd (cfg_channels cfg) []
                           else replicate (length (cfg_channels cfg)) None)"
    by (simp add: defs)
  have f6: "dropout_layers s6 =
           (if cfg_dropout cfg
            then map (\<lambda>i. Some \<lparr> drop_p = dropout_probability True i \<rparr>) [0..<length (cfg_channels cfg)]
            else replicate (length (cfg_channels cfg)) None)"
    by (simp add: defs)
  have f7: "param_device s6 = CPU" "param_requires_grad s6"
    by (simp_all add: defs)
  show ?thesis
    apply (rule exI [of _ s6])
    apply (intro conjI)
    apply (rule e)
    apply (rule f1 f2 f3 f4 f5 f6)+
    apply (rule exI [of _ s2])
    apply (intro conjI c c2)
    apply (rule f1 f2 f3 f4 f5 f6 f7)+
    done
qed


lemma init_result:
  assumes "GraphNetwork_init cfg rnd = Inr net"
  shows "out_dim net = (case cfg_out_dim cfg of Some d \<Rightarrow> d | None \<Rightarrow> 2)"
    and "cuda net = cfg_cuda cfg" and "adj net = cfg_adj cfg"
    and "nb_nodes net = nrows (cfg_adj cfg)"
    and "channels net = cfg_channels cfg" and "embedding net = cfg_embedding cfg"
    and "graph_layer_type net = cfg_graph_layer_type cfg"
    and "aggregate_adj net = cfg_aggregate_adj cfg"
    and "transform_adj net = (case cfg_transform_adj cfg of None \<Rightarrow> [] | Some t \<Rightarrow> t)"
    and "dropout net = cfg_dropout cfg" and "attention_head net = cfg_attention_head cfg"
    and "prepool_extralayers net = cfg_prepool_extralayers cfg"
    and "gating net = cfg_gating cfg" and "training net" and "other_attributes net = Map.empty"
    and "dims net = (if truthy_embedding (cfg_embedding cfg)
                  then (the (cfg_embedding cfg))
                  else cfg_input_dim cfg) # cfg_channels cfg"
    and "emb net = (if truthy_embedding (cfg_embedding cfg)
                 then Some (register_forward_hook (new_module
                        (EmbeddingLayer_init (nrows (cfg_adj cfg))
                           (the (cfg_embedding cfg)) (rnd ''emb.emb''))))
                 else None)"
    and "\<exists>s2. conv_layers net = conv_layers (add_graph_convolutional_layers s2)
            \<and> adj s2 = adj net \<and> cuda s2 = cuda net \<and> graph_layer_type s2 = graph_layer_type net
            \<and> aggregate_adj s2 = aggregate_adj net \<and> transform_adj s2 = transform_adj net
            \<and> prepool_extralayers s2 = prepool_extralayers net \<and> dims s2 = dims net"
    and "my_logistic_layers net =
           [register_forward_hook (new_module (Linear_init
              ((if 0 < cfg_attention_head cfg then cfg_attention_head cfg else nrows (cfg_adj cfg))
                 * last (dims net))
              (out_dim net)
              (rnd ''my_logistic_layers.0.weight'') (rnd ''my_logistic_layers.0.bias'')))]"
    and "gating_layers net = (if 0 < cfg_gating cfg then gating_layers_loop rnd (cfg_channels cfg) []
                           else replicate (length (cfg_channels cfg)) None)"
    and "dropout_layers net =
           (if cfg_dropout cfg
            then map (\<lambda>i. Some \<lparr> drop_p = dropout_probability True i \<rparr>) [0..<length (cfg_channels cfg)]
            else replicate (length (cfg_channels cfg)) None)"
    and "attention_layer net =
           (if cfg_attention_head cfg \<noteq> 0
            then Some (register_forward_hook (new_module
                   (AttentionLayer_init (last (cfg_channels cfg)) (cfg_attention_head cfg)
                      (rnd ''attention_layer.attn.weight'') (rnd ''attention_layer.attn.bias''))))
            else None)"
    and "cfg_attention_head cfg \<noteq> 0 \<longrightarrow> cfg_channels cfg \<noteq> []"
    and "param_device net = CPU" and "param_requires_grad net"
proof -
  from init_before_attention [of cfg rnd] obtain s where
    e: "GraphNetwork_init cfg rnd = init_attention rnd s"
    and f: "out_dim s = (case cfg_out_dim cfg of Some d \<Rightarrow> d | None \<Rightarrow> 2)"
     "cuda s = cfg_cuda cfg" "adj s = cfg_adj cfg" "nb_nodes s = nrows (cfg_adj cfg)"
     "channels s = cfg_channels cfg" "embedding s = cfg_embedding cfg"
     "graph_layer_type s = cfg_graph_layer_type cfg"
     "aggregate_adj s = cfg_aggregate_adj cfg"
     "transform_adj s = (case cfg_transform_adj cfg of None \<Rightarrow> [] | Some t \<Rightarrow> t)"
     "dropout s = cfg_dropout cfg" "attention_head s = cfg_attention_head cfg"
     "prepool_extralayers s = cfg_prepool_extralayers cfg"
     "gating s = cfg_gating cfg" "training s" "other_attributes s = Map.empty"
     "attention_layer s = None"
     "dims s = (if truthy_embedding (cfg_embedding cfg)
                  then (the (cfg_embedding cfg))
                  else cfg_input_dim cfg) # cfg_channels cfg"
     "emb s = (if truthy_embedding (cfg_embedding cfg)
                 then Some (register_forward_hook (new_module
                        (EmbeddingLayer_init (nrows (cfg_adj cfg))
                           (the (cfg_embedding cfg)) (rnd ''emb.emb''))))
                 else None)"
    and g: "\<exists>s2. conv_layers s = conv_layers (add_graph_convolutional_layers s2)
            \<and> adj s2 = adj s \<and> cuda s2 = cuda s \<and> graph_layer_type s2 = graph_layer_type s
            \<and> aggregate_adj s2 = aggregate_adj s \<and> transform_adj s2 = transform_adj s
            \<and> prepool_extralayers s2 = prepool_extralayers s \<and> dims s2 = dims s"
    and h: "my_logistic_layers s =
           [register_forward_hook (new_module (Linear_init
              ((if 0 < cfg_attention_head cfg then cfg_attention_head cfg else nrows (cfg_adj cfg))
                 * last (dims s))
              (out_dim s)
              (rnd ''my_logistic_layers.0.weight'') (rnd ''my_logistic_layers.0.bias'')))]"
     "gating_layers s = (if 0 < cfg_gating cfg then gating_layers_loop rnd (cfg_channels cfg) []
                           else replicate (length (cfg_channels cfg)) None)"
     "dropout_layers s =
           (if cfg_dropout cfg
            then map (\<lambda>i. Some \<lparr> drop_p = dropout_probability True i \<rparr>) [0..<length (cfg_channels cfg)]
            else replicate (length (cfg_channels cfg)) None)"
    and pd: "param_device s = CPU" "param_requires_grad s"
    by blast
  from assms e have a: "init_attention rnd s = Inr net" by simp
  have ne: "cfg_attention_head cfg \<noteq> 0 \<longrightarrow> cfg_channels cfg \<noteq> []"
    using a f(5,11) by (auto simp: init_attention_def split: if_splits list.splits)
  have net: "net = s\<lparr> attention_layer :=
           (if cfg_attention_head cfg \<noteq> 0
            then Some (register_forward_hook (new_module
                   (AttentionLayer_init (last (cfg_channels cfg)) (cfg_attention_head cfg)
                      (rnd ''attention_layer.attn.weight'') (rnd ''attention_layer.attn.bias''))))
            else None) \<rparr>"
    using a f(5,11,16) by (auto simp: init_attention_def split: if_splits list.splits)
  show "out_dim net = (case cfg_out_dim cfg of Some d \<Rightarrow> d | None \<Rightarrow> 2)"
    and "cuda net = cfg_cuda cfg" and "adj net = cfg_adj cfg"
    and "nb_nodes net = nrows (cfg_adj cfg)"
    and "channels net = cfg_channels cfg" and "embedding net = cfg_embedding cfg"
    and "graph_layer_type net = cfg_graph_layer_type cfg"
    and "aggregate_adj net = cfg_aggregate_adj cfg"
    and "transform_adj net = (case cfg_transform_adj cfg of None \<Rightarrow> [] | Some t \<Rightarrow> t)"
    and "dropout net = cfg_dropout cfg" and "attention_head net = cfg_attention_head cfg"
    and "prepool_extralayers net = cfg_prepool_extralayers cfg"
    and "gating net = cfg_gating cfg" and "training net" and "other_attributes net = Map.empty"
    and "dims net = (if truthy_embedding (cfg_embedding cfg)
                  then (the (cfg_embedding cfg))
                  else cfg_input_dim cfg) # cfg_channels cfg"
    and "emb net = (if truthy_embedding (cfg_embedding cfg)
                 then Some (register_forward_hook (new_module
                        (EmbeddingLayer_init (nrows (cfg_adj cfg))
                           (the (cfg_embedding cfg)) (rnd ''emb.emb''))))
                 else None)"
    using f by (simp_all add: net)
  show "\<exists>s2. conv_layers net = conv_layers (add_graph_convolutional_layers s2)
            \<and> adj s2 = adj net \<and> cuda s2 = cuda net \<and> graph_layer_type s2 = graph_layer_type net
            \<and> aggregate_adj s2 = aggregate_adj net \<and> transform_adj s2 = transform_adj net
            \<and> prepool_extralayers s2 = prepool_extralayers net \<and> dims s2 = dims net"
    using g by (simp add: net)
  show "my_logistic_layers net =
           [register_forward_hook (new_module (Linear_init
              ((if 0 < cfg_attention_head cfg then cfg_attention_head cfg else nrows (cfg_adj cfg))
                 * last (dims net))
              (out_dim net)
              (rnd ''my_logistic_layers.0.weight'') (rnd ''my_logistic_layers.0.bias'')))]"
    and "gating_layers net = (if 0 < cfg_gating cfg then gating_layers_loop rnd (cfg_channels cfg) []
                           else replicate (length (cfg_channels cfg)) None)"
    and "dropout_layers net =
           (if cfg_dropout cfg
            then map (\<lambda>i. Some \<lparr> drop_p = dropout_probability True i \<rparr>) [0..<length (cfg_channels cfg)]
            else replicate (length (cfg_channels cfg)) None)"
    using h by (simp_all add: net)
  show "attention_layer net =
           (if cfg_attention_head cfg \<noteq> 0
            then Some (register_forward_hook (new_module
                   (AttentionLayer_init (last (cfg_channels cfg)) (cfg_attention_head cfg)
                      (rnd ''attention_layer.attn.weight'') (rnd ''attention_layer.attn.bias''))))
            else None)"
    by (simp add: net)
  show "cfg_attention_head cfg \<noteq> 0 \<longrightarrow> cfg_channels cfg \<noteq> []" by (rule ne)
  show "param_device net = CPU" and "param_requires_grad net"
    using pd by (simp_all add: net)
qed

lemma init_total:
  assumes "cfg_attention_head cfg \<noteq> 0 \<longrightarrow> cfg_channels cfg \<noteq> []"
  shows "\<exists>net. GraphNetwork_init cfg rnd = Inr net"
proof -
  from init_before_attention [of cfg rnd] obtain s where
    e: "GraphNetwork_init cfg rnd = init_attention rnd s"
    and f: "channels s = cfg_channels cfg" "attention_head s = cfg_attention_head cfg"
    by blast
  show ?thesis unfolding e using assms f
    by (auto simp: init_attention_def split: list.splits)
qed

text \<open>
  C5.  In a constructed network there is one dropout stage per stage index.  With the
  dropout option enabled, the stage at index \<open>i\<close> is a dropout of probability
  \<open>int(True) * min((i + 1) / 10, 0.4) = min((i + 1) / 10, 0.4)\<close>.  With the option disabled the
  stage is absent, the formula of the schedule gives \<open>0\<close>, and the forward pass leaves every
  tensor unchanged at this stage.  The probabilities do not decrease with the index and
  never exceed \<open>0.4\<close>.
\<close>

theorem dropout_schedule:
  assumes "GraphNetwork_init cfg rnd = Inr net" and "i < length (cfg_channels cfg)"
  shows "length (dropout_layers net) = length (cfg_channels cfg)
     \<and> (cfg_dropout cfg \<longrightarrow>
          dropout_layers net ! i = Some \<lparr> drop_p = dropout_probability True i \<rparr>
          \<and> dropout_probability True i = min ((real i + 1) / 10) (4 / 10))
     \<and> (\<not> cfg_dropout cfg \<longrightarrow>
          dropout_layers net ! i = None \<and> dropout_probability False i = 0
          \<and> (\<forall>keep x. dropout_step net keep (dropout_layers net ! i) x = Inr x))
     \<and> (\<forall>j. i \<le> j \<longrightarrow>
          dropout_probability (cfg_dropout cfg) i \<le> dropout_probability (cfg_dropout cfg) j)
     \<and> dropout_probability (cfg_dropout cfg) i \<le> 4 / 10"
proof -
  note r = init_result [OF assms(1)]
  have "length (dropout_layers net) = length (cfg_channels cfg)"
    by (simp add: r(21))
  moreover have "cfg_dropout cfg \<longrightarrow>
          dropout_layers net ! i = Some \<lparr> drop_p = dropout_probability True i \<rparr>
          \<and> dropout_probability True i = min ((real i + 1) / 10) (4 / 10)"
    using assms(2) by (simp add: r(21) dropout_probability_def)
  moreover have "\<not> cfg_dropout cfg \<longrightarrow>
          dropout_layers net ! i = None \<and> dropout_probability False i = 0
          \<and> (\<forall>keep x. dropout_step net keep (dropout_layers net ! i) x = Inr x)"
    using assms(2) by (simp add: r(21) dropout_probability_def dropout_step_def)
  moreover have "\<forall>j. i \<le> j \<longrightarrow>
          dropout_probability (cfg_dropout cfg) i \<le> dropout_probability (cfg_dropout cfg) j"
    by (simp add: dropout_probability_mono)
  moreover have "dropout_probability (cfg_dropout cfg) i \<le> 4 / 10"
    using dropout_probability_bounds by blast
  ultimately show ?thesis by blast
qed

theorem dropout_schedule_witness:
  "(\<exists>net. GraphNetwork_init (example_config\<lparr> cfg_channels := [8, 5, 6, 7, 8], cfg_dropout := True \<rparr>)
            (\<lambda>name k. 0) = Inr net
      \<and> dropout_layers net ! 0 = Some \<lparr> drop_p = 1 / 10 \<rparr>
      \<and> dropout_layers net ! 2 = Some \<lparr> drop_p = 3 / 10 \<rparr>
      \<and> dropout_layers net ! 4 = Some \<lparr> drop_p = 4 / 10 \<rparr>
      \<and> dropout_probability True 2 \<le> dropout_probability True 4)
   \<and> (\<exists>net. GraphNetwork_init (example_config\<lparr> cfg_channels := [8, 5, 6, 7, 8] \<rparr>)
            (\<lambda>name k. 0) = Inr net
      \<and> length (dropout_layers net) = 5
      \<and> dropout_layers net ! 4 = None
      \<and> dropout_probability False 4 = 0)"
proof -
  let ?cfg = "example_config\<lparr> cfg_channels := [8, 5, 6, 7, 8], cfg_dropout := True \<rparr>"
  let ?off = "example_config\<lparr> cfg_channels := [8, 5, 6, 7, 8] \<rparr>"
  have "cfg_attention_head ?cfg \<noteq> 0 \<longrightarrow> cfg_channels ?cfg \<noteq> []" by simp
  from init_total [OF this] obtain net where n: "GraphNetwork_init ?cfg (\<lambda>name k. 0) = Inr net"
    by blast
  have d: "cfg_dropout ?cfg" by simp
  have a0: "dropout_layers net ! 0 = Some \<lparr> drop_p = 1 / 10 \<rparr>"
    using dropout_schedule [OF n, of 0] d by simp
  have a2: "dropout_layers net ! 2 = Some \<lparr> drop_p = 3 / 10 \<rparr>"
    using dropout_schedule [OF n, of 2] d by simp
  have a4: "dropout_layers net ! 4 = Some \<lparr> drop_p = 4 / 10 \<rparr>"
    using dropout_schedule [OF n, of 4] d by simp
  have "\<forall>j. 2 \<le> j \<longrightarrow> dropout_probability (cfg_dropout ?cfg) 2 \<le> dropout_probability (cfg_dropout ?cfg) j"
    using dropout_schedule [OF n, of 2] by simp
  then have m: "dropout_probability True 2 \<le> dropout_probability True 4"
    using d by simp
  have e1: "\<exists>net. GraphNetwork_init ?cfg (\<lambda>name k. 0) = Inr net
      \<and> dropout_layers net ! 0 = Some \<lparr> drop_p = 1 / 10 \<rparr>
      \<and> dropout_layers net ! 2 = Some \<lparr> drop_p = 3 / 10 \<rparr>
      \<and> dropout_layers net ! 4 = Some \<lparr> drop_p = 4 / 10 \<rparr>
      \<and> dropout_probability True 2 \<le> dropout_probability True 4"
    using n a0 a2 a4 m by (intro exI [of _ net] conjI)
  have "cfg_attention_head ?off \<noteq> 0 \<longrightarrow> cfg_channels ?off \<noteq> []"
    by (simp add: example_config_def)
  from init_total [OF this] obtain net' where n': "GraphNetwork_init ?off (\<lambda>name k. 0) = Inr net'"
    by blast
  have d': "\<not> cfg_dropout ?off" by (simp add: example_config_def)
  have b1: "length (dropout_layers net') = 5"
    using dropout_schedule [OF n', of 4] by simp
  have b2: "dropout_layers net' ! 4 = None" "dropout_probability False 4 = 0"
    using dropout_schedule [OF n', of 4] d' by simp_all
  have e2: "\<exists>net. GraphNetwork_init ?off (\<lambda>name k. 0) = Inr net
      \<and> length (dropout_layers net) = 5
      \<and> dropout_layers net ! 4 = None
      \<and> dropout_probability False 4 = 0"
    using n' b1 b2 by (intro exI [of _ net'] conjI)
  from e1 e2 show ?thesis by (rule conjI)
qed

text \<open>The conv layers of a constructed network, in closed form.\<close>

lemma init_conv_layers_eq:
  assumes "GraphNetwork_init cfg rnd = Inr net"
  shows "conv_layers net =
     concat (map (\<lambda>i.
        (if aggregate_adj net \<noteq> None
         then replicate (nat (prepool_extralayers net))
                (make_layer net (dims net ! i) (dims net ! i) i None None)
         else [])
        @ [register_forward_hook
             (make_layer net (dims net ! i) (dims net ! Suc i) i
                (Some (transform_adj net)) (aggregate_adj net))]) [0..<length (dims net) - 1])"
proof -
  from init_result(18) [OF assms] obtain self where
    c: "conv_layers net = conv_layers (add_graph_convolutional_layers self)"
    and f: "adj self = adj net" "cuda self = cuda net" "graph_layer_type self = graph_layer_type net"
    and g: "aggregate_adj self = aggregate_adj net" "transform_adj self = transform_adj net"
       "prepool_extralayers self = prepool_extralayers net" "dims self = dims net"
    by blast
  have m: "make_layer self = make_layer net" using f by (rule make_layer_cong)
  show ?thesis unfolding c add_graph_convolutional_layers_eq m g ..
qed


text \<open>
  C8.  The conv layers of a constructed network are, for each pair of consecutive widths
  \<open>(dims ! i, dims ! (i + 1))\<close> in order: when \<^verbatim>\<open>aggregate_adj\<close> is not \<^verbatim>\<open>None\<close>, exactly
  \<^verbatim>\<open>prepool_extralayers\<close> layers from width \<open>dims ! i\<close> to the same width (none for a count that
  is not positive), made without adjacency transforms and without a hook; then, in every
  case, the one hooked layer from \<open>dims ! i\<close> to \<open>dims ! (i + 1)\<close>.
\<close>

theorem conv_layers_structure:
  assumes "GraphNetwork_init cfg rnd = Inr net"
  shows "conv_layers net =
     concat (map (\<lambda>i.
        (if aggregate_adj net \<noteq> None
         then replicate (nat (prepool_extralayers net))
                (make_layer net (dims net ! i) (dims net ! i) i None None)
         else [])
        @ [register_forward_hook
             (make_layer net (dims net ! i) (dims net ! Suc i) i
                (Some (transform_adj net)) (aggregate_adj net))]) [0..<length (dims net) - 1])"
  using assms by (rule init_conv_layers_eq)

theorem conv_layers_structure_witness:
  "(\<exists>net. GraphNetwork_init
             (example_config\<lparr> cfg_channels := [8, 5], cfg_aggregate_adj := Some ''pool'',
                               cfg_prepool_extralayers := 2 \<rparr>) (\<lambda>name k. 0) = Inr net
      \<and> map (\<lambda>h. (la_c_in (made_from (module h)), la_c_out (made_from (module h)),
                    la_id_layer (made_from (module h)), forward_hook h)) (conv_layers net)
          = [(3, 3, 0, False), (3, 3, 0, False), (3, 8, 0, True),
             (8, 8, 1, False), (8, 8, 1, False), (8, 5, 1, True)])
   \<and> (\<exists>net. GraphNetwork_init
             (example_config\<lparr> cfg_channels := [8, 5], cfg_prepool_extralayers := 2 \<rparr>)
             (\<lambda>name k. 0) = Inr net
      \<and> map (\<lambda>h. (la_c_in (made_from (module h)), la_c_out (made_from (module h)),
                    la_id_layer (made_from (module h)), forward_hook h)) (conv_layers net)
          = [(3, 8, 0, True), (8, 5, 1, True)])"
proof -
  let ?cfg1 = "example_config\<lparr> cfg_channels := [8, 5], cfg_aggregate_adj := Some ''pool'',
                               cfg_prepool_extralayers := 2 \<rparr>"
  let ?cfg2 = "example_config\<lparr> cfg_channels := [8, 5], cfg_prepool_extralayers := 2 \<rparr>"
  have two: "[0..<2] = [0, Suc 0]" by (simp add: upt_rec)
  have "cfg_attention_head ?cfg1 \<noteq> 0 \<longrightarrow> cfg_channels ?cfg1 \<noteq> []" by simp
  from init_total [OF this] obtain n1 where n1: "GraphNetwork_init ?cfg1 (\<lambda>name k. 0) = Inr n1"
    by blast
  note r1 = init_result [OF n1]
  have d1: "dims n1 = [3, 8, 5]" by (simp add: r1(16) example_config_def truthy_embedding_def)
  have a1: "aggregate_adj n1 = Some ''pool''" by (simp add: r1(8))
  have p1: "nat (prepool_extralayers n1) = Suc (Suc 0)" by (simp add: r1(12))
  have c1: "map (\<lambda>h. (la_c_in (made_from (module h)), la_c_out (made_from (module h)),
                    la_id_layer (made_from (module h)), forward_hook h)) (conv_layers n1)
          = [(3, 3, 0, False), (3, 3, 0, False), (3, 8, 0, True),
             (8, 8, 1, False), (8, 8, 1, False), (8, 5, 1, True)]"
    unfolding conv_layers_structure [OF n1] d1 a1 p1
    apply (simp add: two)
    apply (simp add: make_layer_def new_module_def register_forward_hook_def Let_def)
    done
  have "cfg_attention_head ?cfg2 \<noteq> 0 \<longrightarrow> cfg_channels ?cfg2 \<noteq> []" by simp
  from init_total [OF this] obtain n2 where n2: "GraphNetwork_init ?cfg2 (\<lambda>name k. 0) = Inr n2"
    by blast
  note r2 = init_result [OF n2]
  have d2: "dims n2 = [3, 8, 5]" by (simp add: r2(16) example_config_def truthy_embedding_def)
  have a2: "aggregate_adj n2 = None" by (simp add: r2(8) example_config_def)
  have c2: "map (\<lambda>h. (la_c_in (made_from (module h)), la_c_out (made_from (module h)),
                    la_id_layer (made_from (module h)), forward_hook h)) (conv_layers n2)
          = [(3, 8, 0, True), (8, 5, 1, True)]"
    unfolding conv_layers_structure [OF n2] d2 a2
    apply (simp add: two)
    apply (simp add: make_layer_def new_module_def register_forward_hook_def Let_def)
    done
  have e1: "\<exists>net. GraphNetwork_init ?cfg1 (\<lambda>name k. 0) = Inr net
      \<and> map (\<lambda>h. (la_c_in (made_from (module h)), la_c_out (made_from (module h)),
                    la_id_layer (made_from (module h)), forward_hook h)) (conv_layers net)
          = [(3, 3, 0, False), (3, 3, 0, False), (3, 8, 0, True),
             (8, 8, 1, False), (8, 8, 1, False), (8, 5, 1, True)]"
    by (rule exI [of _ n1]) (rule conjI [OF n1 c1])
  have e2: "\<exists>net. GraphNetwork_init ?cfg2 (\<lambda>name k. 0) = Inr net
      \<and> map (\<lambda>h. (la_c_in (made_from (module h)), la_c_out (made_from (module h)),
                    la_id_layer (made_from (module h)), forward_hook h)) (conv_layers net)
          = [(3, 8, 0, True), (8, 5, 1, True)]"
    by (rule exI [of _ n2]) (rule conjI [OF n2 c2])
  from e1 e2 show ?thesis by (rule conjI)
qed


subsection \<open>Parameter loading\<close>

lemma copy_into_error: "copy_into dst src = Inl e \<Longrightarrow> src \<noteq> NonTensor \<Longrightarrow> caught e"
  by (auto simp: copy_into_def caught_def split: if_splits state_value.splits)

lemma copy_into_NonTensor [simp]: "copy_into dst NonTensor = Inl TypeError"
  by (simp add: copy_into_def)

lemma param_data_NonTensor [simp]: "param_data param = NonTensor \<longleftrightarrow> param = NonTensor"
  by (auto simp: param_data_def split: state_value.splits)

lemma dom_after_entry [simp]: "dom (after_entry own name param) = dom own"
  by (auto simp: after_entry_def split: option.splits sum.splits)

lemma after_entry_other: "n \<noteq> name \<Longrightarrow> after_entry own name param n = own n"
  by (auto simp: after_entry_def split: option.splits sum.splits)

lemma after_entry_same:
  "after_entry own name param name =
     (case own name of
        None \<Rightarrow> None
      | Some dst \<Rightarrow> (case copy_into dst (param_data param) of
                       Inl e \<Rightarrow> Some dst | Inr t \<Rightarrow> Some t))"
  by (auto simp: after_entry_def split: option.splits sum.splits)

lemma load_state_dict_Cons:
  "name \<in> dom own \<longrightarrow> param \<noteq> NonTensor \<Longrightarrow>
   load_state_dict own ((name, param) # rest) = load_state_dict (after_entry own name param) rest"
  by (auto simp: Let_def after_entry_def split: option.splits sum.splits
           dest: copy_into_error)

lemma tensor_valued_Cons:
  "tensor_valued own ((name, param) # rest) \<longleftrightarrow>
     (name \<in> dom own \<longrightarrow> param \<noteq> NonTensor) \<and> tensor_valued (after_entry own name param) rest"
  by (simp add: tensor_valued_def)

lemma load_state_dict_total:
  "tensor_valued own sd \<Longrightarrow> \<exists>own'. load_state_dict own sd = Inr own'"
proof (induction sd arbitrary: own)
  case Nil
  show ?case by simp
next
  case (Cons a sd)
  obtain name param where a: "a = (name, param)" by (cases a)
  from Cons.prems have t: "name \<in> dom own \<longrightarrow> param \<noteq> NonTensor"
    and r: "tensor_valued (after_entry own name param) sd"
    by (simp_all add: a tensor_valued_Cons)
  show ?case unfolding a load_state_dict_Cons [OF t] using r by (rule Cons.IH)
qed

text \<open>
  The one exception that leaves the loop: the \<^verbatim>\<open>TypeError\<close> of a value that is no tensor,
  under a name of the parameter set.
\<close>

lemma load_state_dict_raises:
  "load_state_dict own sd = Inl e \<Longrightarrow>
   e = TypeError \<and> (\<exists>name. (name, NonTensor) \<in> set sd \<and> name \<in> dom own)"
proof (induction sd arbitrary: own)
  case Nil
  then show ?case by simp
next
  case (Cons a sd)
  obtain name param where a: "a = (name, param)" by (cases a)
  show ?case
  proof (cases "name \<in> dom own \<and> param = NonTensor")
    case True
    then obtain dst where "own name = Some dst" by auto
    with True Cons.prems have "e = TypeError"
      by (simp add: a param_data_def caught_def)
    with True show ?thesis by (auto simp: a)
  next
    case False
    then have t: "name \<in> dom own \<longrightarrow> param \<noteq> NonTensor" by blast
    from Cons.prems have "load_state_dict (after_entry own name param) sd = Inl e"
      unfolding a load_state_dict_Cons [OF t] .
    from Cons.IH [OF this] show ?thesis by (auto simp: a)
  qed
qed

lemma load_state_dict_dom: "load_state_dict own sd = Inr own' \<Longrightarrow> dom own' = dom own"
proof (induction sd arbitrary: own)
  case Nil
  then show ?case by simp
next
  case (Cons a sd)
  obtain name param where a: "a = (name, param)" by (cases a)
  show ?case
  proof (cases "name \<in> dom own \<and> param = NonTensor")
    case True
    then obtain dst where "own name = Some dst" by auto
    with True Cons.prems show ?thesis by (simp add: a param_data_def caught_def)
  next
    case False
    then have t: "name \<in> dom own \<longrightarrow> param \<noteq> NonTensor" by blast
    from Cons.prems have "load_state_dict (after_entry own name param) sd = Inr own'"
      unfolding a load_state_dict_Cons [OF t] .
    from Cons.IH [OF this] show ?thesis by simp
  qed
qed

lemma load_state_dict_other:
  "load_state_dict own sd = Inr own' \<Longrightarrow> name \<notin> fst ` set sd \<Longrightarrow> own' name = own name"
proof (induction sd arbitrary: own)
  case Nil
  then show ?case by simp
next
  case (Cons a sd)
  obtain n param where a: "a = (n, param)" by (cases a)
  from Cons.prems(2) have ne: "name \<noteq> n" and notin: "name \<notin> fst ` set sd" by (auto simp: a)
  show ?case
  proof (cases "n \<in> dom own \<and> param = NonTensor")
    case True
    then obtain dst where "own n = Some dst" by auto
    with True Cons.prems(1) show ?thesis by (simp add: a param_data_def caught_def)
  next
    case False
    then have t: "n \<in> dom own \<longrightarrow> param \<noteq> NonTensor" by blast
    from Cons.prems(1) have "load_state_dict (after_entry own n param) sd = Inr own'"
      unfolding a load_state_dict_Cons [OF t] .
    from Cons.IH [OF this notin] show ?thesis using ne by (simp add: after_entry_other)
  qed
qed

lemma load_state_dict_entry:
  "load_state_dict own sd = Inr own' \<Longrightarrow> distinct (map fst sd) \<Longrightarrow> (name, param) \<in> set sd \<Longrightarrow>
   own' name =
     (case own name of
        None \<Rightarrow> None
      | Some dst \<Rightarrow> (case copy_into dst (param_data param) of
                       Inl e \<Rightarrow> Some dst | Inr t \<Rightarrow> Some t))"
proof (induction sd arbitrary: own)
  case Nil
  then show ?case by simp
next
  case (Cons a sd)
  obtain n p where a: "a = (n, p)" by (cases a)
  from Cons.prems(2) have d: "distinct (map fst sd)" and nn: "n \<notin> fst ` set sd"
    by (auto simp: a)
  show ?case
  proof (cases "n \<in> dom own \<and> p = NonTensor")
    case True
    then obtain dst where "own n = Some dst" by auto
    with True Cons.prems(1) show ?thesis by (simp add: a param_data_def caught_def)
  next
    case False
    then have t: "n \<in> dom own \<longrightarrow> p \<noteq> NonTensor" by blast
    from Cons.prems(1) have l: "load_state_dict (after_entry own n p) sd = Inr own'"
      unfolding a load_state_dict_Cons [OF t] .
    show ?thesis
    proof (cases "name = n")
      case True
      with Cons.prems(3) nn have pp: "param = p" by (force simp: a)
      have "own' name = after_entry own n p name"
        using load_state_dict_other [OF l] nn True by simp
      then show ?thesis unfolding True pp by (simp add: after_entry_same)
    next
      case False
      with Cons.prems(3) have m: "(name, param) \<in> set sd" by (simp add: a)
      have "own' name = (case after_entry own n p name of
          None \<Rightarrow> None
        | Some dst \<Rightarrow> (case copy_into dst (param_data param) of
                         Inl e \<Rightarrow> Some dst | Inr t \<Rightarrow> Some t))"
        using l d m by (rule Cons.IH)
      then show ?thesis using False by (simp add: after_entry_other)
    qed
  qed
qed

text \<open>
  Conversely, a source with a value that is no tensor under a name of the parameter set
  always makes the loop raise.
\<close>

lemma load_state_dict_needs_tensors:
  "\<not> tensor_valued own sd \<Longrightarrow> load_state_dict own sd = Inl TypeError"
proof (induction sd arbitrary: own)
  case Nil
  then show ?case by (simp add: tensor_valued_def)
next
  case (Cons a sd)
  obtain name param where a: "a = (name, param)" by (cases a)
  show ?case
  proof (cases "name \<in> dom own \<and> param = NonTensor")
    case True
    then obtain dst where "own name = Some dst" by auto
    with True show ?thesis by (simp add: a param_data_def caught_def)
  next
    case False
    then have t: "name \<in> dom own \<longrightarrow> param \<noteq> NonTensor" by blast
    with Cons.prems have "\<not> tensor_valued (after_entry own name param) sd"
      by (simp add: a tensor_valued_Cons)
    from Cons.IH [OF this] show ?thesis
      unfolding a load_state_dict_Cons [OF t] .
  qed
qed

text \<open>
  C4 (amended).  A value of the source mapping that is no tensor, under a name of the
  parameter set, makes \<^verbatim>\<open>copy_\<close> raise a \<^verbatim>\<open>TypeError\<close>, which the loop does not absorb.  For
  every parameter set and every source mapping whose values under the names of the
  parameter set are tensors or parameter objects, \<^verbatim>\<open>load_state_dict\<close> does not raise.  It
  keeps the names of the parameter set and the value of every parameter that the source
  does not name.  For a source with distinct keys, as a dict has, and each of its entries:
  a name that the parameter set lacks is skipped, whatever its value; when the copy
  raises (a shape that does not fit), the parameter keeps its value; when the copy
  succeeds, the parameter becomes the copied value.
\<close>

theorem load_state_dict_tolerant:
  assumes "tensor_valued own sd"
  shows "\<exists>own'. load_state_dict own sd = Inr own'
     \<and> dom own' = dom own
     \<and> (\<forall>name. name \<notin> fst ` set sd \<longrightarrow> own' name = own name)
     \<and> (distinct (map fst sd) \<longrightarrow>
          (\<forall>name param. (name, param) \<in> set sd \<longrightarrow>
             own' name =
               (case own name of
                  None \<Rightarrow> None
                | Some dst \<Rightarrow> (case copy_into dst (param_data param) of
                                 Inl e \<Rightarrow> Some dst | Inr t \<Rightarrow> Some t))))"
proof -
  from load_state_dict_total [OF assms] obtain own' where
    l: "load_state_dict own sd = Inr own'" by blast
  show ?thesis
    using l load_state_dict_dom [OF l] load_state_dict_other [OF l] load_state_dict_entry [OF l]
    by (intro exI [of _ own']) simp
qed

lemma copy_same_shape:
  "copy_into (Tensor [2] [3, 4]) (Plain (Tensor [2] [7, 8])) = Inr (Tensor [2] [7, 8])"
  by code_simp

lemma copy_mismatch:
  "copy_into (Tensor [2, 2] [1, 2, 3, 4]) (Plain (Tensor [3] [9, 9, 9])) = Inl RuntimeError"
  by code_simp

theorem load_state_dict_tolerant_witness:
  "\<exists>own'. load_state_dict
             [''weight'' \<mapsto> Tensor [2, 2] [1, 2, 3, 4], ''bias'' \<mapsto> Tensor [2] [3, 4],
              ''scale'' \<mapsto> Tensor [1] [5]]
             [(''weight'', Plain (Tensor [3] [9, 9, 9])),
              (''bias'', Parameter (Tensor [2] [7, 8])),
              (''extra'', NonTensor)] = Inr own'
      \<and> own' ''weight'' = Some (Tensor [2, 2] [1, 2, 3, 4])
      \<and> own' ''bias'' = Some (Tensor [2] [7, 8])
      \<and> own' ''extra'' = None
      \<and> own' ''scale'' = Some (Tensor [1] [5])"
proof -
  let ?own = "[''weight'' \<mapsto> Tensor [2, 2] [1, 2, 3, 4], ''bias'' \<mapsto> Tensor [2] [3, 4],
              ''scale'' \<mapsto> Tensor [1] [5]]"
  let ?sd = "[(''weight'', Plain (Tensor [3] [9, 9, 9])),
              (''bias'', Parameter (Tensor [2] [7, 8])),
              (''extra'', NonTensor)]"
  have tv: "tensor_valued ?own ?sd" by (simp add: tensor_valued_def)
  from load_state_dict_tolerant [OF tv] obtain own' where
    l: "load_state_dict ?own ?sd = Inr own'"
    and o: "\<forall>name. name \<notin> fst ` set ?sd \<longrightarrow> own' name = ?own name"
    and e: "distinct (map fst ?sd) \<longrightarrow>
          (\<forall>name param. (name, param) \<in> set ?sd \<longrightarrow>
             own' name =
               (case ?own name of
                  None \<Rightarrow> None
                | Some dst \<Rightarrow> (case copy_into dst (param_data param) of
                                 Inl e \<Rightarrow> Some dst | Inr t \<Rightarrow> Some t)))"
    by blast
  have d: "distinct (map fst ?sd)" by simp
  note e2 = e [rule_format, OF d]
  have "own' ''weight'' = Some (Tensor [2, 2] [1, 2, 3, 4])"
    using e2 [of "''weight''" "Plain (Tensor [3] [9, 9, 9])"]
    by (simp add: param_data_def copy_mismatch)
  moreover have "own' ''bias'' = Some (Tensor [2] [7, 8])"
    using e2 [of "''bias''" "Parameter (Tensor [2] [7, 8])"]
    by (simp add: param_data_def copy_same_shape)
  moreover have "own' ''extra'' = None"
    using e2 [of "''extra''" "NonTensor"] by simp
  moreover have "own' ''scale'' = Some (Tensor [1] [5])"
    using o [rule_format, of "''scale''"] by simp
  ultimately show ?thesis using l by (intro exI [of _ own']) simp
qed

text \<open>
  The claim as first stated fails on a source value that is no tensor: the \<^verbatim>\<open>TypeError\<close>
  of \<^verbatim>\<open>copy_\<close> is not among the absorbed exceptions and leaves \<^verbatim>\<open>load_state_dict\<close>, here
  after the first entry was copied.
\<close>

theorem load_state_dict_tolerant_counterexample:
  "load_state_dict
     [''weight'' \<mapsto> Tensor [2] [1, 2], ''bias'' \<mapsto> Tensor [2] [3, 4]]
     [(''bias'', Plain (Tensor [2] [7, 8])), (''weight'', NonTensor)] = Inl TypeError"
  by (simp add: param_data_def caught_def copy_same_shape)

subsection \<open>The adjacency in the store and the Laplacian\<close>

lemma flat_index_less: "i < r \<Longrightarrow> j < c \<Longrightarrow> i * c + j < r * (c::nat)"
proof -
  assume i: "i < r" and j: "j < c"
  have "i * c + j < i * c + c" using j by simp
  also have "\<dots> = Suc i * c" by simp
  also have "\<dots> \<le> r * c" using i by (intro mult_le_mono1) simp
  finally show ?thesis .
qed

lemma mk_matrix_dims [simp]:
  "nrows (mk_matrix r c f) = r" "ncols (mk_matrix r c f) = c"
  "length (entries (mk_matrix r c f)) = r * c"
  by (simp_all add: mk_matrix_def)

lemma entry_mk_matrix: "i < r \<Longrightarrow> j < c \<Longrightarrow> entry (mk_matrix r c f) i j = f i j"
  by (simp add: entry_def mk_matrix_def flat_index_less)

lemma entry_Matrix: "entry (Matrix r c xs) i j = xs ! (i * c + j)"
  by (simp add: entry_def)

lemma sum_list_delta:
  "i < n \<Longrightarrow> sum_list (map (\<lambda>k. if k = i then f k else (0::real)) [0..<n]) = f i"
  by (simp add: interv_sum_list_conv_sum_set_nat)

lemma fill_diagonal_entry:
  "i < nrows a \<Longrightarrow> j < ncols a \<Longrightarrow>
   entry (fill_diagonal a v) i j = (if i = j then v else entry a i j)"
  by (simp add: fill_diagonal_def entry_mk_matrix)

lemma fill_diagonal_dims [simp]:
  "nrows (fill_diagonal a v) = nrows a" "ncols (fill_diagonal a v) = ncols a"
  by (simp_all add: fill_diagonal_def)

text \<open>
  C10.  The constructor writes through the reference of the adjacency: afterwards the
  caller's array has the same shape, every entry on its diagonal is zero, every other
  entry is what it was, and every other array of the store is untouched.  This holds
  whether the constructor then returns or raises.
\<close>

theorem adjacency_diagonal_zeroed_in_place:
  "nrows (fst (SparseLogisticRegression_init h n d a out use_cuda w b) a) = nrows (h a)
   \<and> ncols (fst (SparseLogisticRegression_init h n d a out use_cuda w b) a) = ncols (h a)
   \<and> (\<forall>i j. i < nrows (h a) \<longrightarrow> j < ncols (h a) \<longrightarrow>
         entry (fst (SparseLogisticRegression_init h n d a out use_cuda w b) a) i j
           = (if i = j then 0 else entry (h a) i j))
   \<and> (\<forall>a'. a' \<noteq> a \<longrightarrow>
         fst (SparseLogisticRegression_init h n d a out use_cuda w b) a' = h a')"
  by (simp add: SparseLogisticRegression_init_def Let_def fill_diagonal_entry)

lemma nsum_None: "None \<in> set xs \<Longrightarrow> nsum xs = None"
  unfolding nsum_def by (induction xs) (auto simp: nadd_def split: option.splits)

lemma nsum_Some: "nsum (map (\<lambda>k. Some (f k)) ks) = Some (sum_list (map f ks))"
  unfolding nsum_def by (induction ks) (simp_all add: nadd_def)

lemma nsum_cong_upt:
  "(\<And>k. k < n \<Longrightarrow> f k = g k) \<Longrightarrow> nsum (map f [0..<n]) = nsum (map g [0..<n])"
  by (rule arg_cong [where f = nsum]) simp

lemma entry_numbers:
  "i < nrows a \<Longrightarrow> j < ncols a \<Longrightarrow> length (entries a) = nrows a * ncols a \<Longrightarrow>
   entry (numbers a) i j = Some (entry a i j)"
  by (simp add: numbers_def entry_def flat_index_less)

lemma numbers_dims [simp]: "nrows (numbers a) = nrows a" "ncols (numbers a) = ncols a"
  by (simp_all add: numbers_def)

text \<open>
  The product with a diagonal array on the left, for a right operand of finite numbers:
  row \<open>i\<close> is multiplied by the \<open>i\<close>-th entry of the diagonal.
\<close>

lemma dot_diag_left:
  assumes "length v = nrows a"
    and fin: "\<forall>i<nrows a. \<forall>j<ncols a. entry a i j = Some (f i j)"
  shows "\<exists>m. dot (diag v) a = Inr m \<and> nrows m = nrows a \<and> ncols m = ncols a
           \<and> (\<forall>i<nrows a. \<forall>j<ncols a. entry m i j = nmul (v ! i) (Some (f i j)))"
proof -
  have "nsum (map (\<lambda>k. nmul (entry (diag v) i k) (entry a k j)) [0..<nrows a])
          = nmul (v ! i) (Some (f i j))"
    if "i < nrows a" "j < ncols a" for i j
  proof (cases "v ! i")
    case None
    have "None \<in> set (map (\<lambda>k. nmul (entry (diag v) i k) (entry a k j)) [0..<nrows a])"
      using that assms None
      by (auto simp: image_iff diag_def entry_mk_matrix nmul_def intro!: bexI [of _ i])
    then show ?thesis using None by (simp add: nsum_None nmul_def)
  next
    case (Some c)
    have "nsum (map (\<lambda>k. nmul (entry (diag v) i k) (entry a k j)) [0..<nrows a])
        = nsum (map (\<lambda>k. Some (if k = i then c * f k j else 0)) [0..<nrows a])"
      using assms that Some
      by (intro nsum_cong_upt) (simp add: diag_def entry_mk_matrix nmul_def)
    also have "\<dots> = Some (c * f i j)"
      using that(1) unfolding nsum_Some by (simp add: sum_list_delta)
    finally show ?thesis using Some by (simp add: nmul_def)
  qed
  then show ?thesis
    using assms(1) by (simp add: dot_def diag_def entry_mk_matrix)
qed

text \<open>
  The product with a diagonal array on the right, for a left operand whose rows are
  finite numbers multiplied by one number each.
\<close>

lemma dot_diag_right:
  assumes "length v = ncols a"
    and rows: "\<forall>i<nrows a. \<forall>j<ncols a. entry a i j = nmul (u i) (Some (f i j))"
  shows "\<exists>m. dot a (diag v) = Inr m \<and> nrows m = nrows a \<and> ncols m = ncols a
           \<and> (\<forall>i<nrows a. \<forall>j<ncols a. entry m i j = nmul (nmul (u i) (Some (f i j))) (v ! j))"
proof -
  have "nsum (map (\<lambda>k. nmul (entry a i k) (entry (diag v) k j)) [0..<ncols a])
          = nmul (nmul (u i) (Some (f i j))) (v ! j)"
    if "i < nrows a" "j < ncols a" for i j
  proof (cases "u i")
    case None
    have "None \<in> set (map (\<lambda>k. nmul (entry a i k) (entry (diag v) k j)) [0..<ncols a])"
      using that rows None
      by (auto simp: image_iff nmul_def intro!: bexI [of _ j])
    then show ?thesis using None by (simp add: nsum_None nmul_def)
  next
    case (Some c)
    show ?thesis
    proof (cases "v ! j")
      case None
      have "None \<in> set (map (\<lambda>k. nmul (entry a i k) (entry (diag v) k j)) [0..<ncols a])"
        using that assms None Some
        by (auto simp: image_iff diag_def entry_mk_matrix nmul_def intro!: bexI [of _ j])
      then show ?thesis using None by (simp add: nsum_None nmul_def split: option.splits)
    next
      case vj: (Some e)
      have "nsum (map (\<lambda>k. nmul (entry a i k) (entry (diag v) k j)) [0..<ncols a])
          = nsum (map (\<lambda>k. Some (if k = j then c * f i k * e else 0)) [0..<ncols a])"
        using assms that Some vj
        by (intro nsum_cong_upt) (simp add: diag_def entry_mk_matrix nmul_def)
      also have "\<dots> = Some (c * f i j * e)"
        using that(2) unfolding nsum_Some by (simp add: sum_list_delta)
      finally show ?thesis using Some vj by (simp add: nmul_def)
    qed
  qed
  then show ?thesis
    using assms(1) by (simp add: dot_def diag_def entry_mk_matrix)
qed


lemma length_sum0 [simp]: "length (sum0 a) = ncols a"
  by (simp add: sum0_def)

lemma fill_diagonal_length [simp]:
  "length (entries (fill_diagonal a v)) = nrows a * ncols a"
  by (simp add: fill_diagonal_def)

text \<open>
  The Laplacian of a square array, entry by entry: the constructor's formula on numbers
  that may be infinities or NaN.  No hypothesis on the entries is needed for it to be
  computed.
\<close>

lemma compute_laplacian_entries:
  assumes sq: "nrows a = ncols a" and len: "length (entries a) = nrows a * ncols a"
  shows "\<exists>L. compute_laplacian a = Inr L \<and> nrows L = nrows a \<and> ncols L = nrows a
           \<and> (\<forall>i<nrows a. \<forall>j<nrows a.
                 entry L i j =
                   nsub (Some (if i = j then 1 else 0))
                     (nmul (nmul (inv_sqrt (sum0 a ! i + 1 / 100000)) (Some (entry a i j)))
                           (inv_sqrt (sum0 a ! j + 1 / 100000))))"
proof -
  define D where "D = map (\<lambda>d. d + 1 / 100000) (sum0 a)"
  define Dm where "Dm = map inv_sqrt D"
  have lD: "length D = ncols a" by (simp add: D_def)
  have lDm: "length Dm = ncols a" by (simp add: Dm_def lD)
  have Dmn: "Dm ! j = inv_sqrt (sum0 a ! j + 1 / 100000)" if "j < ncols a" for j
    using that by (simp add: Dm_def D_def)
  have fin: "\<forall>i<nrows (numbers a). \<forall>j<ncols (numbers a). entry (numbers a) i j = Some (entry a i j)"
    using len by (simp add: entry_numbers)
  from dot_diag_left [of Dm "numbers a" "entry a", OF _ fin] lDm sq obtain m1 where
    m1: "dot (diag Dm) (numbers a) = Inr m1" "nrows m1 = nrows a" "ncols m1 = ncols a"
    "\<forall>i<nrows a. \<forall>j<ncols a. entry m1 i j = nmul (Dm ! i) (Some (entry a i j))"
    by auto
  from dot_diag_right [of Dm m1 "\<lambda>i. Dm ! i" "entry a"] lDm m1(2,3,4) obtain m2 where
    m2: "dot m1 (diag Dm) = Inr m2" "nrows m2 = nrows a" "ncols m2 = ncols a"
    "\<forall>i<nrows a. \<forall>j<ncols a. entry m2 i j = nmul (nmul (Dm ! i) (Some (entry a i j))) (Dm ! j)"
    by auto
  define L where
    "L = mk_matrix (nrows a) (nrows a) (\<lambda>i j. nsub (entry (eye (length D)) i j) (entry m2 i j))"
  have mm: "minus_matrix (eye (length D)) m2 = Inr L"
    using m2(2,3) sq lD by (simp add: minus_matrix_def eye_def L_def)
  have c: "compute_laplacian a = Inr L"
    using m1(1) m2(1) mm
    by (simp add: compute_laplacian_def D_def [symmetric] Dm_def [symmetric] Let_def)
  have e: "entry L i j =
             nsub (Some (if i = j then 1 else 0))
               (nmul (nmul (inv_sqrt (sum0 a ! i + 1 / 100000)) (Some (entry a i j)))
                     (inv_sqrt (sum0 a ! j + 1 / 100000)))"
    if "i < nrows a" "j < nrows a" for i j
    using that m2(4) sq lD Dmn by (simp add: L_def entry_mk_matrix eye_def)
  show ?thesis
    using c e sq by (intro exI [of _ L]) (simp add: L_def)
qed

lemma init_laplacian:
  "snd (SparseLogisticRegression_init h n d a out use_cuda w b) =
     (case compute_laplacian (fill_diagonal (h a) 0) of
        Inl e \<Rightarrow> Inl e
      | Inr L \<Rightarrow> Inr \<lparr> slr_nb_nodes = n, slr_input_dim = d, laplacian = L,
                       slr_out_dim = (case out of Some k \<Rightarrow> k | None \<Rightarrow> 2), slr_cuda = use_cuda,
                       slr_my_logistic_layers =
                         [register_forward_hook (new_module
                            (Linear_init (n * d) (case out of Some k \<Rightarrow> k | None \<Rightarrow> 2) w b))] \<rparr>)"
  by (simp add: SparseLogisticRegression_init_def Let_def ebind_def split: sum.splits)


text \<open>An adjacency that is not square: the product of the arrays raises.\<close>

lemma init_not_square_raises:
  "nrows (h a) \<noteq> ncols (h a) \<Longrightarrow>
   snd (SparseLogisticRegression_init h n d a out use_cuda w b) = Inl ValueError"
  by (simp add: init_laplacian compute_laplacian_def Let_def dot_def diag_def)




text \<open>
  The hypothesis on the degrees cannot be dropped: on the symmetric adjacency
  \<open>[[0, -1], [-1, 0]]\<close> both degrees plus epsilon are negative, the constructor returns
  all the same, and the entries of its Laplacian are not finite numbers.
\<close>

lemma laplacian_negative_degree:
  "(case snd (SparseLogisticRegression_init (\<lambda>r. Matrix 2 2 [0, -1,  -1, 0])
               2 1 0 None False (\<lambda>k. 0) (\<lambda>k. 0)) of
      Inl e \<Rightarrow> False
    | Inr obj \<Rightarrow> entry (laplacian obj) 0 1 = None \<and> entry (laplacian obj) 1 0 = None)"
proof -
  let ?A = "fill_diagonal (Matrix 2 2 [0, -1,  -1, 0::real]) 0"
  have sq: "nrows ?A = ncols ?A" by simp
  have len: "length (entries ?A) = nrows ?A * ncols ?A" by simp
  have s: "sum0 ?A ! 0 = -1" "sum0 ?A ! 1 = -1"
    by code_simp+
  from compute_laplacian_entries [OF sq len] obtain L where
    L: "compute_laplacian ?A = Inr L"
    and e: "\<forall>i<nrows ?A. \<forall>j<nrows ?A.
               entry L i j =
                 nsub (Some (if i = j then 1 else 0))
                   (nmul (nmul (inv_sqrt (sum0 ?A ! i + 1 / 100000)) (Some (entry ?A i j)))
                         (inv_sqrt (sum0 ?A ! j + 1 / 100000)))"
    by blast
  have n: "nrows ?A = 2" by simp
  have lt: "(0::nat) < 2" "(1::nat) < 2" by simp_all
  note e2 = e [unfolded n, rule_format]
  have "entry L 0 1 = None" "entry L 1 0 = None"
    using e2 [OF lt(1) lt(2)] e2 [OF lt(2) lt(1)] s
    by (simp_all add: inv_sqrt_def nmul_def nsub_def split: option.splits)
  then show ?thesis
    using L by (simp add: init_laplacian)
qed

theorem adjacency_diagonal_zeroed_in_place_witness:
  "nrows (fst (SparseLogisticRegression_init
          (\<lambda>r. if r = 0 then Matrix 2 2 [5, 1,  1, 5] else Matrix 1 1 [7])
          2 1 0 None False (\<lambda>k. 0) (\<lambda>k. 0)) 0) = 2
   \<and> entry (fst (SparseLogisticRegression_init
          (\<lambda>r. if r = 0 then Matrix 2 2 [5, 1,  1, 5] else Matrix 1 1 [7])
          2 1 0 None False (\<lambda>k. 0) (\<lambda>k. 0)) 0) 0 0 = 0
   \<and> entry (fst (SparseLogisticRegression_init
          (\<lambda>r. if r = 0 then Matrix 2 2 [5, 1,  1, 5] else Matrix 1 1 [7])
          2 1 0 None False (\<lambda>k. 0) (\<lambda>k. 0)) 0) 0 1 = 1
   \<and> entry (fst (SparseLogisticRegression_init
          (\<lambda>r. if r = 0 then Matrix 2 2 [5, 1,  1, 5] else Matrix 1 1 [7])
          2 1 0 None False (\<lambda>k. 0) (\<lambda>k. 0)) 0) 1 1 = 0
   \<and> fst (SparseLogisticRegression_init
          (\<lambda>r. if r = 0 then Matrix 2 2 [5, 1,  1, 5] else Matrix 1 1 [7])
          2 1 0 None False (\<lambda>k. 0) (\<lambda>k. 0)) 1 = Matrix 1 1 [7]"
proof -
  let ?h = "\<lambda>r::nat. if r = 0 then Matrix 2 2 [5, 1,  1, 5::real] else Matrix 1 1 [7]"
  let ?h' = "fst (SparseLogisticRegression_init ?h 2 1 0 None False (\<lambda>k. 0) (\<lambda>k. 0))"
  note t = adjacency_diagonal_zeroed_in_place [of ?h 2 1 0 None False "\<lambda>k. 0" "\<lambda>k. 0"]
  have h0: "?h 0 = Matrix 2 2 [5, 1,  1, 5]" by simp
  from t have t1: "nrows (?h' 0) = nrows (?h 0)" by (rule conjunct1)
  from t have t3: "\<forall>i j. i < nrows (?h 0) \<longrightarrow> j < ncols (?h 0) \<longrightarrow>
         entry (?h' 0) i j = (if i = j then 0 else entry (?h 0) i j)"
    by (elim conjE)
  from t have t4: "\<forall>a'. a' \<noteq> 0 \<longrightarrow> ?h' a' = ?h a'"
    by (elim conjE)
  have a: "nrows (?h' 0) = 2" unfolding t1 h0 by simp
  have b: "entry (?h' 0) 0 0 = 0"
    using t3 [rule_format, of 0 0] unfolding h0 by simp
  have c: "entry (?h' 0) 0 1 = 1"
    using t3 [rule_format, of 0 1] unfolding h0 by (simp add: entry_Matrix)
  have d: "entry (?h' 0) 1 1 = 0"
    using t3 [rule_format, of 1 1] unfolding h0 by simp
  have e: "?h' 1 = Matrix 1 1 [7]"
    using t4 [rule_format, of 1] by simp
  from a b c d e show ?thesis by (intro conjI)
qed


subsection \<open>Gates\<close>

lemma view_data: "view t spec = Inr t' \<Longrightarrow> data t' = data t"
  by (auto simp: view_def Let_def split: if_splits)

lemma Linear_forward_shape:
  assumes "Linear_forward l x = Inr y"
  shows "shape x \<noteq> [] \<and> last (shape x) = in_features l
       \<and> shape y = butlast (shape x) @ [out_features l]
       \<and> length (data y) = prod_list (butlast (shape x)) * out_features l"
  using assms by (auto simp: Linear_forward_def split: list.splits if_splits)

lemma Linear_forward_total:
  "shape x \<noteq> [] \<Longrightarrow> last (shape x) = in_features l \<Longrightarrow> \<exists>y. Linear_forward l x = Inr y"
  by (auto simp: Linear_forward_def split: list.splits)

lemma view_infer_first:
  "0 < c \<Longrightarrow> prod_list (shape t) mod c = 0 \<Longrightarrow>
   view t [Infer, D c] = Inr (Tensor [prod_list (shape t) div c, c] (data t))"
  by (simp add: view_def numel_def)

lemma view_infer_first_Inr:
  "view t [Infer, D c] = Inr t' \<Longrightarrow>
   0 < c \<and> prod_list (shape t) mod c = 0 \<and> t' = Tensor [prod_list (shape t) div c, c] (data t)"
  by (auto simp: view_def numel_def split: if_splits)

lemma view_three:
  "view t [D a, D b, D c] = Inr t' \<longleftrightarrow>
   a * b * c = prod_list (shape t) \<and> t' = Tensor [a, b, c] (data t)"
  by (auto simp: view_def numel_def mult.assoc)

lemma ElementwiseGateLayer_forward_values:
  assumes "ElementwiseGateLayer_forward gl x = Inr g"
  shows "\<forall>v\<in>set (data g). 0 \<le> v \<and> v \<le> 1"
proof -
  from assms obtain sc where "data g = map sigmoid (data sc)"
    by (auto simp: ElementwiseGateLayer_forward_def ebind_def map_tensor_def
        split: list.splits sum.splits dest!: view_data)
  then show ?thesis using sigmoid_range by auto
qed

lemma StaticElementwiseGateLayer_forward_values:
  assumes "StaticElementwiseGateLayer_forward sl x = Inr g"
  shows "\<forall>v\<in>set (data g). 0 \<le> v \<and> v \<le> 1"
proof -
  from assms have "data g = map sigmoid (data (static_attn sl))"
    by (auto simp: StaticElementwiseGateLayer_forward_def map_tensor_def Let_def
        split: list.splits dest!: view_data)
  then show ?thesis using sigmoid_range by auto
qed

lemma ElementwiseGateLayer_forward_total:
  assumes "shape x = [E, N, C]" and "0 < C" and "in_features (gate_attn gl) = C"
    and "out_features (gate_attn gl) = 1"
  shows "\<exists>g. ElementwiseGateLayer_forward gl x = Inr g \<and> shape g = [E, N, 1]
             \<and> length (data g) = E * N"
proof -
  have v: "view x [Infer, D C] = Inr (Tensor [E * N, C] (data x))"
    using assms(1,2) by (simp add: view_infer_first mult.assoc)
  from Linear_forward_total [of "Tensor [E * N, C] (data x)" "gate_attn gl"] assms(3)
  obtain sc where sc: "Linear_forward (gate_attn gl) (Tensor [E * N, C] (data x)) = Inr sc"
    by auto
  from Linear_forward_shape [OF sc] assms(4)
  have s: "shape sc = [E * N, 1]" "length (data sc) = E * N" by simp_all
  have "view (map_tensor sigmoid sc) [D E, D N, D 1]
       = Inr (Tensor [E, N, 1] (map sigmoid (data sc)))"
    using s by (simp add: view_three map_tensor_def)
  then show ?thesis
    using assms(1) v sc s by (simp add: ElementwiseGateLayer_forward_def ebind_def)
qed

text \<open>
  C9.  Every value that \<^verbatim>\<open>ElementwiseGateLayer.forward\<close> or
  \<^verbatim>\<open>StaticElementwiseGateLayer.forward\<close> returns lies in the interval from 0 to 1, and both
  return a gate: the content-dependent layer for every input of shape (E, N, C) whose
  width C is positive and is the width the layer was made for, the static layer for
  every input with 50 nodes.
\<close>

theorem gate_values_in_unit_interval:
  "(\<forall>g. ElementwiseGateLayer_forward gl x = Inr g \<longrightarrow> (\<forall>v\<in>set (data g). 0 \<le> v \<and> v \<le> 1))
   \<and> (\<forall>g. StaticElementwiseGateLayer_forward sl x = Inr g \<longrightarrow> (\<forall>v\<in>set (data g). 0 \<le> v \<and> v \<le> 1))
   \<and> (\<forall>E N C. shape x = [E, N, C] \<and> 0 < C \<longrightarrow>
         (\<exists>g. ElementwiseGateLayer_forward (ElementwiseGateLayer_init C w b) x = Inr g
              \<and> shape g = [E, N, 1] \<and> length (data g) = E * N))
   \<and> (\<forall>E C. shape x = [E, 50, C] \<longrightarrow>
         (\<exists>g. StaticElementwiseGateLayer_forward (StaticElementwiseGateLayer_init d) x = Inr g
              \<and> shape g = [50, 1] \<and> length (data g) = 50))"
proof (intro conjI allI impI)
  fix g assume "ElementwiseGateLayer_forward gl x = Inr g"
  then show "\<forall>v\<in>set (data g). 0 \<le> v \<and> v \<le> 1" by (rule ElementwiseGateLayer_forward_values)
next
  fix g assume "StaticElementwiseGateLayer_forward sl x = Inr g"
  then show "\<forall>v\<in>set (data g). 0 \<le> v \<and> v \<le> 1" by (rule StaticElementwiseGateLayer_forward_values)
next
  fix E N C assume "shape x = [E, N, C] \<and> 0 < C"
  then show "\<exists>g. ElementwiseGateLayer_forward (ElementwiseGateLayer_init C w b) x = Inr g
              \<and> shape g = [E, N, 1] \<and> length (data g) = E * N"
    by (intro ElementwiseGateLayer_forward_total)
       (simp_all add: ElementwiseGateLayer_init_def Linear_init_def)
next
  fix E C assume "shape x = [E, 50, C]"
  then show "\<exists>g. StaticElementwiseGateLayer_forward (StaticElementwiseGateLayer_init d) x = Inr g
              \<and> shape g = [50, 1] \<and> length (data g) = 50"
    by (simp add: StaticElementwiseGateLayer_forward_def StaticElementwiseGateLayer_init_def
        map_tensor_def view_def numel_def)
qed


theorem gate_values_in_unit_interval_witness:
  "(\<exists>g. ElementwiseGateLayer_forward (ElementwiseGateLayer_init 2 (\<lambda>k. 1) (\<lambda>k. 0))
           (Tensor [1, 2, 2] [1, 2, 3, 4]) = Inr g
       \<and> shape g = [1, 2, 1]
       \<and> 0 \<le> data g ! 0 \<and> data g ! 0 \<le> 1 \<and> 0 \<le> data g ! 1 \<and> data g ! 1 \<le> 1)
   \<and> (\<exists>g. StaticElementwiseGateLayer_forward (StaticElementwiseGateLayer_init 8)
           (Tensor [2, 50, 8] (replicate 800 3)) = Inr g
       \<and> shape g = [50, 1] \<and> 0 \<le> data g ! 49 \<and> data g ! 49 \<le> 1)"
proof -
  let ?gl = "ElementwiseGateLayer_init 2 (\<lambda>k. 1) (\<lambda>k. 0)"
  let ?x = "Tensor [1, 2, 2] [1, 2, 3, 4]"
  let ?sl = "StaticElementwiseGateLayer_init 8"
  let ?y = "Tensor [2, 50, 8] (replicate 800 3)"
  note t1 = gate_values_in_unit_interval [of ?gl ?x ?sl "\<lambda>k. 1" "\<lambda>k. 0" 8]
  note t2 = gate_values_in_unit_interval [of ?gl ?y ?sl "\<lambda>k. 1" "\<lambda>k. 0" 8]
  from t1 have a: "\<forall>g. ElementwiseGateLayer_forward ?gl ?x = Inr g \<longrightarrow> (\<forall>v\<in>set (data g). 0 \<le> v \<and> v \<le> 1)"
    by (rule conjunct1)
  from t1 have "\<forall>E N C. shape ?x = [E, N, C] \<and> 0 < C \<longrightarrow>
         (\<exists>g. ElementwiseGateLayer_forward (ElementwiseGateLayer_init C (\<lambda>k. 1) (\<lambda>k. 0)) ?x = Inr g
              \<and> shape g = [E, N, 1] \<and> length (data g) = E * N)"
    by (elim conjE)
  from this [rule_format, of 1 2 2] obtain g where
    g: "ElementwiseGateLayer_forward ?gl ?x = Inr g" "shape g = [1, 2, 1]" "length (data g) = 2"
    by auto
  from g(3) have "data g ! 0 \<in> set (data g)" "data g ! 1 \<in> set (data g)" by simp_all
  with a g(1) have v: "0 \<le> data g ! 0 \<and> data g ! 0 \<le> 1 \<and> 0 \<le> data g ! 1 \<and> data g ! 1 \<le> 1"
    by blast
  from t2 have b: "\<forall>g. StaticElementwiseGateLayer_forward ?sl ?y = Inr g \<longrightarrow> (\<forall>v\<in>set (data g). 0 \<le> v \<and> v \<le> 1)"
    by (elim conjE)
  from t2 have "\<forall>E C. shape ?y = [E, 50, C] \<longrightarrow>
         (\<exists>g. StaticElementwiseGateLayer_forward ?sl ?y = Inr g
              \<and> shape g = [50, 1] \<and> length (data g) = 50)"
    by (elim conjE)
  from this [rule_format, of 2 8] obtain g' where
    g': "StaticElementwiseGateLayer_forward ?sl ?y = Inr g'" "shape g' = [50, 1]" "length (data g') = 50"
    by auto
  from g'(3) have "data g' ! 49 \<in> set (data g')" by simp
  with b g'(1) have v': "0 \<le> data g' ! 49 \<and> data g' ! 49 \<le> 1" by blast
  have e1: "\<exists>g. ElementwiseGateLayer_forward ?gl ?x = Inr g
       \<and> shape g = [1, 2, 1]
       \<and> 0 \<le> data g ! 0 \<and> data g ! 0 \<le> 1 \<and> 0 \<le> data g ! 1 \<and> data g ! 1 \<le> 1"
    using g v by (intro exI [of _ g]) simp
  have e2: "\<exists>g. StaticElementwiseGateLayer_forward ?sl ?y = Inr g
       \<and> shape g = [50, 1] \<and> 0 \<le> data g ! 49 \<and> data g ! 49 \<le> 1"
    using g' v' by (intro exI [of _ g']) simp
  from e1 e2 show ?thesis by (rule conjI)
qed


subsection \<open>Attention pooling\<close>

lemma offset3_less:
  assumes "e < E" "n < N" "h < H"
  shows "(e * N + n) * H + h < E * N * (H::nat)"
proof -
  have "e * N + n < E * N" using assms(1,2) by (rule flat_index_less)
  then show ?thesis using assms(3) by (rule flat_index_less)
qed


lemma unravel3:
  "e < E \<Longrightarrow> n < N \<Longrightarrow> h < H \<Longrightarrow> unravel [E, N, H] ((e * N + n) * H + h) = [e, n, h]"
  by (simp add: unravel_def)

lemma unravel2:
  "e < E \<Longrightarrow> h < H \<Longrightarrow> unravel [E, H] (e * H + h) = [e, h]"
  by (simp add: unravel_def)

lemma ravel3: "ravel [E, N, H] [e, n, h] = (e * N + n) * H + h"
  by (simp add: ravel_def)

lemma broadcast_same_middle:
  "broadcast_shapes [E, N, H] [E, Suc 0, H] = Some [E, N, H]"
  by (simp add: broadcast_shapes_def)

lemma expand_data_nth:
  "k < prod_list s \<Longrightarrow>
   expand_data t s ! k =
     data t ! ravel (shape t)
       (map2 (\<lambda>d i. if d = 1 then 0 else i) (shape t)
          (drop (length s - length (shape t)) (unravel s k)))"
  by (simp add: expand_data_def)

lemma expand_data_same3:
  assumes "shape t = [E, N, H]" and "e < E" "n < N" "h < H"
  shows "expand_data t [E, N, H] ! ((e * N + n) * H + h) = data t ! ((e * N + n) * H + h)"
proof -
  have k: "(e * N + n) * H + h < prod_list [E, N, H]"
    using offset3_less [OF assms(2-4)] by (simp add: mult.assoc)
  have idx: "map2 (\<lambda>d i. if d = 1 then 0 else i) [E, N, H] [e, n, h] = [e, n, h]"
    using assms(2-4) by auto
  have "expand_data t [E, N, H] ! ((e * N + n) * H + h)
      = data t ! ravel [E, N, H] (map2 (\<lambda>d i. if d = 1 then 0 else i) [E, N, H] [e, n, h])"
    unfolding expand_data_nth [OF k] assms(1) unravel3 [OF assms(2-4)] by simp
  then show ?thesis unfolding idx ravel3 .
qed

lemma expand_data_middle3:
  assumes "shape t = [E, Suc 0, H]" and "e < E" "n < N" "h < H"
  shows "expand_data t [E, N, H] ! ((e * N + n) * H + h) = data t ! (e * H + h)"
proof -
  have k: "(e * N + n) * H + h < prod_list [E, N, H]"
    using offset3_less [OF assms(2-4)] by (simp add: mult.assoc)
  have idx: "map2 (\<lambda>d i. if d = 1 then 0 else i) [E, Suc 0, H] [e, n, h] = [e, 0, h]"
    using assms(2-4) by auto
  have "expand_data t [E, N, H] ! ((e * N + n) * H + h)
      = data t ! ravel [E, Suc 0, H] (map2 (\<lambda>d i. if d = 1 then 0 else i) [E, Suc 0, H] [e, n, h])"
    unfolding expand_data_nth [OF k] assms(1) unravel3 [OF assms(2-4)] by simp
  then show ?thesis unfolding idx ravel3 by simp
qed

lemma length_expand_data [simp]: "length (expand_data t s) = prod_list s"
  by (simp add: expand_data_def)

lemma sum_dim_middle3:
  assumes "shape t = [E, N, H]"
  shows "\<exists>ds. sum_dim t 1 = Inr (Tensor [E, H] ds) \<and> length ds = E * H
           \<and> (\<forall>e<E. \<forall>h<H. ds ! (e * H + h)
                 = sum_list (map (\<lambda>j. data t ! ((e * N + j) * H + h)) [0..<N]))"
proof -
  have "(map (\<lambda>k. sum_list
                   (map (\<lambda>j. data t !
                           ravel [E, N, H]
                             (take 1 (unravel [E, H] k) @ [j] @ drop 1 (unravel [E, H] k)))
                      [0..<N]))
              [0..<E * H]) ! (e * H + h)
        = sum_list (map (\<lambda>j. data t ! ((e * N + j) * H + h)) [0..<N])"
    if "e < E" "h < H" for e h
    using that flat_index_less [OF that] by (simp add: unravel2 ravel3)
  then show ?thesis
    using assms by (simp add: sum_dim_def Let_def)
qed

lemma sum_list_pos_upt:
  assumes "0 < N" and "\<And>j. j < N \<Longrightarrow> 0 < (f j :: real)"
  shows "0 < sum_list (map f [0..<N])"
proof -
  have "sum_list (map f [0..<N]) = sum f {0..<N}"
    by (simp add: interv_sum_list_conv_sum_set_nat)
  also have "0 < \<dots>" using assms by (intro sum_pos) auto
  finally show ?thesis .
qed

text \<open>The normalisation step of the attention layer.\<close>

lemma normalised_weights:
  assumes s: "shape aw = [E, N, H]" and l: "length (data aw) = E * N * H"
    and pos: "\<forall>v\<in>set (data aw). 0 < v" and N: "0 < N"
    and t: "sum_dim aw 1 = Inr tot" and u: "unsqueeze tot 1 = Inr tot1"
    and d: "tdiv aw tot1 = Inr wts"
  shows "shape wts = [E, N, H] \<and> length (data wts) = E * N * H
       \<and> (\<forall>e<E. \<forall>h<H. (\<Sum>n<N. tensor_at wts [e, n, h]) = 1)"
proof -
  from sum_dim_middle3 [OF s] t obtain ds where
    tot: "tot = Tensor [E, H] ds" and lds: "length ds = E * H"
    and ds: "\<forall>e<E. \<forall>h<H. ds ! (e * H + h)
                 = sum_list (map (\<lambda>j. data aw ! ((e * N + j) * H + h)) [0..<N])"
    by auto
  from u have tot1: "tot1 = Tensor [E, Suc 0, H] ds"
    by (simp add: unsqueeze_def tot Let_def)
  from d have wts: "wts = Tensor [E, N, H]
      (map2 (\<lambda>u v. u / v) (expand_data aw [E, N, H]) (expand_data tot1 [E, N, H]))"
    by (simp add: tdiv_def binop_def s tot1 broadcast_same_middle)
  have sh: "shape wts = [E, N, H]" and len: "length (data wts) = E * N * H"
    by (simp_all add: wts mult.assoc)
  have "(\<Sum>n<N. tensor_at wts [e, n, h]) = 1" if eh: "e < E" "h < H" for e h
  proof -
    let ?T = "sum_list (map (\<lambda>j. data aw ! ((e * N + j) * H + h)) [0..<N])"
    have p: "0 < data aw ! ((e * N + j) * H + h)" if "j < N" for j
      using pos offset3_less [OF eh(1) that eh(2)] l by (simp add: nth_mem)
    have T: "0 < ?T" using N p by (rule sum_list_pos_upt)
    have dT: "ds ! (e * H + h) = ?T" using ds eh by blast
    have w: "tensor_at wts [e, n, h] = data aw ! ((e * N + n) * H + h) / ?T" if "n < N" for n
    proof -
      have k: "(e * N + n) * H + h < E * N * H" using eh(1) that eh(2) by (rule offset3_less)
      have a: "expand_data aw [E, N, H] ! ((e * N + n) * H + h) = data aw ! ((e * N + n) * H + h)"
        using s eh(1) that eh(2) by (rule expand_data_same3)
      have "shape tot1 = [E, Suc 0, H]" by (simp add: tot1)
      then have "expand_data tot1 [E, N, H] ! ((e * N + n) * H + h) = data tot1 ! (e * H + h)"
        using eh(1) that eh(2) by (rule expand_data_middle3)
      then have b: "expand_data tot1 [E, N, H] ! ((e * N + n) * H + h) = ?T"
        by (simp add: tot1 dT)
      have "tensor_at wts [e, n, h] = data wts ! ((e * N + n) * H + h)"
        by (simp add: tensor_at_def sh ravel3)
      also have "\<dots> = expand_data aw [E, N, H] ! ((e * N + n) * H + h)
                     / expand_data tot1 [E, N, H] ! ((e * N + n) * H + h)"
        using k by (simp add: wts mult.assoc)
      finally show ?thesis unfolding a b .
    qed
    have "(\<Sum>n<N. tensor_at wts [e, n, h]) = (\<Sum>n<N. data aw ! ((e * N + n) * H + h) / ?T)"
      using w by (intro sum.cong) auto
    also have "\<dots> = (\<Sum>n<N. data aw ! ((e * N + n) * H + h)) / ?T"
      by (simp add: sum_divide_distrib)
    also have "(\<Sum>n<N. data aw ! ((e * N + n) * H + h)) = ?T"
      by (simp add: interv_sum_list_conv_sum_set_nat atLeast0LessThan)
    also have "?T / ?T = 1" using T by simp
    finally show ?thesis .
  qed
  with sh len show ?thesis by blast
qed


lemma view_infer_last:
  "0 < a \<Longrightarrow> prod_list (shape t) mod a = 0 \<Longrightarrow>
   view t [D a, Infer] = Inr (Tensor [a, prod_list (shape t) div a] (data t))"
  by (simp add: view_def numel_def)

lemma binop_Inr:
  "broadcast_shapes (shape a) (shape b) = Some s \<Longrightarrow>
   binop f a b = Inr (Tensor s (map2 f (expand_data a s) (expand_data b s)))"
  by (simp add: binop_def)

lemma broadcast_outer4:
  "broadcast_shapes [E, N, C, Suc 0] [E, N, Suc 0, H] = Some [E, N, C, H]"
  by (simp add: broadcast_shapes_def)

lemma sum_dim_shape:
  "d < length (shape t) \<Longrightarrow>
   \<exists>ds. sum_dim t d = Inr (Tensor (take d (shape t) @ drop (Suc d) (shape t)) ds)
       \<and> length ds = prod_list (take d (shape t) @ drop (Suc d) (shape t))"
  by (simp add: sum_dim_def Let_def)

text \<open>What the attention layer computes on the way to its weights.\<close>

lemma AttentionLayer_forward_weights:
  assumes f: "AttentionLayer_forward al x = Inr (applied, wts)" and x: "shape x = [E, N, C]"
  shows "\<exists>sc aw tot tot1.
           Linear_forward (att_attn al) (Tensor [E * N, C] (data x)) = Inr sc
         \<and> view (map_tensor exp (map_tensor (\<lambda>v. v * temperature al) sc))
                [D E, D N, D (nb_attention_head al)] = Inr aw
         \<and> sum_dim aw 1 = Inr tot \<and> unsqueeze tot 1 = Inr tot1 \<and> tdiv aw tot1 = Inr wts"
proof -
  from f x obtain x1 sc aw tot tot1 where
    1: "view x [Infer, D C] = Inr x1"
    and 2: "Linear_forward (att_attn al) x1 = Inr sc"
    and 3: "view (map_tensor exp (map_tensor (\<lambda>v. v * temperature al) sc))
                [D E, D N, D (nb_attention_head al)] = Inr aw"
    and 4: "sum_dim aw 1 = Inr tot" and 5: "unsqueeze tot 1 = Inr tot1"
    and 6: "tdiv aw tot1 = Inr wts"
    unfolding AttentionLayer_forward_def
    by (auto simp: ebind_eq_Inr)
  from view_infer_first_Inr [OF 1] x have "x1 = Tensor [E * N, C] (data x)"
    by (simp add: mult.assoc)
  with 2 3 4 5 6 show ?thesis by blast
qed

lemma attention_weights_normalised:
  assumes "AttentionLayer_forward al x = Inr (applied, wts)" and "shape x = [E, N, C]"
    and "1 \<le> N" and "e < E" and "h < nb_attention_head al"
  shows "shape wts = [E, N, nb_attention_head al]
       \<and> (\<Sum>n<N. tensor_at wts [e, n, h]) = 1"
proof -
  let ?H = "nb_attention_head al"
  from AttentionLayer_forward_weights [OF assms(1,2)] obtain sc aw tot tot1 where
    sc: "Linear_forward (att_attn al) (Tensor [E * N, C] (data x)) = Inr sc"
    and aw: "view (map_tensor exp (map_tensor (\<lambda>v. v * temperature al) sc))
                [D E, D N, D ?H] = Inr aw"
    and t: "sum_dim aw 1 = Inr tot" and u: "unsqueeze tot 1 = Inr tot1"
    and d: "tdiv aw tot1 = Inr wts"
    by blast
  from Linear_forward_shape [OF sc]
  have ssc: "shape sc = [E * N, out_features (att_attn al)]"
    and lsc: "length (data sc) = E * N * out_features (att_attn al)"
    by simp_all
  from aw have n: "E * N * ?H = E * N * out_features (att_attn al)"
    and aw': "aw = Tensor [E, N, ?H] (map exp (map (\<lambda>v. v * temperature al) (data sc)))"
    by (simp_all add: view_three map_tensor_def ssc)
  have s: "shape aw = [E, N, ?H]" by (simp add: aw')
  have l: "length (data aw) = E * N * ?H" by (simp add: aw' lsc n)
  have pos: "\<forall>v\<in>set (data aw). 0 < v" by (auto simp: aw')
  have N: "0 < N" using assms(3) by simp
  from normalised_weights [OF s l pos N t u d] assms(4,5) show ?thesis by blast
qed

lemma AttentionLayer_forward_total:
  assumes x: "shape x = [E, N, C]" and C: "0 < C" and E: "0 < E"
    and i: "in_features (att_attn al) = C" and o: "out_features (att_attn al) = nb_attention_head al"
  shows "\<exists>applied wts. AttentionLayer_forward al x = Inr (applied, wts)
           \<and> shape applied = [E, C * nb_attention_head al]
           \<and> shape wts = [E, N, nb_attention_head al]"
proof -
  let ?H = "nb_attention_head al"
  have 1: "view x [Infer, D C] = Inr (Tensor [E * N, C] (data x))"
    using x C by (simp add: view_infer_first mult.assoc)
  from Linear_forward_total [of "Tensor [E * N, C] (data x)" "att_attn al"] i
  obtain sc where 2: "Linear_forward (att_attn al) (Tensor [E * N, C] (data x)) = Inr sc"
    by auto
  from Linear_forward_shape [OF 2] o have ssc: "shape sc = [E * N, ?H]" by simp
  define aw where "aw = Tensor [E, N, ?H] (map exp (map (\<lambda>v. v * temperature al) (data sc)))"
  have 3: "view (map_tensor exp (map_tensor (\<lambda>v. v * temperature al) sc)) [D E, D N, D ?H] = Inr aw"
    by (simp add: view_three map_tensor_def ssc aw_def)
  have saw: "shape aw = [E, N, ?H]" by (simp add: aw_def)
  from sum_dim_shape [of 1 aw] saw obtain ds where
    4: "sum_dim aw 1 = Inr (Tensor [E, ?H] ds)" by auto
  have 5: "unsqueeze (Tensor [E, ?H] ds) 1 = Inr (Tensor [E, Suc 0, ?H] ds)"
    by (simp add: unsqueeze_def Let_def)
  define wts where "wts = Tensor [E, N, ?H]
      (map2 (\<lambda>u v. u / v) (expand_data aw [E, N, ?H]) (expand_data (Tensor [E, Suc 0, ?H] ds) [E, N, ?H]))"
  have 6: "tdiv aw (Tensor [E, Suc 0, ?H] ds) = Inr wts"
    unfolding tdiv_def wts_def by (rule binop_Inr) (simp add: saw broadcast_same_middle)
  have 7: "view (Tensor [E * N, C] (data x)) [D E, D N, D C] = Inr (Tensor [E, N, C] (data x))"
    by (simp add: view_three)
  have 8: "unsqueeze (Tensor [E, N, C] (data x)) (- 1) = Inr (Tensor [E, N, C, Suc 0] (data x))"
    by (simp add: unsqueeze_def Let_def)
  have 9: "unsqueeze wts (- 2) = Inr (Tensor [E, N, Suc 0, ?H] (data wts))"
    by (simp add: unsqueeze_def Let_def wts_def)
  obtain pd where 10: "tmul (Tensor [E, N, C, Suc 0] (data x)) (Tensor [E, N, Suc 0, ?H] (data wts))
      = Inr (Tensor [E, N, C, ?H] pd)"
    unfolding tmul_def using binop_Inr [of "Tensor [E, N, C, Suc 0] (data x)"
        "Tensor [E, N, Suc 0, ?H] (data wts)" "[E, N, C, ?H]"]
    by (simp add: broadcast_outer4)
  from sum_dim_shape [of 1 "Tensor [E, N, C, ?H] pd"] obtain sd where
    11: "sum_dim (Tensor [E, N, C, ?H] pd) 1 = Inr (Tensor [E, C, ?H] sd)" by auto
  have 12: "view (Tensor [E, C, ?H] sd) [D E, Infer] = Inr (Tensor [E, C * ?H] sd)"
    using E view_infer_last [of E "Tensor [E, C, ?H] sd"] by simp
  have "AttentionLayer_forward al x = Inr (Tensor [E, C * ?H] sd, wts)"
    unfolding AttentionLayer_forward_def using x 1 2 3 4 5 6 7 8 9 10 11 12 by simp
  then show ?thesis by (simp add: wts_def)
qed

text \<open>
  The normalisation of the attention weights in exact real arithmetic, which is what
  the tensors of this model compute with.  On an input of shape (E, N, C) with at least
  one node, whenever \<^verbatim>\<open>AttentionLayer.forward\<close> returns, its weight tensor has shape
  (E, N, H) and, for every example \<open>e\<close> and every head \<open>h\<close>, its entries at \<open>[e, n, h]\<close> summed
  over the nodes \<open>n\<close> give 1.  It does return when there is at least one example and the
  width C is positive and is the width the layer was made for.

  This is no statement about the weights that the code computes in 32-bit floating
  point.  There \<^verbatim>\<open>torch.exp\<close> gives an infinity for a score above about 88.7, and the
  quotient of two infinities is a NaN; for scores below about -104 every exponential of
  a column is zero, and so is the sum that divides them; and where neither happens the
  sum of the weights is 1 only up to rounding.  Exact reals have no infinity, no NaN and
  no rounding, so the property of the floating-point weights has no statement here.
\<close>

lemma attention_weights_sum_exact:
  assumes "shape x = [E, N, C]" and "1 \<le> N"
  shows "(\<forall>applied wts. AttentionLayer_forward al x = Inr (applied, wts) \<longrightarrow>
            shape wts = [E, N, nb_attention_head al]
          \<and> (\<forall>e<E. \<forall>h<nb_attention_head al. (\<Sum>n<N. tensor_at wts [e, n, h]) = 1))
       \<and> (0 < E \<and> 0 < C \<longrightarrow>
            (\<exists>applied wts. AttentionLayer_forward (AttentionLayer_init C H w b) x = Inr (applied, wts)
               \<and> shape applied = [E, C * H] \<and> shape wts = [E, N, H]))"
proof (intro conjI allI impI)
  fix applied wts
  assume f: "AttentionLayer_forward al x = Inr (applied, wts)"
  from AttentionLayer_forward_weights [OF f assms(1)] obtain aw tot tot1 sc where
    aw: "view (map_tensor exp (map_tensor (\<lambda>v. v * temperature al) sc))
              [D E, D N, D (nb_attention_head al)] = Inr aw"
    and t: "sum_dim aw 1 = Inr tot" and u: "unsqueeze tot 1 = Inr tot1"
    and d: "tdiv aw tot1 = Inr wts"
    by blast
  from aw have s: "shape aw = [E, N, nb_attention_head al]" by (auto simp: view_three)
  from sum_dim_shape [of 1 aw] s t obtain ds where "tot = Tensor [E, nb_attention_head al] ds"
    by auto
  with u have "tot1 = Tensor [E, Suc 0, nb_attention_head al] ds"
    by (simp add: unsqueeze_def Let_def)
  with d s show "shape wts = [E, N, nb_attention_head al]"
    by (auto simp: tdiv_def binop_def broadcast_same_middle)
next
  fix applied wts e h
  assume "AttentionLayer_forward al x = Inr (applied, wts)" "e < E" "h < nb_attention_head al"
  then show "(\<Sum>n<N. tensor_at wts [e, n, h]) = 1"
    using attention_weights_normalised [OF _ assms] by blast
next
  assume "0 < E \<and> 0 < C"
  then show "\<exists>applied wts. AttentionLayer_forward (AttentionLayer_init C H w b) x = Inr (applied, wts)
               \<and> shape applied = [E, C * H] \<and> shape wts = [E, N, H]"
    using AttentionLayer_forward_total [of x E N C "AttentionLayer_init C H w b"] assms(1)
    by (simp add: AttentionLayer_init_def Linear_init_def)
qed

lemma attention_weights_sum_exact_example:
  "\<exists>applied wts.
      AttentionLayer_forward (AttentionLayer_init 2 2 (\<lambda>k. 1) (\<lambda>k. 0)) (Tensor [1, 2, 2] [1, 2, 3, 4])
        = Inr (applied, wts)
    \<and> shape wts = [1, 2, 2]
    \<and> tensor_at wts [0, 0, 0] + tensor_at wts [0, 1, 0] = 1
    \<and> tensor_at wts [0, 0, 1] + tensor_at wts [0, 1, 1] = 1"
proof -
  let ?al = "AttentionLayer_init 2 2 (\<lambda>k. 1) (\<lambda>k. 0)"
  let ?x = "Tensor [1, 2, 2] [1, 2, 3, 4]"
  have sx: "shape ?x = [1, 2, 2]" by simp
  have n: "(1::nat) \<le> 2" by simp
  note t = attention_weights_sum_exact [OF sx n, of ?al 2 "\<lambda>k. 1" "\<lambda>k. 0"]
  from t have "0 < (1::nat) \<and> 0 < (2::nat) \<longrightarrow>
            (\<exists>applied wts. AttentionLayer_forward ?al ?x = Inr (applied, wts)
               \<and> shape applied = [1, 2 * 2] \<and> shape wts = [1, 2, 2])"
    by (rule conjunct2)
  then obtain applied wts where
    f: "AttentionLayer_forward ?al ?x = Inr (applied, wts)" and sw: "shape wts = [1, 2, 2]"
    by auto
  have H: "nb_attention_head ?al = 2" by (simp add: AttentionLayer_init_def)
  from t f have s: "\<forall>e<1. \<forall>h<nb_attention_head ?al. (\<Sum>n<2. tensor_at wts [e, n, h]) = 1"
    by blast
  have two: "\<And>g::nat \<Rightarrow> real. (\<Sum>n<2. g n) = g 0 + g 1"
    by (simp add: numeral_2_eq_2)
  have "tensor_at wts [0, 0, 0] + tensor_at wts [0, 1, 0] = 1"
    using s [unfolded H, rule_format, of 0 0] by (simp add: two)
  moreover have "tensor_at wts [0, 0, 1] + tensor_at wts [0, 1, 1] = 1"
    using s [unfolded H, rule_format, of 0 1] by (simp add: two)
  ultimately show ?thesis using f sw by blast
qed


subsection \<open>The forward pass\<close>

lemma call_module_Inr:
  "fwd (module h) x = Inr y \<Longrightarrow>
   \<exists>h'. call_module fwd h x = Inr (h', y) \<and> module h' = module h"
  by (simp add: call_module_def save_computations_def)

lemma call_graph_layer_Inr:
  "layer_forward (module h) rt x = Inr y \<Longrightarrow>
   \<exists>h'. call_graph_layer rt h x = Inr (h', y) \<and> module h' = module h"
  by (simp add: call_graph_layer_def GraphLayer_forward_def save_computations_def)

lemma wf_binop:
  "binop f a b = Inr c \<Longrightarrow> wf_tensor c"
  by (auto simp: binop_def wf_tensor_def split: option.splits)

lemma broadcast_gate_left:
  "broadcast_shapes [E, N, Suc 0] [E, N, c] = Some [E, N, c]"
  by (simp add: broadcast_shapes_def)

lemma broadcast_mask_right:
  "broadcast_shapes [E, N, c] [E, N, Suc 0] = Some [E, N, c]"
  by (simp add: broadcast_shapes_def)

lemma broadcast_embedding:
  "C = 1 \<or> C = m \<Longrightarrow> broadcast_shapes [E, N, C] [N, m] = Some [E, N, m]"
  by (auto simp: broadcast_shapes_def)

lemma tmul_shape:
  "broadcast_shapes (shape a) (shape b) = Some s \<Longrightarrow>
   \<exists>c. tmul a b = Inr c \<and> shape c = s \<and> wf_tensor c"
  by (simp add: tmul_def binop_def wf_tensor_def)

lemma shape_Dropout_forward [simp]: "shape (Dropout_forward dl tr kp t) = shape t"
  by (simp add: Dropout_forward_def)

lemma dropout_step_returns:
  assumes "shape x = [E, N, c]" and "wf_tensor x"
  shows "\<exists>y. dropout_step self kp dl x = Inr y \<and> shape y = [E, N, c] \<and> wf_tensor y"
proof (cases dl)
  case None
  then show ?thesis using assms by (simp add: dropout_step_def)
next
  case (Some d)
  have u: "unsqueeze (Dropout_forward d (training self) kp (ones [E, N])) 2
        = Inr (Tensor [E, N, Suc 0] (data (Dropout_forward d (training self) kp (ones [E, N]))))"
    by (simp add: unsqueeze_def Let_def ones_def)
  from tmul_shape [of x "Tensor [E, N, Suc 0] (data (Dropout_forward d (training self) kp (ones [E, N])))" "[E, N, c]"]
  obtain y where "tmul x (Tensor [E, N, Suc 0] (data (Dropout_forward d (training self) kp (ones [E, N])))) = Inr y"
    "shape y = [E, N, c]" "wf_tensor y"
    using assms(1) by (auto simp: broadcast_mask_right)
  then show ?thesis
    using Some assms(1) u by (simp add: dropout_step_def size_at_def)
qed

text \<open>The entries that a dropout stage returns are those of \<open>dropout_step\<close>.\<close>

lemma dropout_stage_entries:
  "dropout_stage self rt kp dl x = Inr y \<Longrightarrow> dropout_step self kp dl (tensor_of x) = Inr (tensor_of y)"
  by (cases dl)
     (auto simp: dropout_stage_def dropout_step_def dropout_mask_def product_def ebind_def
           split: sum.splits if_splits)

text \<open>
  A dropout stage with the devices: it returns when the mask ends up where the tensor is.
\<close>

lemma dropout_stage_returns:
  assumes "shape (tensor_of x) = [E, N, c]" and "wf_tensor (tensor_of x)"
    and "dl \<noteq> None \<longrightarrow> mask_device self rt = Inr (device_of x)"
    and "requires_grad x" and "grad_enabled rt"
  shows "\<exists>y. dropout_stage self rt kp dl x = Inr y \<and> shape (tensor_of y) = [E, N, c]
           \<and> wf_tensor (tensor_of y) \<and> device_of y = device_of x \<and> requires_grad y"
proof (cases dl)
  case None
  then show ?thesis using assms by (simp add: dropout_stage_def)
next
  case (Some dr)
  let ?m = "Tensor [E, N, Suc 0] (data (Dropout_forward dr (training self) kp (ones [E, N])))"
  have u: "dropout_mask self kp dr (tensor_of x) = Inr ?m"
    using assms(1) by (simp add: dropout_mask_def size_at_def unsqueeze_def Let_def ones_def)
  from tmul_shape [of "tensor_of x" ?m "[E, N, c]"] obtain t where
    "tmul (tensor_of x) ?m = Inr t" "shape t = [E, N, c]" "wf_tensor t"
    using assms(1) by (auto simp: broadcast_mask_right)
  then show ?thesis using Some assms(3,4,5) u by (simp add: dropout_stage_def product_def)
qed

lemma wf_map_tensor [simp]: "wf_tensor (map_tensor f t) = wf_tensor t"
  by (simp add: wf_tensor_def map_tensor_def)

lemma shape_map_tensor [simp]: "shape (map_tensor f t) = shape t"
  by (simp add: map_tensor_def)

text \<open>
  One round of the loop of \<^verbatim>\<open>forward\<close>, with gradients recorded.  Under gating the gate's
  parameters make the tensor require grad, so that the gradient hook can be registered;
  without gating the result of the layer has to require grad itself.
\<close>

lemma forward_stage_returns:
  assumes c: "layer_contract rt d E N (\<not> 0 < gating self) ig (module layer)"
    and cin: "la_c_in (made_from (module layer)) = c_in"
    and cout: "la_c_out (made_from (module layer)) = c_out"
    and g: "0 < gating self \<longrightarrow> 0 < c_out \<and>
              (\<exists>gt. gate = Some gt \<and> in_features (gate_attn (module gt)) = c_out
                    \<and> out_features (gate_attn (module gt)) = 1)
              \<and> param_device self = d \<and> param_requires_grad self"
    and x: "shape (tensor_of x) = [E, N, c_in]" "wf_tensor (tensor_of x)" "device_of x = d"
      "ig \<longrightarrow> requires_grad x"
    and ge: "grad_enabled rt"
    and md: "dl \<noteq> None \<longrightarrow> mask_device self rt = Inr d"
  shows "\<exists>layer1 gate1 y. forward_stage self rt kp (layer, gate, dl) x = Inr (layer1, gate1, y)
           \<and> shape (tensor_of y) = [E, N, c_out] \<and> wf_tensor (tensor_of y) \<and> device_of y = d
           \<and> requires_grad y"
proof -
  from c [unfolded layer_contract_def, rule_format, of x] x cin cout ge obtain x1 where
    x1: "layer_forward (module layer) rt x = Inr x1" "shape (tensor_of x1) = [E, N, c_out]"
      "wf_tensor (tensor_of x1)" "device_of x1 = d"
    and x1g: "\<not> 0 < gating self \<longrightarrow> requires_grad x1"
    by auto
  from call_graph_layer_Inr [OF x1(1)] obtain layer1 where
    cl: "call_graph_layer rt layer x = Inr (layer1, x1)" by blast
  have "\<exists>gate1 x2. (if 0 < gating self then
              ebind (call_graph_layer rt layer x) (\<lambda>(layer1, x1).
              (case gate of
                 None \<Rightarrow> Inl TypeError
               | Some gt \<Rightarrow>
                   ebind (call_module ElementwiseGateLayer_forward gt (tensor_of x1)) (\<lambda>(gate1, gv).
                   ebind (with_parameters self rt x1 gv) (\<lambda>g.
                   ebind (product rt g x1) (\<lambda>x2. Inr (layer1, Some gate1, x2))))))
            else
              ebind (call_graph_layer rt layer x) (\<lambda>(layer1, x1).
              Inr (layer1, gate, x1))) = Inr (layer1, gate1, x2)
          \<and> shape (tensor_of x2) = [E, N, c_out] \<and> wf_tensor (tensor_of x2)
          \<and> device_of x2 = d \<and> requires_grad x2"
  proof (cases "0 < gating self")
    case False
    then show ?thesis using cl x1 x1g by simp
  next
    case True
    with g obtain gt where gt: "gate = Some gt" "in_features (gate_attn (module gt)) = c_out"
      "out_features (gate_attn (module gt)) = 1" and p: "0 < c_out"
      and pd: "param_device self = d" "param_requires_grad self" by blast
    from ElementwiseGateLayer_forward_total [OF x1(2) p gt(2,3)] obtain gv where
      gv: "ElementwiseGateLayer_forward (module gt) (tensor_of x1) = Inr gv" "shape gv = [E, N, 1]"
      by blast
    from call_module_Inr [of ElementwiseGateLayer_forward gt "tensor_of x1" gv, OF gv(1)]
    obtain gate1 where
      cg: "call_module ElementwiseGateLayer_forward gt (tensor_of x1) = Inr (gate1, gv)" by blast
    have wp: "with_parameters self rt x1 gv = Inr (Variable gv True d)"
      using pd x1(4) ge by (simp add: with_parameters_def)
    from tmul_shape [of gv "tensor_of x1" "[E, N, c_out]"] gv(2) x1(2) obtain t2 where
      t2: "tmul gv (tensor_of x1) = Inr t2" "shape t2 = [E, N, c_out]" "wf_tensor t2"
      by (auto simp: broadcast_gate_left)
    have pr: "product rt (Variable gv True d) x1 = Inr (Variable t2 True d)"
      using t2(1) x1(4) ge by (simp add: product_def)
    show ?thesis using True cl gt(1) cg wp pr t2(2,3) by simp
  qed
  then obtain gate1 x2 where
    s1: "(if 0 < gating self then
              ebind (call_graph_layer rt layer x) (\<lambda>(layer1, x1).
              (case gate of
                 None \<Rightarrow> Inl TypeError
               | Some gt \<Rightarrow>
                   ebind (call_module ElementwiseGateLayer_forward gt (tensor_of x1)) (\<lambda>(gate1, gv).
                   ebind (with_parameters self rt x1 gv) (\<lambda>g.
                   ebind (product rt g x1) (\<lambda>x2. Inr (layer1, Some gate1, x2))))))
            else
              ebind (call_graph_layer rt layer x) (\<lambda>(layer1, x1).
              Inr (layer1, gate, x1))) = Inr (layer1, gate1, x2)"
    and x2: "shape (tensor_of x2) = [E, N, c_out]" "wf_tensor (tensor_of x2)"
      "device_of x2 = d" "requires_grad x2"
    by blast
  let ?x3 = "pointwise rt relu x2"
  have x3: "shape (tensor_of ?x3) = [E, N, c_out]" "wf_tensor (tensor_of ?x3)"
    "device_of ?x3 = d" "requires_grad ?x3"
    using x2 ge by (simp_all add: pointwise_def)
  have h: "register_hook ?x3 = Inr ()" using x3(4) by (simp add: register_hook_def)
  from md x3(3) have "dl \<noteq> None \<longrightarrow> mask_device self rt = Inr (device_of ?x3)" by simp
  from dropout_stage_returns [OF x3(1,2) this x3(4) ge, of kp] x3(3) obtain y where
    y: "dropout_stage self rt kp dl ?x3 = Inr y" "shape (tensor_of y) = [E, N, c_out]"
      "wf_tensor (tensor_of y)" "device_of y = d" "requires_grad y"
    by auto
  have "forward_stage self rt kp (layer, gate, dl) x = Inr (layer1, gate1, y)"
    unfolding forward_stage_def using s1 h y(1) by (simp add: Let_def)
  with y show ?thesis by blast
qed

text \<open>The whole loop, over stages whose widths follow the list \<open>c # cs\<close>.\<close>

lemma stage_loop_returns:
  assumes "grad_enabled rt"
    and "length sts = length cs"
    and "\<forall>j<length cs.
           layer_contract rt d E N (\<not> 0 < gating self) (0 < j \<or> ig) (module (fst (sts ! j)))
         \<and> la_c_in (made_from (module (fst (sts ! j)))) = (c # cs) ! j
         \<and> la_c_out (made_from (module (fst (sts ! j)))) = cs ! j
         \<and> (0 < gating self \<longrightarrow> 0 < cs ! j \<and>
              (\<exists>gt. fst (snd (sts ! j)) = Some gt \<and> in_features (gate_attn (module gt)) = cs ! j
                    \<and> out_features (gate_attn (module gt)) = 1)
              \<and> param_device self = d \<and> param_requires_grad self)
         \<and> (snd (snd (sts ! j)) \<noteq> None \<longrightarrow> mask_device self rt = Inr d)"
    and "shape (tensor_of x) = [E, N, c]" and "wf_tensor (tensor_of x)" and "device_of x = d"
    and "ig \<longrightarrow> requires_grad x"
  shows "\<exists>called y. stage_loop self rt keep i sts x = Inr (called, y)
           \<and> shape (tensor_of y) = [E, N, last (c # cs)] \<and> wf_tensor (tensor_of y)
           \<and> device_of y = d \<and> length called = length sts"
  using assms(2-)
proof (induction cs arbitrary: sts c x i ig)
  case Nil
  then show ?case by simp
next
  case (Cons c1 cs)
  from Cons.prems(1) obtain st sts' where sts: "sts = st # sts'" and len: "length sts' = length cs"
    by (cases sts) auto
  obtain layer gate dl where st: "st = (layer, gate, dl)" by (cases st)
  from Cons.prems(2) [rule_format, of 0]
  have h0: "layer_contract rt d E N (\<not> 0 < gating self) ig (module layer)"
    "la_c_in (made_from (module layer)) = c" "la_c_out (made_from (module layer)) = c1"
    "0 < gating self \<longrightarrow> 0 < c1 \<and>
              (\<exists>gt. gate = Some gt \<and> in_features (gate_attn (module gt)) = c1
                    \<and> out_features (gate_attn (module gt)) = 1)
              \<and> param_device self = d \<and> param_requires_grad self"
    and h1: "dl \<noteq> None \<longrightarrow> mask_device self rt = Inr d"
    by (simp_all add: sts st)
  from forward_stage_returns [OF h0 Cons.prems(3,4,5,6) assms(1) h1] obtain layer1 gate1 x4 where
    fs: "forward_stage self rt (keep i) (layer, gate, dl) x = Inr (layer1, gate1, x4)"
    and x4: "shape (tensor_of x4) = [E, N, c1]" "wf_tensor (tensor_of x4)" "device_of x4 = d"
    and x4g: "requires_grad x4"
    by blast
  have rest: "\<forall>j<length cs.
           layer_contract rt d E N (\<not> 0 < gating self) (0 < j \<or> True) (module (fst (sts' ! j)))
         \<and> la_c_in (made_from (module (fst (sts' ! j)))) = (c1 # cs) ! j
         \<and> la_c_out (made_from (module (fst (sts' ! j)))) = cs ! j
         \<and> (0 < gating self \<longrightarrow> 0 < cs ! j \<and>
              (\<exists>gt. fst (snd (sts' ! j)) = Some gt \<and> in_features (gate_attn (module gt)) = cs ! j
                    \<and> out_features (gate_attn (module gt)) = 1)
              \<and> param_device self = d \<and> param_requires_grad self)
         \<and> (snd (snd (sts' ! j)) \<noteq> None \<longrightarrow> mask_device self rt = Inr d)"
  proof (intro allI impI)
    fix j assume "j < length cs"
    then have "Suc j < length (c1 # cs)" by simp
    from Cons.prems(2) [rule_format, OF this]
    show "layer_contract rt d E N (\<not> 0 < gating self) (0 < j \<or> True) (module (fst (sts' ! j)))
         \<and> la_c_in (made_from (module (fst (sts' ! j)))) = (c1 # cs) ! j
         \<and> la_c_out (made_from (module (fst (sts' ! j)))) = cs ! j
         \<and> (0 < gating self \<longrightarrow> 0 < cs ! j \<and>
              (\<exists>gt. fst (snd (sts' ! j)) = Some gt \<and> in_features (gate_attn (module gt)) = cs ! j
                    \<and> out_features (gate_attn (module gt)) = 1)
              \<and> param_device self = d \<and> param_requires_grad self)
         \<and> (snd (snd (sts' ! j)) \<noteq> None \<longrightarrow> mask_device self rt = Inr d)"
      by (simp add: sts)
  qed
  from x4g have "True \<longrightarrow> requires_grad x4" by simp
  from Cons.IH [OF len rest x4 this, of "Suc i"] obtain called y where
    r: "stage_loop self rt keep (Suc i) sts' x4 = Inr (called, y)"
    "shape (tensor_of y) = [E, N, last (c1 # cs)]" "wf_tensor (tensor_of y)" "device_of y = d"
    "length called = length sts'"
    by blast
  show ?case
    using fs r by (simp add: sts st)
qed

lemma gating_layers_loop_fits:
  "\<exists>gl. gating_layers_loop rnd cs gs = gs @ gl \<and> length gl = length cs
     \<and> (\<forall>j<length cs. \<exists>gt. gl ! j = Some gt \<and> in_features (gate_attn (module gt)) = cs ! j
            \<and> out_features (gate_attn (module gt)) = 1)"
proof (induction cs arbitrary: gs)
  case Nil
  show ?case by simp
next
  case (Cons c cs)
  let ?g = "Some (register_forward_hook (new_module
                   (ElementwiseGateLayer_init c
                      (rnd (''gating_layers.'' @ str_nat (length gs) @ ''.attn.weight''))
                      (rnd (''gating_layers.'' @ str_nat (length gs) @ ''.attn.bias'')))))"
  from Cons.IH [of "gs @ [?g]"] obtain gl where
    gl: "gating_layers_loop rnd cs (gs @ [?g]) = (gs @ [?g]) @ gl" "length gl = length cs"
    "\<forall>j<length cs. \<exists>gt. gl ! j = Some gt \<and> in_features (gate_attn (module gt)) = cs ! j
            \<and> out_features (gate_attn (module gt)) = 1"
    by blast
  have "\<exists>gt. (?g # gl) ! j = Some gt \<and> in_features (gate_attn (module gt)) = (c # cs) ! j
            \<and> out_features (gate_attn (module gt)) = 1" if "j < length (c # cs)" for j
  proof (cases j)
    case 0
    then show ?thesis
      by (simp add: register_forward_hook_def new_module_def ElementwiseGateLayer_init_def
          Linear_init_def)
  next
    case (Suc j')
    with that gl(3) show ?thesis by simp
  qed
  then show ?case
    using gl(1,2) by (intro exI [of _ "?g # gl"]) (simp add: Let_def)
qed

text \<open>Without extra layers, the conv layers of a constructed network are one per width pair.\<close>

lemma init_conv_layers_plain:
  assumes "GraphNetwork_init cfg rnd = Inr net"
    and "cfg_aggregate_adj cfg = None \<or> cfg_prepool_extralayers cfg \<le> 0"
  shows "conv_layers net =
     map (\<lambda>i. register_forward_hook
             (make_layer net (dims net ! i) (dims net ! Suc i) i
                (Some (transform_adj net)) (aggregate_adj net))) [0..<length (cfg_channels cfg)]"
proof -
  note r = init_result [OF assms(1)]
  have "(if aggregate_adj net \<noteq> None
         then replicate (nat (prepool_extralayers net)) (make_layer net a a i None None)
         else []) = []" for a i
    using assms(2) by (auto simp: r(8,12))
  then show ?thesis
    unfolding init_conv_layers_eq [OF assms(1)] by (simp add: r(16))
qed


text \<open>Every conv layer of a constructed network was made by the injected layer type.\<close>

lemma init_layer_forward:
  assumes "GraphNetwork_init cfg rnd = Inr net" and "h \<in> set (conv_layers net)"
  shows "module h = \<lparr> made_from = made_from (module h),
                      layer_forward = cfg_graph_layer_type cfg (made_from (module h)) \<rparr>"
  using assms(2) unfolding init_conv_layers_eq [OF assms(1)]
  by (auto simp: make_layer_def register_forward_hook_def new_module_def Let_def
        init_result(7) [OF assms(1)] split: if_splits)

text \<open>
  The forward pass of a constructed network on a fitting input on the CPU, with gradients
  recorded.
\<close>

lemma forward_returns:
  assumes init: "GraphNetwork_init cfg rnd = Inr net"
    and c: "\<forall>j<length (conv_layers net).
              layer_contract rt CPU E (nrows (cfg_adj cfg)) (\<not> 0 < cfg_gating cfg)
                (0 < j \<or> truthy_embedding (cfg_embedding cfg) \<or> requires_grad x)
                (module (conv_layers net ! j))"
    and ne: "cfg_aggregate_adj cfg = None \<or> cfg_prepool_extralayers cfg \<le> 0"
    and x: "shape (tensor_of x) = [E, nrows (cfg_adj cfg), C]" and wx: "wf_tensor (tensor_of x)"
    and E: "0 < E"
    and pos: "(0 < cfg_gating cfg \<longrightarrow> (\<forall>c\<in>set (cfg_channels cfg). 0 < c))
           \<and> (cfg_attention_head cfg \<noteq> 0 \<longrightarrow> 0 < last (cfg_channels cfg))"
    and w: "if truthy_embedding (cfg_embedding cfg)
            then C = 1 \<or> cfg_embedding cfg = Some C else C = cfg_input_dim cfg"
    and ge: "grad_enabled rt"
    and dx: "device_of x = CPU"
    and cd: "cfg_dropout cfg \<and> cfg_channels cfg \<noteq> [] \<longrightarrow> \<not> cfg_cuda cfg"
  shows "\<exists>net' y. GraphNetwork_forward net rt keep x = Inr (net', y)
           \<and> shape (tensor_of y) = [E, out_dim net]
           \<and> other_attributes net' = other_attributes net"
proof -
  note r = init_result [OF init]
  let ?N = "nrows (cfg_adj cfg)"
  let ?cs = "cfg_channels cfg"
  define d0 where "d0 = (if truthy_embedding (cfg_embedding cfg)
                  then (the (cfg_embedding cfg))
                  else cfg_input_dim cfg)"
  have dims: "dims net = d0 # ?cs" by (simp add: r(16) d0_def)
  \<comment> \<open>the embedding\<close>
  have "\<exists>s1 x1.
      (if truthy_embedding (embedding net) then
         (case emb net of
            None \<Rightarrow> Inl (AttributeError ''emb'')
          | Some e \<Rightarrow>
              ebind (call_module EmbeddingLayer_forward e (tensor_of x)) (\<lambda>(e1, t).
              ebind (with_parameters net rt x t) (\<lambda>x1.
              ebind (register_hook x1) (\<lambda>_.
              Inr (net\<lparr> emb := Some e1 \<rparr>, x1)))))
       else Inr (net, x)) = Inr (s1, x1)
    \<and> shape (tensor_of x1) = [E, ?N, d0] \<and> wf_tensor (tensor_of x1) \<and> device_of x1 = CPU
    \<and> (truthy_embedding (cfg_embedding cfg) \<or> requires_grad x \<longrightarrow> requires_grad x1)
    \<and> conv_layers s1 = conv_layers net \<and> gating_layers s1 = gating_layers net
    \<and> dropout_layers s1 = dropout_layers net \<and> gating s1 = gating net
    \<and> attention_head s1 = attention_head net \<and> attention_layer s1 = attention_layer net
    \<and> my_logistic_layers s1 = my_logistic_layers net
    \<and> other_attributes s1 = other_attributes net
    \<and> cuda s1 = cuda net \<and> param_device s1 = CPU \<and> param_requires_grad s1"
  proof (cases "truthy_embedding (cfg_embedding cfg)")
    case False
    then show ?thesis using x wx w dx by (simp add: r(6,24,25) d0_def)
  next
    case True
    then obtain m where m: "cfg_embedding cfg = Some m" "d0 = m"
      by (auto simp: truthy_embedding_def d0_def split: option.splits)
    let ?e = "register_forward_hook (new_module
                (EmbeddingLayer_init ?N m (rnd ''emb.emb'')))
              :: (EmbeddingLayer, tensor) hooked"
    have e: "emb net = Some ?e" using True m by (simp add: r(17))
    have se: "shape (emb_table (module ?e)) = [?N, m]"
      by (simp add: register_forward_hook_def new_module_def EmbeddingLayer_init_def)
    from w True m have "C = 1 \<or> C = m" by auto
    from broadcast_embedding [OF this, of E ?N]
    have "broadcast_shapes (shape (tensor_of x)) (shape (emb_table (module ?e))) = Some [E, ?N, m]"
      by (simp add: x se)
    from tmul_shape [OF this] obtain t1 where
      t1: "tmul (tensor_of x) (emb_table (module ?e)) = Inr t1" "shape t1 = [E, ?N, m]"
        "wf_tensor t1"
      by blast
    then have "EmbeddingLayer_forward (module ?e) (tensor_of x) = Inr t1"
      by (simp add: EmbeddingLayer_forward_def)
    from call_module_Inr [of EmbeddingLayer_forward ?e "tensor_of x" t1, OF this] obtain e1 where
      ce: "call_module EmbeddingLayer_forward ?e (tensor_of x) = Inr (e1, t1)" by blast
    have wp: "with_parameters net rt x t1 = Inr (Variable t1 True CPU)"
      using dx ge by (simp add: with_parameters_def r(24,25))
    have rh: "register_hook (Variable t1 True CPU) = Inr ()" by (simp add: register_hook_def)
    show ?thesis
      using True e ce wp rh t1(2,3) m by (simp add: r(6,24,25))
  qed
  then obtain s1 x1 where
    step1: "(if truthy_embedding (embedding net) then
         (case emb net of
            None \<Rightarrow> Inl (AttributeError ''emb'')
          | Some e \<Rightarrow>
              ebind (call_module EmbeddingLayer_forward e (tensor_of x)) (\<lambda>(e1, t).
              ebind (with_parameters net rt x t) (\<lambda>x1.
              ebind (register_hook x1) (\<lambda>_.
              Inr (net\<lparr> emb := Some e1 \<rparr>, x1)))))
       else Inr (net, x)) = Inr (s1, x1)"
    and x1: "shape (tensor_of x1) = [E, ?N, d0]" "wf_tensor (tensor_of x1)" "device_of x1 = CPU"
      "truthy_embedding (cfg_embedding cfg) \<or> requires_grad x \<longrightarrow> requires_grad x1"
    and s1: "conv_layers s1 = conv_layers net" "gating_layers s1 = gating_layers net"
      "dropout_layers s1 = dropout_layers net" "gating s1 = gating net"
      "attention_head s1 = attention_head net" "attention_layer s1 = attention_layer net"
      "my_logistic_layers s1 = my_logistic_layers net"
      "other_attributes s1 = other_attributes net"
      "cuda s1 = cuda net" "param_device s1 = CPU" "param_requires_grad s1"
    by blast
  \<comment> \<open>the stages\<close>
  let ?sts = "zip (conv_layers s1) (zip (gating_layers s1) (dropout_layers s1))"
  have lc: "length (conv_layers net) = length ?cs"
    by (simp add: init_conv_layers_plain [OF init ne])
  have lg: "length (gating_layers net) = length ?cs"
  proof (cases "0 < cfg_gating cfg")
    case True
    from gating_layers_loop_fits [of rnd ?cs "[]"] True show ?thesis by (auto simp: r(20))
  next
    case False
    then show ?thesis by (simp add: r(20))
  qed
  have ld: "length (dropout_layers net) = length ?cs" by (simp add: r(21))
  have lsts: "length ?sts = length ?cs" by (simp add: s1 lc lg ld)
  have fits: "\<forall>j<length ?cs.
           layer_contract rt CPU E ?N (\<not> 0 < gating s1)
             (0 < j \<or> (truthy_embedding (cfg_embedding cfg) \<or> requires_grad x))
             (module (fst (?sts ! j)))
         \<and> la_c_in (made_from (module (fst (?sts ! j)))) = (d0 # ?cs) ! j
         \<and> la_c_out (made_from (module (fst (?sts ! j)))) = ?cs ! j
         \<and> (0 < gating s1 \<longrightarrow> 0 < ?cs ! j \<and>
              (\<exists>gt. fst (snd (?sts ! j)) = Some gt \<and> in_features (gate_attn (module gt)) = ?cs ! j
                    \<and> out_features (gate_attn (module gt)) = 1)
              \<and> param_device s1 = CPU \<and> param_requires_grad s1)
         \<and> (snd (snd (?sts ! j)) \<noteq> None \<longrightarrow> mask_device s1 rt = Inr CPU)"
  proof (intro allI impI)
    fix j assume j: "j < length ?cs"
    have a: "fst (?sts ! j) = conv_layers net ! j" "fst (snd (?sts ! j)) = gating_layers net ! j"
      "snd (snd (?sts ! j)) = dropout_layers net ! j"
      using j by (simp_all add: s1 lc lg ld)
    have cl: "conv_layers net ! j = register_forward_hook
             (make_layer net (dims net ! j) (dims net ! Suc j) j
                (Some (transform_adj net)) (aggregate_adj net))"
      using j by (simp add: init_conv_layers_plain [OF init ne])
    from c j lc
    have k: "layer_contract rt CPU E ?N (\<not> 0 < gating s1)
               (0 < j \<or> (truthy_embedding (cfg_embedding cfg) \<or> requires_grad x))
               (module (fst (?sts ! j)))"
      unfolding a by (simp add: s1 r(13))
    have l: "la_c_in (made_from (module (fst (?sts ! j)))) = (d0 # ?cs) ! j"
      "la_c_out (made_from (module (fst (?sts ! j)))) = ?cs ! j"
      unfolding a cl
      by (simp_all add: make_layer_def register_forward_hook_def new_module_def Let_def dims)
    have g: "0 < ?cs ! j \<and>
              (\<exists>gt. fst (snd (?sts ! j)) = Some gt \<and> in_features (gate_attn (module gt)) = ?cs ! j
                    \<and> out_features (gate_attn (module gt)) = 1)
              \<and> param_device s1 = CPU \<and> param_requires_grad s1" if "0 < gating s1"
    proof -
      from that have gt: "0 < cfg_gating cfg" by (simp add: s1 r(13))
      with pos j have "0 < ?cs ! j" by simp
      moreover from gating_layers_loop_fits [of rnd ?cs "[]"] gt j
      have "\<exists>gt. gating_layers net ! j = Some gt \<and> in_features (gate_attn (module gt)) = ?cs ! j
                    \<and> out_features (gate_attn (module gt)) = 1"
        by (auto simp: r(20))
      ultimately show ?thesis unfolding a using s1(10,11) by blast
    qed
    have m: "mask_device s1 rt = Inr CPU" if "snd (snd (?sts ! j)) \<noteq> None"
    proof -
      from that j have "cfg_dropout cfg" unfolding a by (auto simp: r(21) split: if_splits)
      moreover from j have "?cs \<noteq> []" by auto
      ultimately have "\<not> cfg_cuda cfg" using cd by simp
      then show ?thesis by (simp add: mask_device_def s1 r(2))
    qed
    from k l g m show "layer_contract rt CPU E ?N (\<not> 0 < gating s1)
             (0 < j \<or> (truthy_embedding (cfg_embedding cfg) \<or> requires_grad x))
             (module (fst (?sts ! j)))
         \<and> la_c_in (made_from (module (fst (?sts ! j)))) = (d0 # ?cs) ! j
         \<and> la_c_out (made_from (module (fst (?sts ! j)))) = ?cs ! j
         \<and> (0 < gating s1 \<longrightarrow> 0 < ?cs ! j \<and>
              (\<exists>gt. fst (snd (?sts ! j)) = Some gt \<and> in_features (gate_attn (module gt)) = ?cs ! j
                    \<and> out_features (gate_attn (module gt)) = 1)
              \<and> param_device s1 = CPU \<and> param_requires_grad s1)
         \<and> (snd (snd (?sts ! j)) \<noteq> None \<longrightarrow> mask_device s1 rt = Inr CPU)"
      by blast
  qed
  from stage_loop_returns [OF ge lsts fits x1, of keep 0] obtain called x2 where
    step2: "stage_loop s1 rt keep 0 ?sts x1 = Inr (called, x2)"
    and x2: "shape (tensor_of x2) = [E, ?N, last (d0 # ?cs)]" "wf_tensor (tensor_of x2)"
      "device_of x2 = CPU"
    by blast
  let ?s2 = "s1\<lparr>
                 conv_layers := map fst called @ drop (length called) (conv_layers s1),
                 gating_layers := map snd called @ drop (length called) (gating_layers s1) \<rparr>"
  \<comment> \<open>the attention pooling\<close>
  have "\<exists>s3 x3.
      (if attention_head ?s2 \<noteq> 0 then
         (case attention_layer ?s2 of
            None \<Rightarrow> Inl (AttributeError ''attention_layer'')
          | Some a \<Rightarrow>
              ebind (call_module AttentionLayer_forward a (tensor_of x2)) (\<lambda>(a1, res).
              ebind (with_parameters ?s2 rt x2 (fst res)) (\<lambda>x3.
              Inr (?s2\<lparr> attention_layer := Some a1 \<rparr>, x3))))
       else Inr (?s2, x2)) = Inr (s3, x3)
    \<and> prod_list (shape (tensor_of x3))
         = E * ((if 0 < cfg_attention_head cfg then cfg_attention_head cfg else ?N) * last (d0 # ?cs))
    \<and> device_of x3 = CPU
    \<and> my_logistic_layers s3 = my_logistic_layers net
    \<and> other_attributes s3 = other_attributes net
    \<and> param_device s3 = CPU \<and> param_requires_grad s3"
  proof (cases "cfg_attention_head cfg = 0")
    case True
    then show ?thesis using x2 by (simp add: s1 r(11))
  next
    case False
    let ?a = "register_forward_hook (new_module
                   (AttentionLayer_init (last ?cs) (cfg_attention_head cfg)
                      (rnd ''attention_layer.attn.weight'') (rnd ''attention_layer.attn.bias'')))
              :: (AttentionLayer, tensor \<times> tensor) hooked"
    have a: "attention_layer net = Some ?a" using False by (simp add: r(22))
    from False r(23) have cne: "?cs \<noteq> []" by simp
    then have la: "last (d0 # ?cs) = last ?cs" by simp
    from pos False cne have p: "0 < last ?cs" by simp
    have m: "in_features (att_attn (module ?a)) = last ?cs"
      "out_features (att_attn (module ?a)) = nb_attention_head (module ?a)"
      "nb_attention_head (module ?a) = cfg_attention_head cfg"
      by (simp_all add: register_forward_hook_def new_module_def AttentionLayer_init_def
          Linear_init_def)
    from AttentionLayer_forward_total [OF x2(1) [unfolded la] p E m(1,2)] obtain applied wts where
      f: "AttentionLayer_forward (module ?a) (tensor_of x2) = Inr (applied, wts)"
      and sa: "shape applied = [E, last ?cs * cfg_attention_head cfg]"
      unfolding m(3) by blast
    from call_module_Inr [of AttentionLayer_forward ?a "tensor_of x2" "(applied, wts)", OF f]
    obtain a1 where
      ca: "call_module AttentionLayer_forward ?a (tensor_of x2) = Inr (a1, (applied, wts))"
      by blast
    have wp: "with_parameters ?s2 rt x2 applied = Inr (Variable applied True CPU)"
      using x2(3) ge s1(10,11) by (simp add: with_parameters_def)
    show ?thesis
      using False a ca wp sa la by (simp add: s1 r(11) mult.commute)
  qed
  then obtain s3 x3 where
    step3: "(if attention_head ?s2 \<noteq> 0 then
         (case attention_layer ?s2 of
            None \<Rightarrow> Inl (AttributeError ''attention_layer'')
          | Some a \<Rightarrow>
              ebind (call_module AttentionLayer_forward a (tensor_of x2)) (\<lambda>(a1, res).
              ebind (with_parameters ?s2 rt x2 (fst res)) (\<lambda>x3.
              Inr (?s2\<lparr> attention_layer := Some a1 \<rparr>, x3))))
       else Inr (?s2, x2)) = Inr (s3, x3)"
    and x3: "prod_list (shape (tensor_of x3))
         = E * ((if 0 < cfg_attention_head cfg then cfg_attention_head cfg else ?N) * last (d0 # ?cs))"
      "device_of x3 = CPU"
    and s3: "my_logistic_layers s3 = my_logistic_layers net"
      "other_attributes s3 = other_attributes net"
      "param_device s3 = CPU" "param_requires_grad s3"
    by blast
  \<comment> \<open>the classifier\<close>
  define wd where
    "wd = (if 0 < cfg_attention_head cfg then cfg_attention_head cfg else ?N) * last (d0 # ?cs)"
  define l :: "(Linear, tensor) hooked" where
    "l = register_forward_hook (new_module (Linear_init wd (out_dim net)
              (rnd ''my_logistic_layers.0.weight'') (rnd ''my_logistic_layers.0.bias'')))"
  have ml: "my_logistic_layers s3 = [l]" by (simp add: s3 r(19) dims l_def wd_def)
  have v: "view (tensor_of x3) [D E, Infer] = Inr (Tensor [E, wd] (data (tensor_of x3)))"
    using view_infer_last [of E "tensor_of x3"] E x3(1) by (simp add: wd_def)
  have lf: "in_features (module l) = wd" "out_features (module l) = out_dim net"
    by (simp_all add: l_def register_forward_hook_def new_module_def Linear_init_def)
  from Linear_forward_total [of "Tensor [E, wd] (data (tensor_of x3))" "module l"] lf(1)
  obtain t where
    t: "Linear_forward (module l) (Tensor [E, wd] (data (tensor_of x3))) = Inr t" by auto
  from Linear_forward_shape [OF t] lf(2) have st: "shape t = [E, out_dim net]" by simp
  from call_module_Inr [of Linear_forward l "Tensor [E, wd] (data (tensor_of x3))" t, OF t]
  obtain l1 where
    cl: "call_module Linear_forward l (Tensor [E, wd] (data (tensor_of x3))) = Inr (l1, t)"
    by blast
  have wp: "with_parameters s3 rt x3 t = Inr (Variable t True CPU)"
    using x3(2) ge s3(3,4) by (simp add: with_parameters_def)
  have rh: "register_hook (Variable t True CPU) = Inr ()" by (simp add: register_hook_def)
  have step4: "(case my_logistic_layers s3 of
             [] \<Rightarrow> Inl IndexError
           | ls \<Rightarrow>
               ebind (view (tensor_of x3) [D E, Infer]) (\<lambda>flat.
               ebind (call_module Linear_forward (last ls) flat) (\<lambda>(l1, t).
               ebind (with_parameters s3 rt x3 t) (\<lambda>y.
               ebind (register_hook y) (\<lambda>_.
               Inr (s3\<lparr> my_logistic_layers := butlast ls @ [l1] \<rparr>, y))))))
        = Inr (s3\<lparr> my_logistic_layers := [l1] \<rparr>, Variable t True CPU)"
    by (simp add: ml v cl wp rh)
  have "GraphNetwork_forward net rt keep x
          = Inr (s3\<lparr> my_logistic_layers := [l1] \<rparr>, Variable t True CPU)"
    unfolding GraphNetwork_forward_def x
    by (simp only: list.case Let_def step1 step2 step3 step4 ebind_Inr prod.case)
  then show ?thesis using st s3(2) by simp
qed

text \<open>
  The conv layers of a constructed network satisfy the assumption when every layer that
  the injected type makes does.
\<close>

lemma init_layers_contract:
  assumes "GraphNetwork_init cfg rnd = Inr net"
    and "\<And>args j. layer_contract rt d E N needs_grad (in_grad j)
                  \<lparr> made_from = args, layer_forward = cfg_graph_layer_type cfg args \<rparr>"
  shows "\<forall>j<length (conv_layers net).
           layer_contract rt d E N needs_grad (in_grad j) (module (conv_layers net ! j))"
proof (intro allI impI)
  fix j assume "j < length (conv_layers net)"
  then have "conv_layers net ! j \<in> set (conv_layers net)" by simp
  from init_layer_forward [OF assms(1) this]
  have "module (conv_layers net ! j) =
          \<lparr> made_from = made_from (module (conv_layers net ! j)),
            layer_forward = cfg_graph_layer_type cfg (made_from (module (conv_layers net ! j))) \<rparr>" .
  then show "layer_contract rt d E N needs_grad (in_grad j) (module (conv_layers net ! j))"
    using assms(2) [of j "made_from (module (conv_layers net ! j))"] by simp
qed

lemma stub_layer_contract:
  "layer_contract rt d E N needs_grad in_grad
     \<lparr> made_from = args, layer_forward = stub_layer args \<rparr>"
  by (auto simp: layer_contract_def stub_layer_def wf_tensor_def)





subsection \<open>The representation accessor\<close>

text \<open>The lookup of \<^verbatim>\<open>self.add_emb\<close> fails on every object without that attribute.\<close>

lemma get_representation_raises:
  "other_attributes net ''add_emb'' = None \<Longrightarrow>
   get_representation net = Inl (AttributeError ''add_emb'')"
  by (simp add: get_representation_def)

text \<open>
  C6.  The claim fails on the code: after a completed forward pass on a constructed
  network (one conv layer, four nodes, no embedding, gating, dropout or attention),
  \<^verbatim>\<open>get_representation\<close> raises \<^verbatim>\<open>AttributeError\<close> at its first statement, the lookup of
  \<^verbatim>\<open>self.add_emb\<close>, and returns no mapping.
\<close>

theorem get_representation_attribute_error:
  "\<exists>net net' y.
      GraphNetwork_init example_config (\<lambda>name k. 0) = Inr net
    \<and> forward net (\<lambda>i k. True) (Tensor [2, 4, 3] (replicate 24 1)) = Inr (net', y)
    \<and> get_representation net' = Inl (AttributeError ''add_emb'')"
proof -
  let ?x = "Variable (Tensor [2, 4, 3] (replicate 24 1)) False CPU"
  have "cfg_attention_head example_config \<noteq> 0 \<longrightarrow> cfg_channels example_config \<noteq> []"
    by (simp add: example_config_def)
  from init_total [OF this] obtain net where n: "GraphNetwork_init example_config (\<lambda>name k. 0) = Inr net"
    by blast
  have a: "\<forall>j<length (conv_layers net).
      layer_contract default_runtime CPU 2 (nrows (cfg_adj example_config))
        (\<not> 0 < cfg_gating example_config)
        (0 < j \<or> truthy_embedding (cfg_embedding example_config) \<or> requires_grad ?x)
        (module (conv_layers net ! j))"
    by (rule init_layers_contract [OF n]) (simp add: example_config_def stub_layer_contract)
  have b: "cfg_aggregate_adj example_config = None \<or> cfg_prepool_extralayers example_config \<le> 0"
    by (simp add: example_config_def)
  have c: "(0 < cfg_gating example_config \<longrightarrow> (\<forall>c\<in>set (cfg_channels example_config). 0 < c))
           \<and> (cfg_attention_head example_config \<noteq> 0 \<longrightarrow> 0 < last (cfg_channels example_config))" by (simp add: example_config_def)
  have k: "cfg_dropout example_config \<and> cfg_channels example_config \<noteq> [] \<longrightarrow>
           \<not> cfg_cuda example_config"
    by (simp add: example_config_def)
  have g: "grad_enabled default_runtime" by (simp add: default_runtime_def)
  have d: "shape (tensor_of ?x) = [2, nrows (cfg_adj example_config), 3]"
    by (simp add: example_config_def)
  have e: "wf_tensor (tensor_of ?x)" by (simp add: wf_tensor_def)
  have v: "device_of ?x = CPU" by simp
  have z: "(0::nat) < 2" by simp
  have f: "if truthy_embedding (cfg_embedding example_config)
         then (3::nat) = 1 \<or> cfg_embedding example_config = Some 3
         else 3 = cfg_input_dim example_config"
    by (simp add: truthy_embedding_def example_config_def)
  from forward_returns [OF n a b d e z c f g v k, of "\<lambda>i k. True"] obtain net' y where
    r: "GraphNetwork_forward net default_runtime (\<lambda>i k. True) ?x = Inr (net', y)"
      "other_attributes net' = other_attributes net"
    by blast
  have fw: "forward net (\<lambda>i k. True) (Tensor [2, 4, 3] (replicate 24 1)) = Inr (net', tensor_of y)"
    by (simp add: forward_def r(1))
  have "other_attributes net' ''add_emb'' = None"
    by (simp add: r(2) init_result(15) [OF n])
  then have "get_representation net' = Inl (AttributeError ''add_emb'')"
    by (rule get_representation_raises)
  with n fw show ?thesis by blast
qed


subsection \<open>Inputs and configurations on which the forward pass raises\<close>

text \<open>
  The hypotheses of the theorem on the output shape are needed.  First those on the
  shapes: an empty batch, a pre-pool extra layer, a zero width under gating and a zero
  last width under attention each make \<^verbatim>\<open>forward\<close> raise.
\<close>

lemma example_net:
  assumes "GraphNetwork_init cfg rnd = Inr net"
    and "cfg_aggregate_adj cfg = None \<or> cfg_prepool_extralayers cfg \<le> 0"
    and "cfg_channels cfg = [c]" and "\<not> truthy_embedding (cfg_embedding cfg)"
  shows "conv_layers net =
           [register_forward_hook
              (make_layer net (cfg_input_dim cfg) c 0 (Some (transform_adj net)) (aggregate_adj net))]"
proof -
  note r = init_result [OF assms(1)]
  have d: "dims net = [cfg_input_dim cfg, c]" using assms(3,4) by (simp add: r(16))
  show ?thesis using init_conv_layers_plain [OF assms(1,2)] by (simp add: assms(3) d)
qed

lemmas forward_unfold =
  forward_def GraphNetwork_forward_def forward_stage_def call_module_def call_graph_layer_def
  GraphLayer_forward_def make_layer_def register_forward_hook_def new_module_def
  save_computations_def dropout_stage_def dropout_mask_def mask_device_def
  register_hook_def pointwise_def product_def with_parameters_def default_runtime_def
  truthy_embedding_def Let_def

lemma forward_empty_batch_raises:
  "\<exists>net. GraphNetwork_init example_config (\<lambda>name k. 0) = Inr net
     \<and> forward net (\<lambda>i k. True) (Tensor [0, 4, 3] []) = Inl RuntimeError"
proof -
  have "cfg_attention_head example_config \<noteq> 0 \<longrightarrow> cfg_channels example_config \<noteq> []"
    by (simp add: example_config_def)
  from init_total [OF this] obtain net where n: "GraphNetwork_init example_config (\<lambda>name k. 0) = Inr net"
    by blast
  note r = init_result [OF n]
  have c: "conv_layers net = [register_forward_hook
             (make_layer net 3 8 0 (Some (transform_adj net)) (aggregate_adj net))]"
    using example_net [OF n, of 8] by (simp add: example_config_def truthy_embedding_def)
  have g: "gating_layers net = [None]" "dropout_layers net = [None]" "gating net = 0"
    "embedding net = None" "attention_head net = 0"
    by (simp_all add: r example_config_def)
  have t: "graph_layer_type net = stub_layer" by (simp add: r(7) example_config_def)
  have d: "dims net = [3, 8]" by (simp add: r(16) truthy_embedding_def example_config_def)
  have "forward net (\<lambda>i k. True) (Tensor [0, 4, 3] []) = Inl RuntimeError"
    by (simp add: forward_unfold c g t stub_layer_def r(19,24,25) d view_def numel_def)
  with n show ?thesis by blast
qed

lemma forward_extra_layers_raises:
  "\<exists>net. GraphNetwork_init
            (example_config\<lparr> cfg_aggregate_adj := Some ''pool'', cfg_prepool_extralayers := 1 \<rparr>)
            (\<lambda>name k. 0) = Inr net
     \<and> forward net (\<lambda>i k. True) (Tensor [2, 4, 3] (replicate 24 1)) = Inl RuntimeError"
proof -
  let ?cfg = "example_config\<lparr> cfg_aggregate_adj := Some ''pool'', cfg_prepool_extralayers := 1 \<rparr>"
  have "cfg_attention_head ?cfg \<noteq> 0 \<longrightarrow> cfg_channels ?cfg \<noteq> []"
    by (simp add: example_config_def)
  from init_total [OF this] obtain net where n: "GraphNetwork_init ?cfg (\<lambda>name k. 0) = Inr net"
    by blast
  note r = init_result [OF n]
  have d: "dims net = [3, 8]" by (simp add: r(16) truthy_embedding_def example_config_def)
  have a: "aggregate_adj net = Some ''pool''" "nat (prepool_extralayers net) = Suc 0"
    by (simp_all add: r)
  have c: "conv_layers net = [make_layer net 3 3 0 None None,
             register_forward_hook
               (make_layer net 3 8 0 (Some (transform_adj net)) (aggregate_adj net))]"
    unfolding init_conv_layers_eq [OF n] d a(2) by (simp add: a(1))
  have g: "gating_layers net = [None]" "dropout_layers net = [None]" "gating net = 0"
    "embedding net = None" "attention_head net = 0" "nrows (cfg_adj ?cfg) = 4"
    by (simp_all add: r example_config_def)
  have t: "graph_layer_type net = stub_layer" by (simp add: r(7) example_config_def)
  have "forward net (\<lambda>i k. True) (Tensor [2, 4, 3] (replicate 24 1)) = Inl RuntimeError"
    by (simp add: forward_unfold c g t stub_layer_def r(19,24,25) d view_def numel_def
        Linear_forward_def Linear_init_def example_config_def)
  with n show ?thesis by blast
qed

lemma forward_zero_width_gate_raises:
  "\<exists>net. GraphNetwork_init (example_config\<lparr> cfg_channels := [0], cfg_gating := 1 / 2 \<rparr>)
            (\<lambda>name k. 0) = Inr net
     \<and> forward net (\<lambda>i k. True) (Tensor [2, 4, 3] (replicate 24 1)) = Inl RuntimeError"
proof -
  let ?cfg = "example_config\<lparr> cfg_channels := [0], cfg_gating := 1 / 2 \<rparr>"
  have "cfg_attention_head ?cfg \<noteq> 0 \<longrightarrow> cfg_channels ?cfg \<noteq> []"
    by (simp add: example_config_def)
  from init_total [OF this] obtain net where n: "GraphNetwork_init ?cfg (\<lambda>name k. 0) = Inr net"
    by blast
  note r = init_result [OF n]
  have c: "conv_layers net = [register_forward_hook
             (make_layer net 3 0 0 (Some (transform_adj net)) (aggregate_adj net))]"
    using example_net [OF n, of 0] by (simp add: example_config_def truthy_embedding_def)
  have g: "dropout_layers net = [None]" "gating net = 1 / 2"
    "embedding net = None" "attention_head net = 0"
    by (simp_all add: r example_config_def)
  have gl: "gating_layers net = [Some (register_forward_hook (new_module
                   (ElementwiseGateLayer_init 0
                      (\<lambda>k. 0) (\<lambda>k. 0))))]"
    by (simp add: r(20) Let_def)
  have t: "graph_layer_type net = stub_layer" by (simp add: r(7) example_config_def)
  have "forward net (\<lambda>i k. True) (Tensor [2, 4, 3] (replicate 24 1)) = Inl RuntimeError"
    by (simp add: forward_unfold c g gl t stub_layer_def ElementwiseGateLayer_forward_def
        view_def numel_def)
  with n show ?thesis by blast
qed

lemma forward_zero_width_attention_raises:
  "\<exists>net. GraphNetwork_init (example_config\<lparr> cfg_channels := [0], cfg_attention_head := 2 \<rparr>)
            (\<lambda>name k. 0) = Inr net
     \<and> forward net (\<lambda>i k. True) (Tensor [2, 4, 3] (replicate 24 1)) = Inl RuntimeError"
proof -
  let ?cfg = "example_config\<lparr> cfg_channels := [0], cfg_attention_head := 2 \<rparr>"
  have "cfg_attention_head ?cfg \<noteq> 0 \<longrightarrow> cfg_channels ?cfg \<noteq> []"
    by (simp add: example_config_def)
  from init_total [OF this] obtain net where n: "GraphNetwork_init ?cfg (\<lambda>name k. 0) = Inr net"
    by blast
  note r = init_result [OF n]
  have c: "conv_layers net = [register_forward_hook
             (make_layer net 3 0 0 (Some (transform_adj net)) (aggregate_adj net))]"
    using example_net [OF n, of 0] by (simp add: example_config_def truthy_embedding_def)
  have g: "dropout_layers net = [None]" "gating_layers net = [None]" "gating net = 0"
    "embedding net = None" "attention_head net = 2"
    by (simp_all add: r example_config_def)
  have al: "attention_layer net = Some (register_forward_hook (new_module
                   (AttentionLayer_init 0 2 (\<lambda>k. 0) (\<lambda>k. 0))))"
    by (simp add: r(22))
  have t: "graph_layer_type net = stub_layer" by (simp add: r(7) example_config_def)
  have "forward net (\<lambda>i k. True) (Tensor [2, 4, 3] (replicate 24 1)) = Inl RuntimeError"
    by (simp add: forward_unfold c g al t stub_layer_def AttentionLayer_forward_def
        view_def numel_def)
  with n show ?thesis by blast
qed

text \<open>
  Then those on the gradients.  Inside \<^verbatim>\<open>torch.no_grad()\<close> no tensor requires grad, and the
  first gradient hook cannot be registered.  With gradients recorded, the same happens
  without gating for a layer type without parameters on an input that does not require
  grad.
\<close>

lemma forward_no_grad_raises:
  "\<exists>net. GraphNetwork_init example_config (\<lambda>name k. 0) = Inr net
     \<and> GraphNetwork_forward net \<lparr> grad_enabled = False, cuda_available = False \<rparr> (\<lambda>i k. True)
         (Variable (Tensor [2, 4, 3] (replicate 24 1)) False CPU) = Inl RuntimeError"
proof -
  have "cfg_attention_head example_config \<noteq> 0 \<longrightarrow> cfg_channels example_config \<noteq> []"
    by (simp add: example_config_def)
  from init_total [OF this] obtain net where n: "GraphNetwork_init example_config (\<lambda>name k. 0) = Inr net"
    by blast
  note r = init_result [OF n]
  have c: "conv_layers net = [register_forward_hook
             (make_layer net 3 8 0 (Some (transform_adj net)) (aggregate_adj net))]"
    using example_net [OF n, of 8] by (simp add: example_config_def truthy_embedding_def)
  have g: "gating_layers net = [None]" "dropout_layers net = [None]" "gating net = 0"
    "embedding net = None" "attention_head net = 0"
    by (simp_all add: r example_config_def)
  have t: "graph_layer_type net = stub_layer" by (simp add: r(7) example_config_def)
  have "GraphNetwork_forward net \<lparr> grad_enabled = False, cuda_available = False \<rparr> (\<lambda>i k. True)
         (Variable (Tensor [2, 4, 3] (replicate 24 1)) False CPU) = Inl RuntimeError"
    by (simp add: forward_unfold c g t stub_layer_def)
  with n show ?thesis by blast
qed

lemma forward_parameterless_layer_raises:
  "\<exists>net. GraphNetwork_init (example_config\<lparr> cfg_graph_layer_type := parameterless_layer \<rparr>)
            (\<lambda>name k. 0) = Inr net
     \<and> forward net (\<lambda>i k. True) (Tensor [2, 4, 3] (replicate 24 1)) = Inl RuntimeError"
proof -
  let ?cfg = "example_config\<lparr> cfg_graph_layer_type := parameterless_layer \<rparr>"
  have "cfg_attention_head ?cfg \<noteq> 0 \<longrightarrow> cfg_channels ?cfg \<noteq> []"
    by (simp add: example_config_def)
  from init_total [OF this] obtain net where n: "GraphNetwork_init ?cfg (\<lambda>name k. 0) = Inr net"
    by blast
  note r = init_result [OF n]
  have c: "conv_layers net = [register_forward_hook
             (make_layer net 3 8 0 (Some (transform_adj net)) (aggregate_adj net))]"
    using example_net [OF n, of 8] by (simp add: example_config_def truthy_embedding_def)
  have g: "gating_layers net = [None]" "dropout_layers net = [None]" "gating net = 0"
    "embedding net = None" "attention_head net = 0"
    by (simp_all add: r example_config_def)
  have t: "graph_layer_type net = parameterless_layer" by (simp add: r(7))
  have "forward net (\<lambda>i k. True) (Tensor [2, 4, 3] (replicate 24 1)) = Inl RuntimeError"
    by (simp add: forward_unfold c g t parameterless_layer_def)
  with n show ?thesis by blast
qed

text \<open>
  And those on the devices.  With dropout and the \<^verbatim>\<open>cuda\<close> flag, the mask is moved to the
  CUDA device: on a machine without one the move raises, and with one the product with
  the tensor on the CPU raises.  An input on the CUDA device does not fit the parameters
  of the classifier, which the constructor leaves on the CPU.
\<close>

lemma forward_cuda_mask_raises:
  "\<exists>net. GraphNetwork_init (example_config\<lparr> cfg_cuda := True, cfg_dropout := True \<rparr>)
            (\<lambda>name k. 0) = Inr net
     \<and> GraphNetwork_forward net \<lparr> grad_enabled = True, cuda_available = False \<rparr> (\<lambda>i k. True)
         (Variable (Tensor [2, 4, 3] (replicate 24 1)) False CPU) = Inl NoCudaDevice
     \<and> GraphNetwork_forward net \<lparr> grad_enabled = True, cuda_available = True \<rparr> (\<lambda>i k. True)
         (Variable (Tensor [2, 4, 3] (replicate 24 1)) False CPU) = Inl RuntimeError"
proof -
  let ?cfg = "example_config\<lparr> cfg_cuda := True, cfg_dropout := True \<rparr>"
  have "cfg_attention_head ?cfg \<noteq> 0 \<longrightarrow> cfg_channels ?cfg \<noteq> []"
    by (simp add: example_config_def)
  from init_total [OF this] obtain net where n: "GraphNetwork_init ?cfg (\<lambda>name k. 0) = Inr net"
    by blast
  note r = init_result [OF n]
  have c: "conv_layers net = [register_forward_hook
             (make_layer net 3 8 0 (Some (transform_adj net)) (aggregate_adj net))]"
    using example_net [OF n, of 8] by (simp add: example_config_def truthy_embedding_def)
  have g: "gating_layers net = [None]" "gating net = 0" "cuda net"
    "embedding net = None" "attention_head net = 0"
    by (simp_all add: r example_config_def)
  have dl: "dropout_layers net = [Some \<lparr> drop_p = dropout_probability True 0 \<rparr>]"
    by (simp add: r(21) example_config_def)
  have t: "graph_layer_type net = stub_layer" by (simp add: r(7) example_config_def)
  let ?x = "Tensor [2, 4, 8] (map relu (replicate 64 1))"
  let ?m = "Tensor [2, 4, Suc 0]
             (data (Dropout_forward \<lparr> drop_p = dropout_probability True 0 \<rparr> (training net)
                      (\<lambda>k. True) (ones [2, 4])))"
  have u: "dropout_mask net (\<lambda>k. True) \<lparr> drop_p = dropout_probability True 0 \<rparr> ?x = Inr ?m"
    by (simp add: dropout_mask_def size_at_def unsqueeze_def Let_def ones_def)
  from tmul_shape [of ?x ?m "[2, 4, 8]"] obtain y where y: "tmul ?x ?m = Inr y"
    by (auto simp: broadcast_mask_right)
  have 1: "GraphNetwork_forward net \<lparr> grad_enabled = True, cuda_available = False \<rparr> (\<lambda>i k. True)
         (Variable (Tensor [2, 4, 3] (replicate 24 1)) False CPU) = Inl NoCudaDevice"
    using u
    by (simp add: GraphNetwork_forward_def forward_stage_def call_graph_layer_def
        GraphLayer_forward_def make_layer_def register_forward_hook_def new_module_def
        save_computations_def dropout_stage_def mask_device_def register_hook_def pointwise_def
        truthy_embedding_def Let_def c g dl t stub_layer_def map_tensor_def)
  have 2: "GraphNetwork_forward net \<lparr> grad_enabled = True, cuda_available = True \<rparr> (\<lambda>i k. True)
         (Variable (Tensor [2, 4, 3] (replicate 24 1)) False CPU) = Inl RuntimeError"
    using u y
    by (simp add: GraphNetwork_forward_def forward_stage_def call_graph_layer_def
        GraphLayer_forward_def make_layer_def register_forward_hook_def new_module_def
        save_computations_def dropout_stage_def mask_device_def register_hook_def pointwise_def
        product_def truthy_embedding_def Let_def c g dl t stub_layer_def map_tensor_def)
  from n 1 2 show ?thesis by blast
qed

lemma forward_cuda_input_raises:
  "\<exists>net. GraphNetwork_init example_config (\<lambda>name k. 0) = Inr net
     \<and> GraphNetwork_forward net \<lparr> grad_enabled = True, cuda_available = True \<rparr> (\<lambda>i k. True)
         (Variable (Tensor [2, 4, 3] (replicate 24 1)) False CUDA) = Inl RuntimeError"
proof -
  have "cfg_attention_head example_config \<noteq> 0 \<longrightarrow> cfg_channels example_config \<noteq> []"
    by (simp add: example_config_def)
  from init_total [OF this] obtain net where n: "GraphNetwork_init example_config (\<lambda>name k. 0) = Inr net"
    by blast
  note r = init_result [OF n]
  have c: "conv_layers net = [register_forward_hook
             (make_layer net 3 8 0 (Some (transform_adj net)) (aggregate_adj net))]"
    using example_net [OF n, of 8] by (simp add: example_config_def truthy_embedding_def)
  have g: "gating_layers net = [None]" "dropout_layers net = [None]" "gating net = 0"
    "embedding net = None" "attention_head net = 0"
    by (simp_all add: r example_config_def)
  have t: "graph_layer_type net = stub_layer" by (simp add: r(7) example_config_def)
  have d: "dims net = [3, 8]" by (simp add: r(16) truthy_embedding_def example_config_def)
  let ?l = "register_forward_hook (new_module (Linear_init (4 * 8) 2 (\<lambda>k. 0) (\<lambda>k. 0)))
              :: (Linear, tensor) hooked"
  have ml: "my_logistic_layers net = [?l]"
    by (simp add: r(19) d example_config_def r(1))
  from Linear_forward_total [of "Tensor [2, 32] (replicate 64 1)" "module ?l"]
  obtain y where y: "Linear_forward (module ?l) (Tensor [2, 32] (replicate 64 1)) = Inr y"
    by (auto simp: register_forward_hook_def new_module_def Linear_init_def)
  have "GraphNetwork_forward net \<lparr> grad_enabled = True, cuda_available = True \<rparr> (\<lambda>i k. True)
         (Variable (Tensor [2, 4, 3] (replicate 24 1)) False CUDA) = Inl RuntimeError"
    using y
    by (simp add: GraphNetwork_forward_def forward_stage_def call_graph_layer_def call_module_def
        GraphLayer_forward_def make_layer_def register_forward_hook_def new_module_def
        save_computations_def dropout_stage_def register_hook_def pointwise_def
        with_parameters_def truthy_embedding_def Let_def c g t stub_layer_def map_tensor_def
        ml view_def numel_def r(24) relu_def)
  with n show ?thesis by blast
qed

end
